(* ===== verification/Prelude.thy ===== *)
theory Prelude
  imports Main "HOL-Library.Multiset"
begin

text \<open>
  Shared vocabulary of the development: Python's exceptions as a datatype, an
  exception-and-state effect type for methods that call the SQL backend, Python
  dictionaries as insertion-ordered association lists, and the two string
  operations the source relies on (\<open>str.lower\<close> and \<open>str.split\<close>/\<open>str.join\<close>).
\<close>

named_theorems eff_simps "unfolding rules for the effect combinators"
named_theorems dict_simps "rules for Python dictionaries as association lists"

section \<open>Exceptions\<close>

text \<open>
  The exceptions the modelled code can raise or see propagate: the cache table is
  absent (\<open>NotFound\<close>), \<open>next()\<close> on an empty result (\<open>StopIteration\<close>),
  a missing dictionary key or row column (\<open>KeyError\<close>), a row of the wrong shape
  (\<open>TypeError\<close>), a failed remote statement (\<open>SqlError\<close>), and the aggregate
  raised by the task runner (\<open>ManyError\<close>).
\<close>

datatype py_error =
    NotFound string
  | StopIteration
  | KeyError string
  | TypeError
  | SqlError string
  | ManyError "py_error list"

section \<open>Effects: state passing with exceptions\<close>

text \<open>
  A method of the source that may raise and that changes state is a function from
  the state before to a result (\<open>Inl\<close> the exception) and the state after. An
  exception keeps the state reached when it was raised: statements already executed
  stay executed.
\<close>

type_synonym ('s, 'a) eff = "'s \<Rightarrow> (py_error + 'a) \<times> 's"

definition return_eff :: "'a \<Rightarrow> ('s, 'a) eff" where
  "return_eff a = (\<lambda>s. (Inr a, s))"

definition raise_eff :: "py_error \<Rightarrow> ('s, 'a) eff" where
  "raise_eff e = (\<lambda>s. (Inl e, s))"

definition bind_eff :: "('s, 'a) eff \<Rightarrow> ('a \<Rightarrow> ('s, 'b) eff) \<Rightarrow> ('s, 'b) eff" where
  "bind_eff m f = (\<lambda>s. case m s of (Inl e, s') \<Rightarrow> (Inl e, s') | (Inr a, s') \<Rightarrow> f a s')"

lemma bind_eff_Inr [eff_simps, simp]:
  "m s = (Inr a, s') \<Longrightarrow> bind_eff m f s = f a s'"
  by (simp add: bind_eff_def)

lemma bind_eff_Inl [eff_simps, simp]:
  "m s = (Inl e, s') \<Longrightarrow> bind_eff m f s = (Inl e, s')"
  by (simp add: bind_eff_def)

lemma return_eff_apply [eff_simps, simp]: "return_eff a s = (Inr a, s)"
  by (simp add: return_eff_def)

lemma raise_eff_apply [eff_simps, simp]: "raise_eff e s = (Inl e, s)"
  by (simp add: raise_eff_def)

lemma bind_eff_return [eff_simps, simp]: "bind_eff (return_eff a) f = f a"
  by (simp add: bind_eff_def)

lemma bind_eff_raise [eff_simps, simp]: "bind_eff (raise_eff e) f = raise_eff e"
  by (simp add: bind_eff_def raise_eff_def)

lemma bind_eff_assoc [eff_simps]:
  "bind_eff (bind_eff m f) g = bind_eff m (\<lambda>a. bind_eff (f a) g)"
  by (rule ext) (simp add: bind_eff_def split: prod.splits sum.splits)

lemma bind_eff_cases:
  assumes "bind_eff m f s = (r, s')"
  obtains (err) e where "m s = (Inl e, s')" and "r = Inl e"
    | (ok) a s1 where "m s = (Inr a, s1)" and "f a s1 = (r, s')"
  using assms by (cases "m s" rule: prod.exhaust; cases "fst (m s)") (auto simp: bind_eff_def)

section \<open>Python dictionaries\<close>

text \<open>
  A Python \<open>dict\<close> keeps its keys in insertion order; \<open>d[k] = v\<close> replaces the
  value of a present key in place and appends a new key at the end. The model is an
  association list with that update. Lookup is \<open>map_of\<close>; \<open>k in d\<close> is
  membership in the keys; \<open>d.values()\<close> and \<open>d.items()\<close> read the list in order.
\<close>

type_synonym ('k, 'v) pydict = "('k \<times> 'v) list"

fun dict_set :: "('k, 'v) pydict \<Rightarrow> 'k \<Rightarrow> 'v \<Rightarrow> ('k, 'v) pydict" where
  "dict_set [] k v = [(k, v)]"
| "dict_set ((k', v') # d) k v = (if k' = k then (k, v) # d else (k', v') # dict_set d k v)"

definition dict_keys :: "('k, 'v) pydict \<Rightarrow> 'k list" where
  "dict_keys d = map fst d"

definition dict_values :: "('k, 'v) pydict \<Rightarrow> 'v list" where
  "dict_values d = map snd d"

text \<open>A dict comprehension \<open>{f(x): g(x) for x in xs}\<close>: the last binding of a key wins.\<close>

definition dict_of_pairs :: "('k \<times> 'v) list \<Rightarrow> ('k, 'v) pydict" where
  "dict_of_pairs ps = fold (\<lambda>(k, v) d. dict_set d k v) ps []"

text \<open>\<open>{v: k for (k, v) in d.items()}\<close>: the dictionary turned around.\<close>

definition dict_invert :: "('k, 'v) pydict \<Rightarrow> ('v, 'k) pydict" where
  "dict_invert d = dict_of_pairs (map (\<lambda>(k, v). (v, k)) d)"

lemma map_of_dict_set [dict_simps, simp]: "map_of (dict_set d k v) = (map_of d)(k \<mapsto> v)"
  by (induction d) (auto simp: fun_eq_iff)

lemma keys_dict_set [dict_simps, simp]:
  "set (dict_keys (dict_set d k v)) = insert k (set (dict_keys d))"
  by (induction d k v rule: dict_set.induct) (auto simp: dict_keys_def)

lemma distinct_dict_set [dict_simps, simp]:
  "distinct (dict_keys d) \<Longrightarrow> distinct (dict_keys (dict_set d k v))"
proof (induction d)
  case Nil
  then show ?case by (simp add: dict_keys_def)
next
  case (Cons p d)
  then show ?case
    using keys_dict_set [of d k v] by (cases p) (auto simp: dict_keys_def)
qed

lemma set_dict_set [dict_simps]: "set (dict_set d k v) \<subseteq> insert (k, v) (set d)"
  by (induction d k v rule: dict_set.induct) auto

lemma dict_set_present [dict_simps]:
  "k \<in> set (dict_keys d) \<Longrightarrow> dict_keys (dict_set d k v) = dict_keys d"
  by (induction d) (fastforce simp: dict_keys_def)+

lemma dict_set_absent [dict_simps]:
  "k \<notin> set (dict_keys d) \<Longrightarrow> dict_set d k v = d @ [(k, v)]"
  by (induction d) (auto simp: dict_keys_def)

lemma map_of_fold_dict_set:
  "map_of (fold (\<lambda>(k, v) d. dict_set d k v) ps d) = map_of (rev ps @ d)"
  by (induction ps arbitrary: d) (auto simp: fun_eq_iff map_add_def split: option.splits)

lemma map_of_dict_of_pairs [dict_simps, simp]: "map_of (dict_of_pairs ps) = map_of (rev ps)"
  by (simp add: dict_of_pairs_def map_of_fold_dict_set)

lemma distinct_keys_dict_of_pairs [dict_simps]: "distinct (dict_keys (dict_of_pairs ps))"
proof -
  have "distinct (dict_keys d) \<Longrightarrow> distinct (dict_keys (fold (\<lambda>(k, v) d. dict_set d k v) ps d))" for d
    by (induction ps arbitrary: d) auto
  then show ?thesis by (simp add: dict_of_pairs_def dict_keys_def)
qed

lemma dict_of_pairs_distinct [dict_simps]:
  "distinct (map fst ps) \<Longrightarrow> dict_of_pairs ps = ps"
proof -
  have "distinct (map fst (d @ ps)) \<Longrightarrow> fold (\<lambda>(k, v) d. dict_set d k v) ps d = d @ ps" for d
  proof (induction ps arbitrary: d)
    case Nil
    then show ?case by simp
  next
    case (Cons p ps)
    obtain k v where p: "p = (k, v)" by (cases p)
    with Cons.prems have "k \<notin> set (dict_keys d)" by (auto simp: dict_keys_def)
    then have "dict_set d k v = d @ [(k, v)]" by (rule dict_set_absent)
    with Cons p show ?case by simp
  qed
  from this [of "[]"] show "distinct (map fst ps) \<Longrightarrow> dict_of_pairs ps = ps"
    by (simp add: dict_of_pairs_def)
qed

lemma map_of_dict_invert [dict_simps, simp]:
  "map_of (dict_invert d) = map_of (rev (map (\<lambda>(k, v). (v, k)) d))"
  by (simp add: dict_invert_def)

lemma dict_invert_Some [dict_simps]:
  "map_of (dict_invert d) v = Some k \<Longrightarrow> (k, v) \<in> set d"
  by (auto dest!: map_of_SomeD)

lemma dom_dict_invert [dict_simps]: "dom (map_of (dict_invert d)) = set (dict_values d)"
  by (simp add: dict_values_def dom_map_of_conv_image_fst image_image case_prod_unfold)

lemma map_of_distinct_iff [dict_simps]:
  "distinct (dict_keys d) \<Longrightarrow> map_of d k = Some v \<longleftrightarrow> (k, v) \<in> set d"
  by (simp add: dict_keys_def)

section \<open>Strings\<close>

text \<open>
  \<open>str.lower()\<close> on ASCII letters. Isabelle's \<open>char\<close> is a byte, so a non-ASCII
  code point is several \<open>char\<close>s and is left as it is; Python would also lower it.
\<close>

definition lower_char :: "char \<Rightarrow> char" where
  "lower_char c = (let n = (of_char c :: nat) in if 65 \<le> n \<and> n \<le> 90 then char_of (n + 32) else c)"

definition lower :: "string \<Rightarrow> string" where
  "lower s = map lower_char s"

lemma lower_char_idem [simp]: "lower_char (lower_char c) = lower_char c"
  by (simp add: lower_char_def Let_def)

lemma lower_idem [simp]: "lower (lower s) = lower s"
  by (simp add: lower_def)

lemma lower_append [simp]: "lower (s @ t) = lower s @ lower t"
  by (simp add: lower_def)

text \<open>Format specifications: \<open>f"{s:<n}"\<close> pads on the right, \<open>f"{i:n}"\<close> of an
  integer pads on the left; neither truncates. \<open>str(n)\<close> of a natural number.\<close>

definition pad_right :: "nat \<Rightarrow> string \<Rightarrow> string" where
  "pad_right n s = s @ replicate (n - length s) CHR '' ''"

definition pad_left :: "nat \<Rightarrow> string \<Rightarrow> string" where
  "pad_left n s = replicate (n - length s) CHR '' '' @ s"

fun py_str_nat :: "nat \<Rightarrow> string" where
  "py_str_nat n = (if n < 10 then [char_of (48 + n)] else py_str_nat (n div 10) @ [char_of (48 + n mod 10)])"

declare py_str_nat.simps [simp del]

text \<open>\<open>s.split(d)\<close> with a one-character separator: every separator splits, so the
  result has one more piece than \<open>s\<close> has separators, empty pieces included.\<close>

fun py_split :: "char \<Rightarrow> string \<Rightarrow> string list" where
  "py_split d [] = [[]]"
| "py_split d (c # cs) =
     (if c = d then [] # py_split d cs
      else (case py_split d cs of [] \<Rightarrow> [[c]] | w # ws \<Rightarrow> (c # w) # ws))"

text \<open>\<open>d.join(ws)\<close>.\<close>

fun py_join :: "char \<Rightarrow> string list \<Rightarrow> string" where
  "py_join d [] = []"
| "py_join d [w] = w"
| "py_join d (w # v # ws) = w @ d # py_join d (v # ws)"

lemma py_split_nonempty [simp]: "py_split d s \<noteq> []"
  by (induction s) (auto split: list.splits)

lemma py_split_pieces: "w \<in> set (py_split d s) \<Longrightarrow> d \<notin> set w"
  by (induction s arbitrary: w) (auto split: if_splits list.splits)

lemma py_join_cons [simp]: "ws \<noteq> [] \<Longrightarrow> py_join d (w # ws) = w @ d # py_join d ws"
  by (cases ws) auto

lemma py_join_cons_char [simp]: "py_join d ((c # w) # ws) = c # py_join d (w # ws)"
  by (cases ws) auto

lemma py_join_split [simp]: "py_join d (py_split d s) = s"
proof (induction s)
  case Nil
  then show ?case by simp
next
  case (Cons c cs)
  then show ?case
    by (cases "py_split d cs") (auto simp del: py_join_cons)
qed

lemma py_split_append_sep: "d \<notin> set w \<Longrightarrow> py_split d (w @ d # s) = w # py_split d s"
  by (induction w) auto

lemma py_split_no_sep: "d \<notin> set w \<Longrightarrow> py_split d w = [w]"
  by (induction w) auto

lemma py_split_join:
  "ws \<noteq> [] \<Longrightarrow> \<forall>w \<in> set ws. d \<notin> set w \<Longrightarrow> py_split d (py_join d ws) = ws"
proof (induction ws rule: py_join.induct)
  case (2 d w)
  then show ?case by (simp add: py_split_no_sep)
next
  case (3 d w v ws)
  then show ?case by (simp add: py_split_append_sep)
qed simp

lemma length_pad_right [simp]: "length (pad_right n s) = max n (length s)"
  by (simp add: pad_right_def)

lemma length_pad_left [simp]: "length (pad_left n s) = max n (length s)"
  by (simp add: pad_left_def)

lemma length_py_str_nat: "n < 10 ^ k \<Longrightarrow> 0 < k \<Longrightarrow> length (py_str_nat n) \<le> k"
proof (induction n arbitrary: k rule: py_str_nat.induct)
  case (1 n)
  show ?case
  proof (cases "n < 10")
    case True
    with "1.prems" show ?thesis by (simp add: py_str_nat.simps)
  next
    case False
    have k: "1 < k"
    proof (rule ccontr)
      assume "\<not> 1 < k"
      with "1.prems" have "k = 1" by simp
      with "1.prems" False show False by simp
    qed
    with "1.prems" have "n div 10 < 10 ^ (k - 1)"
      by (metis One_nat_def Suc_pred less_mult_imp_div_less power_Suc2 zero_less_one less_trans)
    with False k "1.IH" have "length (py_str_nat (n div 10)) \<le> k - 1" by simp
    with False k show ?thesis by (simp add: py_str_nat.simps [of n])
  qed
qed

end

