(* ===== verification/Catalog.thy ===== *)
theory Catalog
  imports Prelude
begin

text \<open>
  The data the orchestrator consumes and the interfaces it calls, as far as
  \<open>table_migrate.py\<close> uses them. The source inventory record (\<open>Table\<close>), the
  strategy classification (\<open>What\<close>), the mapping rule (\<open>Rule\<close>), the report row
  (\<open>MigrationCount\<close>) and the statement shapes live in modules that are not part of
  the sources given here; they are modelled from the specification (sections 3 and 6).
  The collaborators (SQL backend, workspace client, inventory crawler, rule mapping,
  clock) are one record \<open>'w env\<close> of functions over an abstract remote world
  \<open>'w\<close>: every lemma about the orchestrator holds for every backend.
\<close>

section \<open>Source objects, rules and report rows\<close>

text \<open>The strategy classification, a closed enumeration (spec section 3), in the
  order \<open>list(What)\<close> enumerates it.\<close>

datatype What = DBFS_ROOT_DELTA | EXTERNAL_SYNC | VIEW | NOT_SUPPORTED

definition all_whats :: "What list" where
  "all_whats = [DBFS_ROOT_DELTA, EXTERNAL_SYNC, VIEW, NOT_SUPPORTED]"

definition what_name :: "What \<Rightarrow> string" where
  "what_name w = (case w of
      DBFS_ROOT_DELTA \<Rightarrow> ''DBFS_ROOT_DELTA''
    | EXTERNAL_SYNC \<Rightarrow> ''EXTERNAL_SYNC''
    | VIEW \<Rightarrow> ''VIEW''
    | NOT_SUPPORTED \<Rightarrow> ''NOT_SUPPORTED'')"

text \<open>A source table or view of the legacy metastore, as the inventory crawler reports it.\<close>

record table =
  catalog :: string
  database :: string
  name :: string
  object_type :: string
  what :: What
  location :: "string option"
  view_text :: "string option"
  upgraded_to :: "string option"

text \<open>\<open>Table.key\<close>: the lower-cased three-part name; \<open>Table.kind\<close>: a view iff it has a view text.\<close>

definition key :: "table \<Rightarrow> string" where
  "key t = lower (catalog t @ ''.'' @ database t @ ''.'' @ name t)"

definition kind :: "table \<Rightarrow> string" where
  "kind t = (if view_text t \<noteq> None then ''VIEW'' else ''TABLE'')"

record rule =
  rule_workspace_name :: string
  rule_catalog_name :: string
  rule_src_schema :: string
  rule_dst_schema :: string
  rule_src_table :: string
  rule_dst_table :: string

text \<open>\<open>Rule.as_uc_table_key\<close>: the destination name, not lower-cased.\<close>

definition as_uc_table_key :: "rule \<Rightarrow> string" where
  "as_uc_table_key r = rule_catalog_name r @ ''.'' @ rule_dst_schema r @ ''.'' @ rule_dst_table r"

record table_to_migrate =
  ttm_src :: table
  ttm_rule :: rule

record migration_count =
  mc_database :: string
  mc_what_count :: "(What, nat) pydict"

section \<open>Statements and rows\<close>

text \<open>
  The statement shapes the orchestrator sends to the SQL backend (spec section 6).
  \<open>SetUpgradedTo\<close> tags the source with its destination (\<open>sql_alter_to\<close>);
  \<open>SetUpgradedFrom\<close> tags the destination with its source and the workspace id
  (\<open>sql_alter_from\<close>); \<open>UnsetUpgradedTo\<close> clears the source tag.
\<close>

datatype stmt =
    CreateDeepClone table string
  | SyncTable table string
  | CreateView table string
  | SetUpgradedTo table string
  | SetUpgradedFrom table string int
  | UnsetUpgradedTo table
  | DropIfExists string string
  | ShowTblProperties string
  | SelectAll string string

definition sql_migrate_dbfs :: "table \<Rightarrow> string \<Rightarrow> stmt" where
  "sql_migrate_dbfs t target = CreateDeepClone t target"

definition sql_migrate_external :: "table \<Rightarrow> string \<Rightarrow> stmt" where
  "sql_migrate_external t target = SyncTable t target"

definition sql_migrate_view :: "table \<Rightarrow> string \<Rightarrow> stmt" where
  "sql_migrate_view t target = CreateView t target"

definition sql_alter_to :: "table \<Rightarrow> string \<Rightarrow> stmt" where
  "sql_alter_to t target = SetUpgradedTo t target"

definition sql_alter_from :: "table \<Rightarrow> string \<Rightarrow> int \<Rightarrow> stmt" where
  "sql_alter_from t target ws_id = SetUpgradedFrom t target ws_id"

definition sql_unset_upgraded_to :: "table \<Rightarrow> stmt" where
  "sql_unset_upgraded_to t = UnsetUpgradedTo t"

lemmas sql_defs = sql_migrate_dbfs_def sql_migrate_external_def sql_migrate_view_def
  sql_alter_to_def sql_alter_from_def sql_unset_upgraded_to_def

text \<open>A result row: its columns by name, in order, each value a string or SQL NULL.
  Reading a column the row does not have raises.\<close>

type_synonym row = "(string \<times> string option) list"

definition row_get :: "row \<Rightarrow> string \<Rightarrow> py_error + string option" where
  "row_get r c = (case map_of r c of None \<Rightarrow> Inl (KeyError c) | Some v \<Rightarrow> Inr v)"

text \<open>\<open>str(x)\<close> of an optional string, as an f-string renders it.\<close>

definition py_str_opt :: "string option \<Rightarrow> string" where
  "py_str_opt v = (case v of None \<Rightarrow> ''None'' | Some s \<Rightarrow> s)"

section \<open>The workspace catalog listing\<close>

record schema_info =
  si_catalog_name :: string
  si_name :: string

record table_info =
  ti_name :: string
  ti_full_name :: "string option"
  ti_properties :: "(string, string) pydict option"

section \<open>Collaborators and the run-time state\<close>

text \<open>
  The interfaces of spec section 6 over a remote world \<open>'w\<close>: statement execution
  and fetching (a fetch may change the world: \<open>SYNC\<close> does), saving a table, the
  catalog listing, the caller's workspace id, the inventory crawler's snapshot, the
  rule mapping, and the clock.
\<close>

record 'w env =
  be_execute :: "stmt \<Rightarrow> 'w \<Rightarrow> py_error + 'w"
  be_fetch :: "stmt \<Rightarrow> 'w \<Rightarrow> py_error + (row list \<times> 'w)"
  be_save_table :: "string \<Rightarrow> row list \<Rightarrow> 'w \<Rightarrow> py_error + 'w"
  catalogs_list :: "'w \<Rightarrow> string list"
  schemas_list :: "'w \<Rightarrow> string \<Rightarrow> schema_info list"
  tables_list :: "'w \<Rightarrow> string \<Rightarrow> string \<Rightarrow> table_info list"
  get_workspace_id :: "'w \<Rightarrow> int"
  tc_snapshot :: "'w \<Rightarrow> table list"
  get_tables_to_migrate :: "'w \<Rightarrow> table_to_migrate list"
  clock :: "'w \<Rightarrow> string"

text \<open>
  What the two excluded collaborators promise (spec section 2). The inventory crawler
  (\<open>TablesCrawler.snapshot\<close>) lists each source object once: its keys are distinct.
  The rule mapping (\<open>TableMapping.get_rules\<close>) returns pairs whose source is an
  object of the inventory, with at most one rule per source identity within a run.
  Neither promises distinct destinations.
\<close>

definition inventory_contract :: "table list \<Rightarrow> bool" where
  "inventory_contract inventory = distinct (map key inventory)"

definition mapping_contract :: "table list \<Rightarrow> table_to_migrate list \<Rightarrow> bool" where
  "mapping_contract inventory pairs =
     (list_all (\<lambda>p. ttm_src p \<in> set inventory) pairs \<and> distinct (map (\<lambda>p. key (ttm_src p)) pairs))"

datatype log_level = DEBUG | INFO | WARNING | ERROR

text \<open>
  The process state: the remote world, the log, the lines printed, and the one field
  of \<open>TablesMigrate\<close> that its methods write, \<open>self._seen_tables\<close>.
\<close>

record 'w rt =
  remote :: 'w
  logs :: "(log_level \<times> string) list"
  stdout :: "string list"
  seen_tables :: "(string, string) pydict"

definition sql_execute :: "'w env \<Rightarrow> stmt \<Rightarrow> ('w rt, unit) eff" where
  "sql_execute env s = (\<lambda>st. case be_execute env s (remote st) of
      Inl e \<Rightarrow> (Inl e, st)
    | Inr w \<Rightarrow> (Inr (), st\<lparr>remote := w\<rparr>))"

definition sql_fetch :: "'w env \<Rightarrow> stmt \<Rightarrow> ('w rt, row list) eff" where
  "sql_fetch env s = (\<lambda>st. case be_fetch env s (remote st) of
      Inl e \<Rightarrow> (Inl e, st)
    | Inr (rows, w) \<Rightarrow> (Inr rows, st\<lparr>remote := w\<rparr>))"

definition save_table :: "'w env \<Rightarrow> string \<Rightarrow> row list \<Rightarrow> ('w rt, unit) eff" where
  "save_table env n rows = (\<lambda>st. case be_save_table env n rows (remote st) of
      Inl e \<Rightarrow> (Inl e, st)
    | Inr w \<Rightarrow> (Inr (), st\<lparr>remote := w\<rparr>))"

definition read_remote :: "('w \<Rightarrow> 'a) \<Rightarrow> ('w rt, 'a) eff" where
  "read_remote f = (\<lambda>st. (Inr (f (remote st)), st))"

definition log_msg :: "log_level \<Rightarrow> string \<Rightarrow> ('w rt, unit) eff" where
  "log_msg l m = (\<lambda>st. (Inr (), st\<lparr>logs := logs st @ [(l, m)]\<rparr>))"

definition print_line :: "string \<Rightarrow> ('w rt, unit) eff" where
  "print_line m = (\<lambda>st. (Inr (), st\<lparr>stdout := stdout st @ [m]\<rparr>))"

definition print_lines :: "string list \<Rightarrow> ('w rt, unit) eff" where
  "print_lines ms = (\<lambda>st. (Inr (), st\<lparr>stdout := stdout st @ ms\<rparr>))"

text \<open>A step that only appends to the log.\<close>

definition logs_only :: "'w rt \<Rightarrow> 'w rt \<Rightarrow> bool" where
  "logs_only st st' = (\<exists>ls. st' = st\<lparr>logs := logs st @ ls\<rparr>)"

lemma read_remote_apply [eff_simps, simp]: "read_remote f st = (Inr (f (remote st)), st)"
  by (simp add: read_remote_def)

lemma log_msg_apply [eff_simps, simp]:
  "log_msg l m st = (Inr (), st\<lparr>logs := logs st @ [(l, m)]\<rparr>)"
  by (simp add: log_msg_def)

lemma print_line_apply [eff_simps, simp]:
  "print_line m st = (Inr (), st\<lparr>stdout := stdout st @ [m]\<rparr>)"
  by (simp add: print_line_def)

lemma bind_log_msg [eff_simps, simp]:
  "bind_eff (log_msg l m) f st = f () (st\<lparr>logs := logs st @ [(l, m)]\<rparr>)"
  by (simp add: bind_eff_def log_msg_def)

lemma bind_read_remote [eff_simps, simp]:
  "bind_eff (read_remote g) f st = f (g (remote st)) st"
  by (simp add: bind_eff_def read_remote_def)

lemma bind_print_lines [eff_simps, simp]:
  "bind_eff (print_lines ms) f st = f () (st\<lparr>stdout := stdout st @ ms\<rparr>)"
  by (simp add: bind_eff_def print_lines_def)

lemma sql_execute_ok [eff_simps]:
  "be_execute env s (remote st) = Inr w \<Longrightarrow> sql_execute env s st = (Inr (), st\<lparr>remote := w\<rparr>)"
  by (simp add: sql_execute_def)

lemma sql_execute_err [eff_simps]:
  "be_execute env s (remote st) = Inl e \<Longrightarrow> sql_execute env s st = (Inl e, st)"
  by (simp add: sql_execute_def)

lemma sql_fetch_ok [eff_simps]:
  "be_fetch env s (remote st) = Inr (rows, w) \<Longrightarrow> sql_fetch env s st = (Inr rows, st\<lparr>remote := w\<rparr>)"
  by (simp add: sql_fetch_def)

lemma sql_fetch_err [eff_simps]:
  "be_fetch env s (remote st) = Inl e \<Longrightarrow> sql_fetch env s st = (Inl e, st)"
  by (simp add: sql_fetch_def)

text \<open>A call that touches neither the log nor the remote world leaves the other
  fields alone: the frame rules the component proofs share.\<close>

lemma sql_execute_frame [eff_simps]:
  "sql_execute env s st = (r, st') \<Longrightarrow>
     logs st' = logs st \<and> stdout st' = stdout st \<and> seen_tables st' = seen_tables st"
  by (auto simp: sql_execute_def split: sum.splits)

lemma sql_fetch_frame [eff_simps]:
  "sql_fetch env s st = (r, st') \<Longrightarrow>
     logs st' = logs st \<and> stdout st' = stdout st \<and> seen_tables st' = seen_tables st"
  by (auto simp: sql_fetch_def split: sum.splits)

lemma logs_only_refl [simp]: "logs_only st st"
  unfolding logs_only_def by (rule exI [of _ "[]"]) simp

lemma logs_only_log [simp]: "logs_only st (st\<lparr>logs := logs st @ ls\<rparr>)"
  unfolding logs_only_def by blast

lemma logs_only_trans: "logs_only s1 s2 \<Longrightarrow> logs_only s2 s3 \<Longrightarrow> logs_only s1 s3"
  unfolding logs_only_def by force

lemma logs_only_fields [simp]:
  "logs_only st st' \<Longrightarrow> remote st' = remote st \<and> stdout st' = stdout st \<and> seen_tables st' = seen_tables st"
  unfolding logs_only_def by auto

end

