(* ===== verification/Refresher.thy ===== *)
theory Refresher
  imports Catalog
begin

text \<open>
  \<open>MigrationStatusRefresher\<close> (table_migrate.py, lines 220--276) and the generic
  crawl-or-load cache it is built on (\<open>CrawlerBase._snapshot\<close>, spec section 4.1).
  The seen-objects index is \<open>get_seen_tables\<close>: a scan of every schema of every
  catalog, keeping each destination object tagged \<open>upgraded_from\<close>. The point check
  is \<open>is_upgraded\<close>, the reconciliation pass is \<open>crawl\<close>, and \<open>snapshot\<close> runs
  the reconciliation only when the cache table is absent.
\<close>

section \<open>Migration status records\<close>

record migration_status =
  src_schema :: "string option"
  src_table :: "string option"
  dst_catalog :: "string option"
  dst_schema :: "string option"
  dst_table :: "string option"
  update_ts :: "string option"

section \<open>The seen-objects index\<close>

definition iter_schemas :: "'w env \<Rightarrow> 'w \<Rightarrow> schema_info list" where
  "iter_schemas env w = concat (map (schemas_list env w) (catalogs_list env w))"

text \<open>The inner loop of \<open>get_seen_tables\<close>, over the objects of one schema.\<close>

fun seen_tables_loop ::
  "schema_info \<Rightarrow> table_info list \<Rightarrow> (string, string) pydict \<Rightarrow> ('w rt, (string, string) pydict) eff"
where
  "seen_tables_loop si [] acc = return_eff acc"
| "seen_tables_loop si (t # ts) acc =
     (case ti_properties t of
        None \<Rightarrow> seen_tables_loop si ts acc
      | Some props \<Rightarrow>
          if props = [] then seen_tables_loop si ts acc
          else (case map_of props ''upgraded_from'' of
                  None \<Rightarrow> seen_tables_loop si ts acc
                | Some src \<Rightarrow>
                    (case ti_full_name t of
                       Some fn \<Rightarrow>
                         if fn \<noteq> [] then seen_tables_loop si ts (dict_set acc (lower fn) (lower src))
                         else bind_eff (log_msg WARNING (''The table '' @ ti_name t @ '' in '' @ si_name si @ '' has no full name''))
                                (\<lambda>_. seen_tables_loop si ts acc)
                     | None \<Rightarrow>
                         bind_eff (log_msg WARNING (''The table '' @ ti_name t @ '' in '' @ si_name si @ '' has no full name''))
                           (\<lambda>_. seen_tables_loop si ts acc))))"

text \<open>The outer loop, over \<open>_iter_schemas()\<close>; each schema's objects are listed
  from the world as it is when the loop reaches it.\<close>

fun seen_schemas_loop ::
  "'w env \<Rightarrow> schema_info list \<Rightarrow> (string, string) pydict \<Rightarrow> ('w rt, (string, string) pydict) eff"
where
  "seen_schemas_loop env [] acc = return_eff acc"
| "seen_schemas_loop env (si # sis) acc =
     (\<lambda>st. bind_eff
        (seen_tables_loop si (tables_list env (remote st) (si_catalog_name si) (si_name si)) acc)
        (seen_schemas_loop env sis) st)"

definition get_seen_tables :: "'w env \<Rightarrow> ('w rt, (string, string) pydict) eff" where
  "get_seen_tables env = (\<lambda>st. seen_schemas_loop env (iter_schemas env (remote st)) [] st)"

text \<open>The entry one listed object contributes to the index, if any.\<close>

definition seen_entry :: "table_info \<Rightarrow> (string \<times> string) option" where
  "seen_entry t =
     (case ti_properties t of
        None \<Rightarrow> None
      | Some props \<Rightarrow>
          (case map_of props ''upgraded_from'' of
             None \<Rightarrow> None
           | Some src \<Rightarrow>
               (case ti_full_name t of
                  None \<Rightarrow> None
                | Some fn \<Rightarrow> if fn = [] then None else Some (lower fn, lower src))))"

definition add_entry :: "(string, string) pydict \<Rightarrow> table_info \<Rightarrow> (string, string) pydict" where
  "add_entry acc t = (case seen_entry t of None \<Rightarrow> acc | Some (k, v) \<Rightarrow> dict_set acc k v)"

text \<open>The abstract index: every listed object, schema by schema, contributes its
  entry; a later entry for the same destination replaces an earlier one.\<close>

definition listed_objects :: "'w env \<Rightarrow> 'w \<Rightarrow> table_info list" where
  "listed_objects env w =
     concat (map (\<lambda>si. tables_list env w (si_catalog_name si) (si_name si)) (iter_schemas env w))"

definition seen_index :: "'w env \<Rightarrow> 'w \<Rightarrow> (string, string) pydict" where
  "seen_index env w = fold (\<lambda>t acc. add_entry acc t) (listed_objects env w) []"

section \<open>The point check\<close>

text \<open>The loop of \<open>is_upgraded\<close> over the rows of \<open>SHOW TBLPROPERTIES\<close>.\<close>

fun upgraded_scan :: "string \<Rightarrow> string \<Rightarrow> row list \<Rightarrow> ('w rt, bool) eff" where
  "upgraded_scan schema tbl [] =
     bind_eff (log_msg INFO (schema @ ''.'' @ tbl @ '' is set as not upgraded'')) (\<lambda>_. return_eff False)"
| "upgraded_scan schema tbl (r # rs) =
     (case row_get r ''key'' of
        Inl e \<Rightarrow> raise_eff e
      | Inr k \<Rightarrow>
          if k = Some ''upgraded_to''
          then bind_eff (log_msg INFO (schema @ ''.'' @ tbl @ '' is set as upgraded'')) (\<lambda>_. return_eff True)
          else upgraded_scan schema tbl rs)"

definition is_upgraded :: "'w env \<Rightarrow> string \<Rightarrow> string \<Rightarrow> ('w rt, bool) eff" where
  "is_upgraded env schema tbl =
     bind_eff (sql_fetch env (ShowTblProperties (schema @ ''.'' @ tbl))) (upgraded_scan schema tbl)"

section \<open>Reconciliation\<close>

text \<open>The destination fields, filled only from a name of exactly three parts.\<close>

definition set_dst :: "string \<Rightarrow> migration_status \<Rightarrow> migration_status" where
  "set_dst target m =
     (let parts = py_split CHR ''.'' target in
      if length parts = 3
      then m\<lparr>dst_catalog := Some (parts ! 0), dst_schema := Some (parts ! 1), dst_table := Some (parts ! 2)\<rparr>
      else m)"

text \<open>One iteration of \<open>_crawl\<close>: the point check runs only for an object the
  inverted index knows (\<open>and\<close> short-circuits).\<close>

definition status_of_table ::
  "'w env \<Rightarrow> (string, string) pydict \<Rightarrow> string \<Rightarrow> table \<Rightarrow> ('w rt, migration_status) eff"
where
  "status_of_table env reverse_seen ts t =
     (let m = \<lparr>src_schema = Some (database t), src_table = Some (name t), dst_catalog = None,
               dst_schema = None, dst_table = None, update_ts = Some ts\<rparr> in
      case map_of reverse_seen (key t) of
        None \<Rightarrow> return_eff m
      | Some target \<Rightarrow>
          bind_eff (is_upgraded env (database t) (name t))
            (\<lambda>up. return_eff (if up then set_dst target m else m)))"

fun crawl_loop ::
  "'w env \<Rightarrow> (string, string) pydict \<Rightarrow> string \<Rightarrow> table list \<Rightarrow> ('w rt, migration_status list) eff"
where
  "crawl_loop env reverse_seen ts [] = return_eff []"
| "crawl_loop env reverse_seen ts (t # tbls) =
     bind_eff (status_of_table env reverse_seen ts t)
       (\<lambda>m. bind_eff (crawl_loop env reverse_seen ts tbls) (\<lambda>ms. return_eff (m # ms)))"

definition crawl :: "'w env \<Rightarrow> ('w rt, migration_status list) eff" where
  "crawl env =
     bind_eff (read_remote (tc_snapshot env)) (\<lambda>all_tables.
     bind_eff (get_seen_tables env) (\<lambda>seen.
     bind_eff (read_remote (clock env)) (\<lambda>ts.
     crawl_loop env (dict_invert seen) ts all_tables)))"

section \<open>The cache table\<close>

text \<open>
  \<open>MigrationStatus(*row)\<close>: the row's values bind positionally to the six fields,
  the last four defaulting to \<open>None\<close>. A dataclass does not check the annotated types,
  so a NULL binds as \<open>None\<close>; only a row with fewer than two or more than six values is
  a \<open>TypeError\<close>.
\<close>

fun status_of_values :: "string option list \<Rightarrow> py_error + migration_status" where
  "status_of_values (s # t # rest) =
     (if length rest \<le> 4
      then Inr \<lparr>src_schema = s, src_table = t,
                dst_catalog = (if 0 < length rest then rest ! 0 else None),
                dst_schema = (if 1 < length rest then rest ! 1 else None),
                dst_table = (if 2 < length rest then rest ! 2 else None),
                update_ts = (if 3 < length rest then rest ! 3 else None)\<rparr>
      else Inl TypeError)"
| "status_of_values _ = Inl TypeError"

definition row_of_status :: "migration_status \<Rightarrow> row" where
  "row_of_status m =
     [(''src_schema'', src_schema m), (''src_table'', src_table m),
      (''dst_catalog'', dst_catalog m), (''dst_schema'', dst_schema m),
      (''dst_table'', dst_table m), (''update_ts'', update_ts m)]"

fun decode_rows :: "row list \<Rightarrow> py_error + migration_status list" where
  "decode_rows [] = Inr []"
| "decode_rows (r # rs) =
     (case status_of_values (map snd r) of
        Inl e \<Rightarrow> Inl e
      | Inr m \<Rightarrow> (case decode_rows rs of Inl e \<Rightarrow> Inl e | Inr ms \<Rightarrow> Inr (m # ms)))"

text \<open>The refresher's cache table \<open>hive_metastore.<schema>.migration_status\<close>.\<close>

definition status_table :: "string \<Rightarrow> string" where
  "status_table schema = ''hive_metastore.'' @ schema @ ''.migration_status''"

definition try_fetch :: "'w env \<Rightarrow> string \<Rightarrow> ('w rt, migration_status list) eff" where
  "try_fetch env schema =
     bind_eff (sql_fetch env (SelectAll schema ''migration_status'')) (\<lambda>rows.
       case decode_rows rows of Inl e \<Rightarrow> raise_eff e | Inr ms \<Rightarrow> return_eff ms)"

definition append_records :: "'w env \<Rightarrow> string \<Rightarrow> migration_status list \<Rightarrow> ('w rt, unit) eff" where
  "append_records env schema ms = save_table env (status_table schema) (map row_of_status ms)"

text \<open>
  \<open>CrawlerBase._snapshot(fetcher, loader)\<close> as the specification states it: a
  successful load is returned as it is, even when empty; a load that fails because
  the cache table does not exist is replaced by a crawl whose rows are persisted
  (overwriting) and returned; any other failure propagates.
\<close>

definition snapshot_cache ::
  "('s, 'r list) eff \<Rightarrow> ('s, 'r list) eff \<Rightarrow> ('r list \<Rightarrow> ('s, unit) eff) \<Rightarrow> ('s, 'r list) eff"
where
  "snapshot_cache fetcher loader persist =
     (\<lambda>s. case fetcher s of
        (Inr rows, s1) \<Rightarrow> (Inr rows, s1)
      | (Inl (NotFound msg), s1) \<Rightarrow>
          bind_eff loader (\<lambda>rows. bind_eff (persist rows) (\<lambda>_. return_eff rows)) s1
      | (Inl e, s1) \<Rightarrow> (Inl e, s1))"

definition snapshot :: "'w env \<Rightarrow> string \<Rightarrow> ('w rt, migration_status list) eff" where
  "snapshot env schema = snapshot_cache (try_fetch env schema) (crawl env) (append_records env schema)"

section \<open>Properties of the index scan\<close>

lemma logs_only_log_trans:
  "logs_only (st\<lparr>logs := logs st @ ls\<rparr>) st' \<Longrightarrow> logs_only st st'"
  using logs_only_trans logs_only_log by blast

lemma seen_tables_loop_fst:
  "fst (seen_tables_loop si ts acc st) = Inr (fold (\<lambda>t a. add_entry a t) ts acc)"
  by (induction ts arbitrary: acc st) (auto simp: seen_entry_def add_entry_def split: option.splits)

lemma seen_tables_loop_logs: "logs_only st (snd (seen_tables_loop si ts acc st))"
  by (induction ts arbitrary: acc st) (auto split: option.splits intro: logs_only_log_trans)

lemma seen_tables_loop_spec:
  "\<exists>st'. seen_tables_loop si ts acc st = (Inr (fold (\<lambda>t a. add_entry a t) ts acc), st') \<and> logs_only st st'"
  using seen_tables_loop_fst [of si ts acc st] seen_tables_loop_logs [of st si ts acc]
  by (metis prod.collapse)

lemma seen_schemas_loop_spec:
  "\<exists>st'. seen_schemas_loop env sis acc st =
     (Inr (fold (\<lambda>si a. fold (\<lambda>t a. add_entry a t)
             (tables_list env (remote st) (si_catalog_name si) (si_name si)) a) sis acc), st') \<and>
     logs_only st st'"
proof (induction sis arbitrary: acc st)
  case Nil
  then show ?case by simp
next
  case (Cons si sis)
  obtain st1 where l: "seen_tables_loop si (tables_list env (remote st) (si_catalog_name si) (si_name si)) acc st =
      (Inr (fold (\<lambda>t a. add_entry a t) (tables_list env (remote st) (si_catalog_name si) (si_name si)) acc), st1)"
    and o1: "logs_only st st1"
    using seen_tables_loop_spec by blast
  from o1 have "remote st1 = remote st" by simp
  with Cons.IH [of _ st1] o1 l show ?case
    by (auto intro: logs_only_trans)
qed

lemma fold_concat_map: "fold f (concat (map g xs)) a = fold (\<lambda>x. fold f (g x)) xs a"
  by (induction xs arbitrary: a) auto

lemma get_seen_tables_spec:
  "\<exists>st'. get_seen_tables env st = (Inr (seen_index env (remote st)), st') \<and> logs_only st st'"
  using seen_schemas_loop_spec [of env "iter_schemas env (remote st)" "[]" st]
  by (simp add: get_seen_tables_def seen_index_def listed_objects_def fold_concat_map)

text \<open>
  C9. The scan never raises and touches nothing but the log: it returns the abstract
  index of the objects listed in the world it reads, and leaves the remote world,
  the printed output and the orchestrator's field as they were.
\<close>

theorem get_seen_tables_refines:
  "fst (get_seen_tables env st) = Inr (seen_index env (remote st)) \<and>
   remote (snd (get_seen_tables env st)) = remote st \<and>
   stdout (snd (get_seen_tables env st)) = stdout st \<and>
   seen_tables (snd (get_seen_tables env st)) = seen_tables st"
  using get_seen_tables_spec [of env st] by auto

lemma add_entry_keys:
  "set (dict_keys (add_entry acc t)) = set (dict_keys acc) \<union> {k. \<exists>v. seen_entry t = Some (k, v)}"
  by (auto simp: add_entry_def split: option.splits)

lemma add_entry_pairs:
  "(k, v) \<in> set (add_entry acc t) \<Longrightarrow> (k, v) \<in> set acc \<or> seen_entry t = Some (k, v)"
  using set_dict_set by (fastforce simp: add_entry_def split: option.splits)

lemma add_entry_distinct: "distinct (dict_keys acc) \<Longrightarrow> distinct (dict_keys (add_entry acc t))"
  by (auto simp: add_entry_def split: option.splits)

lemma fold_add_entry_keys:
  "set (dict_keys (fold (\<lambda>t a. add_entry a t) ts acc)) =
     set (dict_keys acc) \<union> {k. \<exists>t \<in> set ts. \<exists>v. seen_entry t = Some (k, v)}"
  by (induction ts arbitrary: acc) (auto simp: add_entry_keys)

lemma fold_add_entry_pairs:
  "(k, v) \<in> set (fold (\<lambda>t a. add_entry a t) ts acc) \<Longrightarrow>
     (k, v) \<in> set acc \<or> (\<exists>t \<in> set ts. seen_entry t = Some (k, v))"
  by (induction ts arbitrary: acc) (auto dest: add_entry_pairs)

lemma fold_add_entry_distinct:
  "distinct (dict_keys acc) \<Longrightarrow> distinct (dict_keys (fold (\<lambda>t a. add_entry a t) ts acc))"
  by (induction ts arbitrary: acc) (auto simp: add_entry_distinct)

text \<open>
  C10. The index is keyed by destination, and a destination is a key exactly when
  some listed object carries an \<open>upgraded_from\<close> tag and a non-empty full name;
  every entry maps the lower-cased full name of such an object to its lower-cased
  tag value.
\<close>

theorem get_seen_tables_index:
  assumes "get_seen_tables env st = (Inr d, st')"
  shows "distinct (dict_keys d) \<and>
    set (dict_keys d) = {k. \<exists>t \<in> set (listed_objects env (remote st)). \<exists>v. seen_entry t = Some (k, v)} \<and>
    (\<forall>(k, v) \<in> set d. \<exists>t \<in> set (listed_objects env (remote st)). seen_entry t = Some (k, v))"
proof -
  from assms get_seen_tables_spec [of env st] have d: "d = seen_index env (remote st)" by auto
  have "distinct (dict_keys d)"
    unfolding d seen_index_def by (rule fold_add_entry_distinct) (simp add: dict_keys_def)
  moreover have "set (dict_keys d) =
      {k. \<exists>t \<in> set (listed_objects env (remote st)). \<exists>v. seen_entry t = Some (k, v)}"
    using fold_add_entry_keys [of "listed_objects env (remote st)" "[]"]
    unfolding d seen_index_def by (simp add: dict_keys_def)
  moreover have "\<forall>(k, v) \<in> set d. \<exists>t \<in> set (listed_objects env (remote st)). seen_entry t = Some (k, v)"
    unfolding d seen_index_def by (auto dest: fold_add_entry_pairs)
  ultimately show ?thesis by blast
qed

section \<open>Properties of the point check\<close>

lemma upgraded_scan_result:
  "\<forall>r \<in> set rows. ''key'' \<in> fst ` set r \<Longrightarrow>
   fst (upgraded_scan schema tbl rows st) = Inr (\<exists>r \<in> set rows. map_of r ''key'' = Some (Some ''upgraded_to''))"
proof (induction rows arbitrary: st)
  case Nil
  then show ?case by simp
next
  case (Cons r rs)
  from Cons.prems obtain k where k: "map_of r ''key'' = Some k"
    by (metis image_iff list.set_intros(1) map_of_eq_None_iff not_None_eq)
  with Cons show ?case by (auto simp: row_get_def)
qed

text \<open>
  C11. The point check reads the source's \<open>SHOW TBLPROPERTIES\<close> rows and answers
  True exactly when one of them has the key \<open>upgraded_to\<close>, whatever its value.
\<close>

theorem is_upgraded_iff:
  assumes "be_fetch env (ShowTblProperties (schema @ ''.'' @ tbl)) (remote st) = Inr (rows, w)"
    and "\<forall>r \<in> set rows. ''key'' \<in> fst ` set r"
  shows "fst (is_upgraded env schema tbl st) = Inr (\<exists>r \<in> set rows. map_of r ''key'' = Some (Some ''upgraded_to''))"
  using assms by (simp add: is_upgraded_def sql_fetch_ok upgraded_scan_result)

section \<open>Properties of reconciliation\<close>

lemma set_dst_src [simp]:
  "src_schema (set_dst target m) = src_schema m"
  "src_table (set_dst target m) = src_table m"
  "update_ts (set_dst target m) = update_ts m"
  by (simp_all add: set_dst_def Let_def)

lemma status_of_table_src:
  assumes "status_of_table env rs ts t st = (Inr m, st')"
  shows "src_schema m = Some (database t) \<and> src_table m = Some (name t) \<and> update_ts m = Some ts"
  using assms by (auto simp: status_of_table_def Let_def elim!: bind_eff_cases split: option.splits if_splits)

lemma crawl_loop_coverage:
  "crawl_loop env rs ts tbls st = (Inr ms, st') \<Longrightarrow>
   map (\<lambda>m. (src_schema m, src_table m, update_ts m)) ms = map (\<lambda>t. (Some (database t), Some (name t), Some ts)) tbls"
proof (induction tbls arbitrary: ms st st')
  case Nil
  then show ?case by simp
next
  case (Cons t tbls)
  from Cons.prems obtain m st1 ms' st2 where
    m: "status_of_table env rs ts t st = (Inr m, st1)" and
    rest: "crawl_loop env rs ts tbls st1 = (Inr ms', st2)" and ms: "ms = m # ms'"
    by (auto elim!: bind_eff_cases)
  from m have "src_schema m = Some (database t) \<and> src_table m = Some (name t) \<and> update_ts m = Some ts"
    by (rule status_of_table_src)
  with Cons.IH [OF rest] ms show ?case by simp
qed

text \<open>
  C12. Reconciliation coverage: a completed crawl yields exactly one status record
  per object of the source inventory, in the inventory's order, each stamped with the
  one timestamp read before the loop.
\<close>

theorem crawl_coverage:
  assumes "crawl env st = (Inr ms, st')"
  shows "map (\<lambda>m. (src_schema m, src_table m, update_ts m)) ms =
         map (\<lambda>t. (Some (database t), Some (name t), Some (clock env (remote st)))) (tc_snapshot env (remote st))"
proof -
  obtain st1 where s: "get_seen_tables env st = (Inr (seen_index env (remote st)), st1)"
    and o: "logs_only st st1"
    using get_seen_tables_spec by blast
  from o have "remote st1 = remote st" by simp
  with assms s show ?thesis
    by (auto simp: crawl_def dest!: crawl_loop_coverage)
qed

text \<open>
  C13. One object's record gets destination fields exactly when the inverted index
  knows the object, the point check then answers True, and the destination name has
  exactly three dot-separated parts; the three fields are set or unset together.
\<close>

theorem status_of_table_dst:
  assumes "status_of_table env rs ts t st = (Inr m, st')"
  shows "(dst_catalog m \<noteq> None \<longleftrightarrow>
           (\<exists>target. map_of rs (key t) = Some target \<and>
              fst (is_upgraded env (database t) (name t) st) = Inr True \<and>
              length (py_split CHR ''.'' target) = 3)) \<and>
         (dst_catalog m \<noteq> None \<longleftrightarrow> dst_schema m \<noteq> None) \<and>
         (dst_catalog m \<noteq> None \<longleftrightarrow> dst_table m \<noteq> None)"
  using assms
  by (auto simp: status_of_table_def set_dst_def Let_def elim!: bind_eff_cases split: option.splits if_splits)

text \<open>
  C14. Splitting the destination name is lossless: when the fields are set, joining
  them with dots gives back the destination name of the index.
\<close>

theorem set_dst_roundtrip:
  assumes "length (py_split CHR ''.'' target) = 3"
  shows "py_join CHR ''.'' [the (dst_catalog (set_dst target m)), the (dst_schema (set_dst target m)),
                           the (dst_table (set_dst target m))] = target"
proof -
  let ?p = "py_split CHR ''.'' target"
  from assms obtain a b c where p: "?p = [a, b, c]"
    by (auto simp: numeral_eq_Suc length_Suc_conv)
  have "py_join CHR ''.'' ?p = target" by (rule py_join_split)
  with p show ?thesis by (simp add: set_dst_def Let_def)
qed

section \<open>Properties of the cache table\<close>

text \<open>A record written as a row of the \<open>migration_status\<close> table is read back by
  \<open>MigrationStatus(*row)\<close> as the same record, and so is a whole table.\<close>

lemma decode_rows_roundtrip: "decode_rows (map row_of_status ms) = Inr ms"
  by (induction ms) (simp_all add: row_of_status_def)

lemma status_of_values_typed:
  "(\<exists>m. status_of_values vs = Inr m) \<longleftrightarrow> 2 \<le> length vs \<and> length vs \<le> 6"
  "status_of_values vs = Inl e \<Longrightarrow> e = TypeError"
  by (induction vs rule: status_of_values.induct) (auto split: if_splits)

text \<open>
  C30. The cache table's rows are typed by their arity: decoding accepts exactly the
  rows of two to six values, the positional arities \<open>MigrationStatus\<close>'s
  constructor takes, whatever values they hold (NULLs included), yields one record
  per row, and rejects any other row with \<open>TypeError\<close>.
\<close>

theorem decode_rows_typed:
  "((\<exists>ms. decode_rows rs = Inr ms) \<longleftrightarrow> list_all (\<lambda>r. 2 \<le> length r \<and> length r \<le> 6) rs) \<and>
   (case decode_rows rs of Inr ms \<Rightarrow> length ms = length rs | Inl e \<Rightarrow> e = TypeError)"
proof (induction rs)
  case (Cons r rs)
  then show ?case
    using status_of_values_typed [of "map snd r"]
    by (auto split: sum.splits)
qed simp

end

