(* ===== verification/Threads.thy ===== *)
theory Threads
  imports Prelude
begin

text \<open>
  The task runner the orchestrator hands its per-object work to
  (\<open>Threads.strict\<close> of the blueprint library, called at lines 66 and 148 of
  \<open>table_migrate.py\<close>; spec section 5). The library is not part of the sources:
  the model follows the contract the specification gives it. Every task runs, in
  some order, whatever its siblings do; an exception in one task is collected and
  does not stop the others; after all tasks the runner raises the only exception,
  or an aggregate of all of them, and otherwise returns the collected results.
  Tasks share the process state, so a schedule is an order of the tasks; the model
  runs them in list order.
\<close>

fun gather :: "('s, 'a) eff list \<Rightarrow> 's \<Rightarrow> ('a list \<times> py_error list) \<times> 's" where
  "gather [] s = (([], []), s)"
| "gather (t # ts) s =
     (case t s of
        (Inl e, s') \<Rightarrow> (case gather ts s' of ((rs, es), s'') \<Rightarrow> ((rs, e # es), s''))
      | (Inr r, s') \<Rightarrow> (case gather ts s' of ((rs, es), s'') \<Rightarrow> ((r # rs, es), s'')))"

definition strict :: "('s, 'a) eff list \<Rightarrow> ('s, 'a list) eff" where
  "strict ts s =
     (case gather ts s of
        ((rs, []), s') \<Rightarrow> (Inr rs, s')
      | ((rs, [e]), s') \<Rightarrow> (Inl e, s')
      | ((rs, es), s') \<Rightarrow> (Inl (ManyError es), s'))"

text \<open>The state each task leaves is the next task's start: a schedule is a fold.\<close>

definition run_all :: "('s, 'a) eff list \<Rightarrow> 's \<Rightarrow> 's" where
  "run_all ts s = fold (\<lambda>t s. snd (t s)) ts s"

lemma run_all_simps [simp]:
  "run_all [] s = s"
  "run_all (t # ts) s = run_all ts (snd (t s))"
  by (simp_all add: run_all_def)

lemma run_all_append [simp]: "run_all (ts @ us) s = run_all us (run_all ts s)"
  by (simp add: run_all_def)

lemma gather_Cons_state: "snd (gather (t # ts) s) = snd (gather ts (snd (t s)))"
  by (auto split: prod.splits sum.splits)

lemma gather_state: "snd (gather ts s) = run_all ts s"
  by (induction ts arbitrary: s) (simp_all only: gather_Cons_state run_all_simps, simp)

lemma gather_count:
  "length (fst (fst (gather ts s))) + length (snd (fst (gather ts s))) = length ts"
proof (induction ts arbitrary: s)
  case (Cons t ts)
  obtain r s' where t: "t s = (r, s')" by fastforce
  obtain rs es s'' where g: "gather ts s' = ((rs, es), s'')" by (metis prod.exhaust)
  from Cons.IH [of s'] g have "length rs + length es = length ts" by simp
  with t g show ?case by (cases r) auto
qed simp

lemma strict_state: "snd (strict ts s) = run_all ts s"
  using gather_state [of ts s]
  by (auto simp: strict_def split: prod.splits list.splits)

lemma strict_Inr_iff: "(\<exists>rs. fst (strict ts s) = Inr rs) \<longleftrightarrow> snd (fst (gather ts s)) = []"
  by (auto simp: strict_def split: prod.splits list.splits)

text \<open>A task list in which no task raises: the runner returns normally.\<close>

definition no_raise :: "('s, 'a) eff list \<Rightarrow> 's \<Rightarrow> bool" where
  "no_raise ts s = (snd (fst (gather ts s)) = [])"

lemma gather_no_error_Cons:
  "snd (fst (gather (t # ts) s)) = [] \<longleftrightarrow>
     (\<exists>r. fst (t s) = Inr r) \<and> snd (fst (gather ts (snd (t s)))) = []"
  by (auto split: prod.splits sum.splits)

lemma strict_bind_return:
  "snd (bind_eff (strict ts) (\<lambda>_. return_eff ()) s) = run_all ts s \<and>
   (fst (bind_eff (strict ts) (\<lambda>_. return_eff ()) s) = Inr () \<longleftrightarrow> no_raise ts s)"
proof -
  obtain r s' where st: "strict ts s = (r, s')" by fastforce
  with strict_state [of ts s] have "s' = run_all ts s" by simp
  moreover from st strict_Inr_iff [of ts s] have "(\<exists>rs. r = Inr rs) \<longleftrightarrow> no_raise ts s"
    by (simp add: no_raise_def)
  ultimately show ?thesis using st by (cases r) (auto simp: bind_eff_def)
qed

end
