(* ===== verification/Migrate.thy ===== *)
theory Migrate
  imports Refresher Threads
begin

text \<open>
  \<open>TablesMigrate\<close> (table_migrate.py, lines 33--217): the orchestrator. Its one
  field, \<open>self._seen_tables\<close>, is the \<open>seen_tables\<close> field of the process state;
  \<open>init_seen_tables\<close> fills it from the refresher at the start of \<open>migrate_tables\<close>,
  \<open>revert_migrated_tables\<close> and \<open>get_revert_count\<close>. Each per-object migration is
  one task of the runner; a task reads the index and writes only through the backend.
  \<open>print_revert_report\<close> prints the rendered lines (\<open>report_lines\<close>) to the
  \<open>stdout\<close> field. Debug-level log calls, whose text renders the SQL, are not modelled.
  The lemmas give each branch of the dispatch, the batch and revert plans, and the
  report's grouping, counts and column widths against reference definitions.
\<close>

section \<open>The index and the dispatch\<close>

definition init_seen_tables :: "'w env \<Rightarrow> ('w rt, unit) eff" where
  "init_seen_tables env =
     bind_eff (get_seen_tables env) (\<lambda>d st. (Inr (), st\<lparr>seen_tables := d\<rparr>))"

definition table_already_upgraded :: "string \<Rightarrow> ('w rt, bool) eff" where
  "table_already_upgraded target = (\<lambda>st. (Inr (target \<in> set (dict_keys (seen_tables st))), st))"

definition migrate_external_table :: "'w env \<Rightarrow> table \<Rightarrow> rule \<Rightarrow> ('w rt, bool) eff" where
  "migrate_external_table env src r =
     (let target_table_key = as_uc_table_key r;
          table_migrate_sql = sql_migrate_external src target_table_key in
      bind_eff (sql_fetch env table_migrate_sql) (\<lambda>rows.
        case rows of
          [] \<Rightarrow> raise_eff StopIteration
        | sync_result # _ \<Rightarrow>
            (case row_get sync_result ''status_code'' of
               Inl e \<Rightarrow> raise_eff e
             | Inr status_code \<Rightarrow>
                 if status_code \<noteq> Some ''SUCCESS'' then
                   (case row_get sync_result ''description'' of
                      Inl e \<Rightarrow> raise_eff e
                    | Inr description \<Rightarrow>
                        bind_eff (log_msg WARNING
                          (''SYNC command failed to migrate '' @ key src @ '' to '' @ target_table_key
                           @ ''. Status code: '' @ py_str_opt status_code
                           @ ''. Description: '' @ py_str_opt description))
                          (\<lambda>_. return_eff False))
                 else
                   bind_eff (read_remote (get_workspace_id env)) (\<lambda>ws_id.
                   bind_eff (sql_execute env (sql_alter_from src (as_uc_table_key r) ws_id)) (\<lambda>_.
                   return_eff True)))))"

definition migrate_dbfs_root_table :: "'w env \<Rightarrow> table \<Rightarrow> rule \<Rightarrow> ('w rt, bool) eff" where
  "migrate_dbfs_root_table env src r =
     (let target_table_key = as_uc_table_key r;
          table_migrate_sql = sql_migrate_dbfs src target_table_key in
      bind_eff (sql_execute env table_migrate_sql) (\<lambda>_.
      bind_eff (sql_execute env (sql_alter_to src (as_uc_table_key r))) (\<lambda>_.
      bind_eff (read_remote (get_workspace_id env)) (\<lambda>ws_id.
      bind_eff (sql_execute env (sql_alter_from src (as_uc_table_key r) ws_id)) (\<lambda>_.
      return_eff True)))))"

definition migrate_view :: "'w env \<Rightarrow> table \<Rightarrow> rule \<Rightarrow> ('w rt, bool) eff" where
  "migrate_view env src r =
     (let target_table_key = as_uc_table_key r;
          table_migrate_sql = sql_migrate_view src target_table_key in
      bind_eff (sql_execute env table_migrate_sql) (\<lambda>_.
      bind_eff (sql_execute env (sql_alter_to src (as_uc_table_key r))) (\<lambda>_.
      bind_eff (read_remote (get_workspace_id env)) (\<lambda>ws_id.
      bind_eff (sql_execute env (sql_alter_from src (as_uc_table_key r) ws_id)) (\<lambda>_.
      return_eff True)))))"

definition migrate_table :: "'w env \<Rightarrow> table \<Rightarrow> rule \<Rightarrow> ('w rt, bool) eff" where
  "migrate_table env src r =
     bind_eff (table_already_upgraded (as_uc_table_key r)) (\<lambda>up.
       if up then
         bind_eff (log_msg INFO (''Table '' @ key src @ '' already upgraded to '' @ as_uc_table_key r))
           (\<lambda>_. return_eff True)
       else if what src = DBFS_ROOT_DELTA then migrate_dbfs_root_table env src r
       else if what src = EXTERNAL_SYNC then migrate_external_table env src r
       else if what src = VIEW then migrate_view env src r
       else bind_eff (log_msg INFO (''Table '' @ key src @ '' is not supported for migration''))
              (\<lambda>_. return_eff True))"

text \<open>\<open>migrate_tables(what=None)\<close>: one task per pair the mapping returns whose
  classification matches the filter.\<close>

definition migration_tasks :: "'w env \<Rightarrow> What option \<Rightarrow> table_to_migrate list \<Rightarrow> ('w rt, bool) eff list" where
  "migration_tasks env w tables =
     map (\<lambda>t. migrate_table env (ttm_src t) (ttm_rule t))
       (filter (\<lambda>t. w = None \<or> Some (what (ttm_src t)) = w) tables)"

definition migrate_tables :: "'w env \<Rightarrow> What option \<Rightarrow> ('w rt, unit) eff" where
  "migrate_tables env w =
     bind_eff (init_seen_tables env) (\<lambda>_.
     bind_eff (read_remote (get_tables_to_migrate env)) (\<lambda>tables_to_migrate.
     bind_eff (strict (migration_tasks env w tables_to_migrate)) (\<lambda>_.
     return_eff ())))"

section \<open>Revert\<close>

text \<open>\<open>x.lower() if x else None\<close>: an empty string counts as absent.\<close>

definition lower_opt :: "string option \<Rightarrow> string option" where
  "lower_opt x = (case x of None \<Rightarrow> None | Some s \<Rightarrow> if s = [] then None else Some (lower s))"

text \<open>The loop of \<open>_get_tables_to_revert\<close>: the filters that \<open>continue\<close>, then
  membership among the index's values.\<close>

definition revert_candidate ::
  "string option \<Rightarrow> string option \<Rightarrow> (string, string) pydict \<Rightarrow> table \<Rightarrow> bool"
where
  "revert_candidate schema tbl seen t =
     ((schema = None \<or> database t = the schema) \<and>
      (tbl = None \<or> name t = the tbl) \<and>
      key t \<in> set (dict_values seen))"

definition get_tables_to_revert :: "'w env \<Rightarrow> string option \<Rightarrow> string option \<Rightarrow> ('w rt, table list) eff" where
  "get_tables_to_revert env schema0 tbl0 =
     (let schema = lower_opt schema0; tbl = lower_opt tbl0 in
      bind_eff (if tbl \<noteq> None \<and> schema = None
                then log_msg ERROR ''Cannot accept 'Table' parameter without 'Schema' parameter''
                else return_eff ()) (\<lambda>_.
      bind_eff (read_remote (tc_snapshot env)) (\<lambda>tables st.
        (Inr (filter (revert_candidate schema tbl (seen_tables st)) tables), st))))"

definition revert_migrated_table :: "'w env \<Rightarrow> table \<Rightarrow> string \<Rightarrow> ('w rt, unit) eff" where
  "revert_migrated_table env t target_table_key =
     bind_eff (log_msg INFO (''Reverting '' @ object_type t @ '' table '' @ database t @ ''.'' @ name t
                              @ '' upgraded_to '' @ py_str_opt (upgraded_to t))) (\<lambda>_.
     bind_eff (sql_execute env (sql_unset_upgraded_to t)) (\<lambda>_.
     sql_execute env (DropIfExists (kind t) target_table_key)))"

text \<open>The deletion policy: views and external tables always, managed tables only
  with \<open>delete_managed\<close>.\<close>

definition revert_eligible :: "bool \<Rightarrow> table \<Rightarrow> bool" where
  "revert_eligible delete_managed t =
     (kind t = ''VIEW'' \<or> object_type t = ''EXTERNAL'' \<or> delete_managed)"

text \<open>The loop of \<open>revert_migrated_tables\<close> building the task list; the
  lookup \<open>reverse_seen[upgraded_table.key]\<close> raises on a missing key.\<close>

fun revert_tasks ::
  "'w env \<Rightarrow> (string, string) pydict \<Rightarrow> bool \<Rightarrow> table list \<Rightarrow> ('w rt, ('w rt, unit) eff list) eff"
where
  "revert_tasks env reverse_seen dm [] = return_eff []"
| "revert_tasks env reverse_seen dm (t # ts) =
     (if revert_eligible dm t then
        (case map_of reverse_seen (key t) of
           None \<Rightarrow> raise_eff (KeyError (key t))
         | Some target \<Rightarrow>
             bind_eff (revert_tasks env reverse_seen dm ts)
               (\<lambda>tasks. return_eff (revert_migrated_table env t target # tasks)))
      else
        bind_eff (log_msg INFO (''Skipping '' @ object_type t @ '' Table '' @ database t @ ''.'' @ name t
                                 @ '' upgraded_to '' @ py_str_opt (upgraded_to t)))
          (\<lambda>_. revert_tasks env reverse_seen dm ts))"

definition revert_migrated_tables ::
  "'w env \<Rightarrow> string option \<Rightarrow> string option \<Rightarrow> bool \<Rightarrow> ('w rt, unit) eff"
where
  "revert_migrated_tables env schema tbl delete_managed =
     bind_eff (init_seen_tables env) (\<lambda>_.
     bind_eff (get_tables_to_revert env schema tbl) (\<lambda>upgraded_tables st.
     bind_eff (revert_tasks env (dict_invert (seen_tables st)) delete_managed upgraded_tables) (\<lambda>tasks.
     bind_eff (strict tasks) (\<lambda>_. return_eff ())) st))"

section \<open>Counting and reporting\<close>

text \<open>\<open>defaultdict(list)\<close> keyed by database, in first-seen order.\<close>

definition group_by_database :: "table list \<Rightarrow> (string, table list) pydict" where
  "group_by_database ts =
     fold (\<lambda>t d. dict_set d (database t)
                   ((case map_of d (database t) of None \<Rightarrow> [] | Some l \<Rightarrow> l) @ [t])) ts []"

text \<open>The per-classification count of one database's tables that carry a
  destination tag in the inventory.\<close>

definition what_count :: "table list \<Rightarrow> (What, nat) pydict" where
  "what_count ts =
     fold (\<lambda>t d. if upgraded_to t \<noteq> None
                  then dict_set d (what t) ((case map_of d (what t) of None \<Rightarrow> 0 | Some c \<Rightarrow> c) + 1)
                  else d) ts []"

definition get_revert_count ::
  "'w env \<Rightarrow> string option \<Rightarrow> string option \<Rightarrow> ('w rt, migration_count list) eff"
where
  "get_revert_count env schema tbl =
     bind_eff (init_seen_tables env) (\<lambda>_.
     bind_eff (get_tables_to_revert env schema tbl) (\<lambda>upgraded_tables.
     return_eff (map (\<lambda>(db, ts). \<lparr>mc_database = db, mc_what_count = what_count ts\<rparr>)
                  (group_by_database upgraded_tables))))"

definition tm_is_upgraded :: "'w env \<Rightarrow> string \<Rightarrow> string \<Rightarrow> ('w rt, bool) eff" where
  "tm_is_upgraded env schema tbl = is_upgraded env schema tbl"

text \<open>
  The rendering of \<open>print_revert_report\<close>: a header with the first part of each
  classification's name, one sub-header line per further part, a separator, one row
  of counts per database, the separator again, and the deletion policy.
\<close>

definition what_parts :: "What \<Rightarrow> string list" where
  "what_parts w = py_split CHR ''_'' (what_name w)"

definition report_headers :: nat where
  "report_headers = fold (\<lambda>w headers. max headers (length (what_parts w))) all_whats 1"

definition table_header :: string where
  "table_header = ''Database            |'' @ concat (map (\<lambda>w. '' '' @ pad_right 10 (what_parts w ! 0) @ '' |'') all_whats)"

definition table_sub_header :: "nat \<Rightarrow> string" where
  "table_sub_header header =
     ''                    |'' @
     concat (map (\<lambda>w. if length (what_parts w) - 1 < header then replicate 12 CHR '' '' @ ''|''
                      else '' '' @ pad_right 10 (what_parts w ! header) @ '' |'') all_whats)"

definition separator :: string where
  "separator = replicate (22 + 13 * length all_whats) CHR ''=''"

definition table_row :: "migration_count \<Rightarrow> string" where
  "table_row c =
     pad_right 20 (mc_database c) @ ''|'' @
     concat (map (\<lambda>w. '' '' @ pad_left 10 (py_str_nat (case map_of (mc_what_count c) w of None \<Rightarrow> 0 | Some n \<Rightarrow> n))
                      @ '' |'') all_whats)"

definition report_lines :: "bool \<Rightarrow> migration_count list \<Rightarrow> string list" where
  "report_lines delete_managed migrated_count =
     [''The following is the count of migrated tables and views found in scope:'', table_header] @
     map table_sub_header [1..<report_headers] @
     [separator] @ map table_row migrated_count @ [separator] @
     [''The following actions will be performed'',
      ''- Migrated External Tables and Views (targets) will be deleted''] @
     (if delete_managed then [''- Migrated DBFS Root Tables will be deleted'']
      else [''- Migrated DBFS Root Tables will be left intact'',
            ''To revert and delete Migrated Tables, add --delete_managed true flag to the command''])"

definition print_revert_report :: "'w env \<Rightarrow> bool \<Rightarrow> ('w rt, bool) eff" where
  "print_revert_report env delete_managed =
     bind_eff (get_revert_count env None None) (\<lambda>migrated_count.
       if migrated_count = [] then
         bind_eff (log_msg INFO ''No migrated tables were found.'') (\<lambda>_. return_eff False)
       else bind_eff (print_lines (report_lines delete_managed migrated_count)) (\<lambda>_. return_eff True))"

text \<open>The per-database counts the report prints for a list of candidates.\<close>

abbreviation revert_counts :: "table list \<Rightarrow> migration_count list" where
  "revert_counts ts \<equiv> map (\<lambda>(db, ts). \<lparr>mc_database = db, mc_what_count = what_count ts\<rparr>) (group_by_database ts)"

section \<open>Properties of the dispatch\<close>

lemma table_already_upgraded_apply [eff_simps, simp]:
  "table_already_upgraded k st = (Inr (k \<in> set (dict_keys (seen_tables st))), st)"
  by (simp add: table_already_upgraded_def)

text \<open>
  C1. A pair whose destination is already in the seen-objects index is a no-op that
  reports success: no statement is sent, the remote world and the index are as they
  were, and only an informational line is logged.
\<close>

theorem migrate_table_already_upgraded:
  assumes "as_uc_table_key r \<in> set (dict_keys (seen_tables st))"
  shows "migrate_table env src r st =
    (Inr True, st\<lparr>logs := logs st @ [(INFO, ''Table '' @ key src @ '' already upgraded to '' @ as_uc_table_key r)]\<rparr>)"
  using assms
  by (simp del: table_already_upgraded_apply add: migrate_table_def table_already_upgraded_def bind_eff_def)

text \<open>
  C2. An object classified \<open>NOT_SUPPORTED\<close> is skipped, not failed: the task
  returns success, sends no statement and only logs one line, whether or not its
  destination was seen before.
\<close>

theorem migrate_table_not_supported:
  assumes "what src = NOT_SUPPORTED"
  shows "\<exists>msg. migrate_table env src r st = (Inr True, st\<lparr>logs := logs st @ [(INFO, msg)]\<rparr>)"
  using assms by (auto simp: migrate_table_def)

text \<open>The dispatch on a pair not yet migrated, one lemma per classification.\<close>

lemma migrate_table_fresh:
  assumes "as_uc_table_key r \<notin> set (dict_keys (seen_tables st))"
  shows "migrate_table env src r st =
    (if what src = DBFS_ROOT_DELTA then migrate_dbfs_root_table env src r st
     else if what src = EXTERNAL_SYNC then migrate_external_table env src r st
     else if what src = VIEW then migrate_view env src r st
     else (Inr True, st\<lparr>logs := logs st @ [(INFO, ''Table '' @ key src @ '' is not supported for migration'')]\<rparr>))"
  using assms by (simp add: migrate_table_def)

text \<open>
  C3. Deep copy of a managed table not yet migrated: the copy statement, then the
  \<open>upgraded_to\<close> tag on the source, then the \<open>upgraded_from\<close> tag (with the
  workspace id) on the destination, in that order, each on the world the previous one
  left; the task then reports success.
\<close>

theorem migrate_table_dbfs_root:
  assumes "as_uc_table_key r \<notin> set (dict_keys (seen_tables st))"
    and "what src = DBFS_ROOT_DELTA"
    and "be_execute env (sql_migrate_dbfs src (as_uc_table_key r)) (remote st) = Inr wa"
    and "be_execute env (sql_alter_to src (as_uc_table_key r)) wa = Inr wb"
    and "be_execute env (sql_alter_from src (as_uc_table_key r) (get_workspace_id env wb)) wb = Inr wc"
  shows "migrate_table env src r st = (Inr True, st\<lparr>remote := wc\<rparr>)"
  using assms by (simp add: migrate_table_fresh migrate_dbfs_root_table_def Let_def eff_simps)

text \<open>
  C4. A failed copy statement aborts the task before any tag is written: the
  exception propagates and the remote world is the one before the call.
\<close>

theorem migrate_table_dbfs_copy_fails:
  assumes "as_uc_table_key r \<notin> set (dict_keys (seen_tables st))"
    and "what src = DBFS_ROOT_DELTA"
    and "be_execute env (sql_migrate_dbfs src (as_uc_table_key r)) (remote st) = Inl e"
  shows "migrate_table env src r st = (Inl e, st)"
  using assms by (simp add: migrate_table_fresh migrate_dbfs_root_table_def Let_def eff_simps)

text \<open>
  C5. The partial-tag window: when the copy succeeds and tagging the source fails, the
  task raises and the world keeps the copied destination with no tag on either side;
  nothing is rolled back.
\<close>

theorem migrate_table_dbfs_tag_fails:
  assumes "as_uc_table_key r \<notin> set (dict_keys (seen_tables st))"
    and "what src = DBFS_ROOT_DELTA"
    and "be_execute env (sql_migrate_dbfs src (as_uc_table_key r)) (remote st) = Inr wa"
    and "be_execute env (sql_alter_to src (as_uc_table_key r)) wa = Inl e"
  shows "migrate_table env src r st = (Inl e, st\<lparr>remote := wa\<rparr>)"
  using assms by (simp add: migrate_table_fresh migrate_dbfs_root_table_def Let_def eff_simps)

text \<open>
  C6. A view not yet migrated: the view definition, then the same two tags as the
  deep-copy path, then success.
\<close>

theorem migrate_table_view:
  assumes "as_uc_table_key r \<notin> set (dict_keys (seen_tables st))"
    and "what src = VIEW"
    and "be_execute env (sql_migrate_view src (as_uc_table_key r)) (remote st) = Inr wa"
    and "be_execute env (sql_alter_to src (as_uc_table_key r)) wa = Inr wb"
    and "be_execute env (sql_alter_from src (as_uc_table_key r) (get_workspace_id env wb)) wb = Inr wc"
  shows "migrate_table env src r st = (Inr True, st\<lparr>remote := wc\<rparr>)"
  using assms by (simp add: migrate_table_fresh migrate_view_def Let_def eff_simps)

text \<open>
  C7. An external table whose \<open>SYNC\<close> reports \<open>SUCCESS\<close> in its first row gets
  exactly one more statement, the \<open>upgraded_from\<close> tag on the destination, and the
  task reports success.
\<close>

theorem migrate_table_external_success:
  assumes "as_uc_table_key r \<notin> set (dict_keys (seen_tables st))"
    and "what src = EXTERNAL_SYNC"
    and "be_fetch env (sql_migrate_external src (as_uc_table_key r)) (remote st) = Inr (first_row # rows, wa)"
    and "row_get first_row ''status_code'' = Inr (Some ''SUCCESS'')"
    and "be_execute env (sql_alter_from src (as_uc_table_key r) (get_workspace_id env wa)) wa = Inr wb"
  shows "migrate_table env src r st = (Inr True, st\<lparr>remote := wb\<rparr>)"
  using assms by (simp add: migrate_table_fresh migrate_external_table_def Let_def eff_simps)

text \<open>
  C8. A \<open>SYNC\<close> whose status is not \<open>SUCCESS\<close> is a non-fatal failure: the task
  returns False rather than raising, sends no tagging statement (the world is the one
  the \<open>SYNC\<close> left), and logs a warning naming the status and the description.
\<close>

theorem migrate_table_external_failure:
  assumes "as_uc_table_key r \<notin> set (dict_keys (seen_tables st))"
    and "what src = EXTERNAL_SYNC"
    and "be_fetch env (sql_migrate_external src (as_uc_table_key r)) (remote st) = Inr (first_row # rows, wa)"
    and "row_get first_row ''status_code'' = Inr sc" and "sc \<noteq> Some ''SUCCESS''"
    and "row_get first_row ''description'' = Inr d"
  shows "migrate_table env src r st =
    (Inr False, st\<lparr>remote := wa, logs := logs st @
       [(WARNING, ''SYNC command failed to migrate '' @ key src @ '' to '' @ as_uc_table_key r
                  @ ''. Status code: '' @ py_str_opt sc @ ''. Description: '' @ py_str_opt d)]\<rparr>)"
  using assms by (simp add: migrate_table_fresh migrate_external_table_def Let_def eff_simps)

section \<open>Properties of a migration run\<close>

lemma init_seen_tables_spec:
  "\<exists>ls. init_seen_tables env st =
     (Inr (), st\<lparr>logs := logs st @ ls, seen_tables := seen_index env (remote st)\<rparr>)"
proof -
  obtain st1 where g: "get_seen_tables env st = (Inr (seen_index env (remote st)), st1)"
    and o: "logs_only st st1"
    using get_seen_tables_spec by blast
  from o obtain ls where "st1 = st\<lparr>logs := logs st @ ls\<rparr>" unfolding logs_only_def by blast
  with g have "init_seen_tables env st =
     (Inr (), st\<lparr>logs := logs st @ ls, seen_tables := seen_index env (remote st)\<rparr>)"
    by (simp add: init_seen_tables_def)
  then show ?thesis by blast
qed

lemma migrate_table_seen:
  "as_uc_table_key r \<in> set (dict_keys (seen_tables st)) \<Longrightarrow>
   fst (migrate_table env src r st) = Inr True \<and> logs_only st (snd (migrate_table env src r st))"
  by (simp add: migrate_table_def)

lemma run_all_seen_tasks:
  assumes "\<forall>t \<in> set tbls. as_uc_table_key (ttm_rule t) \<in> set (dict_keys (seen_tables st))"
  shows "logs_only st (run_all (map (\<lambda>t. migrate_table env (ttm_src t) (ttm_rule t)) tbls) st) \<and>
         no_raise (map (\<lambda>t. migrate_table env (ttm_src t) (ttm_rule t)) tbls) st"
  using assms
proof (induction tbls arbitrary: st)
  case Nil
  then show ?case by (simp add: no_raise_def)
next
  case (Cons t tbls)
  let ?st1 = "snd (migrate_table env (ttm_src t) (ttm_rule t) st)"
  from Cons.prems have m: "fst (migrate_table env (ttm_src t) (ttm_rule t) st) = Inr True"
    and o: "logs_only st ?st1"
    using migrate_table_seen by auto
  from o have "seen_tables ?st1 = seen_tables st" by simp
  with Cons.prems have "\<forall>t \<in> set tbls. as_uc_table_key (ttm_rule t) \<in> set (dict_keys (seen_tables ?st1))"
    by simp
  from Cons.IH [OF this] have ih: "logs_only ?st1 (run_all (map (\<lambda>t. migrate_table env (ttm_src t) (ttm_rule t)) tbls) ?st1)"
    and n: "no_raise (map (\<lambda>t. migrate_table env (ttm_src t) (ttm_rule t)) tbls) ?st1" by auto
  from o ih have "logs_only st (run_all (map (\<lambda>t. migrate_table env (ttm_src t) (ttm_rule t)) (t # tbls)) st)"
    by (simp add: logs_only_trans [OF o])
  moreover from m n have "no_raise (map (\<lambda>t. migrate_table env (ttm_src t) (ttm_rule t)) (t # tbls)) st"
    unfolding no_raise_def by (simp only: list.map gather_no_error_Cons) auto
  ultimately show ?case by blast
qed

lemma migrate_tables_indexed:
  assumes "\<forall>t \<in> set (filter (\<lambda>t. w = None \<or> Some (what (ttm_src t)) = w) (get_tables_to_migrate env (remote st))).
             as_uc_table_key (ttm_rule t) \<in> set (dict_keys (seen_index env (remote st)))"
  shows "fst (migrate_tables env w st) = Inr () \<and> remote (snd (migrate_tables env w st)) = remote st"
proof -
  obtain ls where i: "init_seen_tables env st =
      (Inr (), st\<lparr>logs := logs st @ ls, seen_tables := seen_index env (remote st)\<rparr>)"
    using init_seen_tables_spec by blast
  let ?st1 = "st\<lparr>logs := logs st @ ls, seen_tables := seen_index env (remote st)\<rparr>"
  let ?tbls = "filter (\<lambda>t. w = None \<or> Some (what (ttm_src t)) = w) (get_tables_to_migrate env (remote st))"
  let ?ts = "map (\<lambda>t. migrate_table env (ttm_src t) (ttm_rule t)) ?tbls"
  from assms have "\<forall>t \<in> set ?tbls. as_uc_table_key (ttm_rule t) \<in> set (dict_keys (seen_tables ?st1))"
    by simp
  then have r: "logs_only ?st1 (run_all ?ts ?st1)" and n: "no_raise ?ts ?st1"
    using run_all_seen_tasks by blast+
  have "migrate_tables env w st = bind_eff (strict ?ts) (\<lambda>_. return_eff ()) ?st1"
    using i by (simp add: migrate_tables_def migration_tasks_def)
  with strict_bind_return [of ?ts ?st1] r n show ?thesis
    using logs_only_fields [OF r] by simp
qed

text \<open>
  C16. Idempotency of a run: when the index already holds the destination of every
  pair the mapping returns, \<open>migrate_tables\<close> returns normally and sends no
  statement, whatever the classification filter.
\<close>

theorem migrate_tables_idempotent:
  assumes "\<forall>t \<in> set (get_tables_to_migrate env (remote st)).
             as_uc_table_key (ttm_rule t) \<in> set (dict_keys (seen_index env (remote st)))"
  shows "fst (migrate_tables env w st) = Inr () \<and> remote (snd (migrate_tables env w st)) = remote st"
  using assms by (intro migrate_tables_indexed) auto

lemma seen_entry_lower: "seen_entry t = Some (k, v) \<Longrightarrow> lower k = k \<and> lower v = v"
  by (auto simp: seen_entry_def split: option.splits if_splits)

lemma seen_index_keys_lower: "k \<in> set (dict_keys (seen_index env w)) \<Longrightarrow> lower k = k"
  using fold_add_entry_keys [of "listed_objects env w" "[]"]
  by (auto simp: seen_index_def dict_keys_def dest: seen_entry_lower)

text \<open>
  C17. The index is keyed by lower-cased names but the dispatch looks up the rule's
  destination as written: a rule whose destination name has an upper-case letter is
  never found in an index loaded by the orchestrator, so its pair is migrated again on
  every run.
\<close>

theorem already_upgraded_case_sensitive:
  assumes "lower (as_uc_table_key r) \<noteq> as_uc_table_key r"
  shows "fst (table_already_upgraded (as_uc_table_key r) (st\<lparr>seen_tables := seen_index env w\<rparr>)) = Inr False"
  using assms seen_index_keys_lower [of "as_uc_table_key r" env w] by auto

section \<open>Properties of revert\<close>

lemma get_tables_to_revert_spec:
  "get_tables_to_revert env schema tbl st =
     (Inr (filter (revert_candidate (lower_opt schema) (lower_opt tbl) (seen_tables st)) (tc_snapshot env (remote st))),
      if lower_opt tbl \<noteq> None \<and> lower_opt schema = None
      then st\<lparr>logs := logs st @ [(ERROR, ''Cannot accept 'Table' parameter without 'Schema' parameter'')]\<rparr>
      else st)"
  by (simp add: get_tables_to_revert_def Let_def bind_eff_def)

text \<open>
  C18. Revert selection: every object \<open>_get_tables_to_revert\<close> returns is an
  object of the source inventory whose key is a value of the current index (provably
  migrated), and it passes the schema and table filters that were given.
\<close>

theorem get_tables_to_revert_selected:
  assumes "get_tables_to_revert env schema tbl st = (Inr ts, st')" and "t \<in> set ts"
  shows "t \<in> set (tc_snapshot env (remote st)) \<and> key t \<in> set (dict_values (seen_tables st)) \<and>
         (lower_opt schema \<noteq> None \<longrightarrow> database t = the (lower_opt schema)) \<and>
         (lower_opt tbl \<noteq> None \<longrightarrow> name t = the (lower_opt tbl))"
  using assms by (auto simp: get_tables_to_revert_spec revert_candidate_def)

text \<open>
  C19. A table filter without a schema filter is logged as an error and then applied
  anyway, across all schemas: the candidates are the migrated objects of that name.
\<close>

theorem revert_table_without_schema:
  assumes "tbl \<noteq> []"
  shows "get_tables_to_revert env None (Some tbl) st =
    (Inr (filter (\<lambda>t. name t = lower tbl \<and> key t \<in> set (dict_values (seen_tables st))) (tc_snapshot env (remote st))),
     st\<lparr>logs := logs st @ [(ERROR, ''Cannot accept 'Table' parameter without 'Schema' parameter'')]\<rparr>)"
  using assms by (simp add: get_tables_to_revert_spec lower_opt_def revert_candidate_def [abs_def])

lemma revert_tasks_spec:
  assumes "\<forall>t \<in> set ts. revert_eligible dm t \<longrightarrow> map_of rs (key t) \<noteq> None"
  shows "fst (revert_tasks env rs dm ts st) =
           Inr (map (\<lambda>t. revert_migrated_table env t (the (map_of rs (key t)))) (filter (revert_eligible dm) ts)) \<and>
         logs_only st (snd (revert_tasks env rs dm ts st))"
  using assms
proof (induction ts arbitrary: st)
  case Nil
  then show ?case by simp
next
  case (Cons t ts)
  show ?case
  proof (cases "revert_eligible dm t")
    case True
    with Cons.prems obtain target where tg: "map_of rs (key t) = Some target" by auto
    obtain r st' where rest: "revert_tasks env rs dm ts st = (r, st')" by fastforce
    from Cons.IH [of st] Cons.prems rest have
      "r = Inr (map (\<lambda>t. revert_migrated_table env t (the (map_of rs (key t)))) (filter (revert_eligible dm) ts))"
      and "logs_only st st'" by auto
    with True tg rest show ?thesis by (simp add: bind_eff_def)
  next
    case False
    let ?st1 = "st\<lparr>logs := logs st @ [(INFO, ''Skipping '' @ object_type t @ '' Table '' @ database t @ ''.'' @ name t
                                 @ '' upgraded_to '' @ py_str_opt (upgraded_to t))]\<rparr>"
    from Cons.IH [of ?st1] Cons.prems False show ?thesis
      by (auto intro: logs_only_log_trans)
  qed
qed

text \<open>
  C20. Revert planning: for candidates drawn from the index, building the task list
  never raises (the lookup of each eligible candidate's destination succeeds), and the
  tasks are exactly one revert per eligible candidate, in order: views and external
  tables always, managed tables only when \<open>delete_managed\<close> is set.
\<close>

theorem revert_tasks_plan:
  assumes "\<forall>t \<in> set ts. key t \<in> set (dict_values d)"
  shows "fst (revert_tasks env (dict_invert d) dm ts st) =
     Inr (map (\<lambda>t. revert_migrated_table env t (the (map_of (dict_invert d) (key t)))) (filter (revert_eligible dm) ts))"
proof -
  from assms have "\<forall>t \<in> set ts. revert_eligible dm t \<longrightarrow> map_of (dict_invert d) (key t) \<noteq> None"
    using dom_dict_invert [of d] by blast
  then show ?thesis using revert_tasks_spec by blast
qed

text \<open>
  C21. Reverting one object clears its \<open>upgraded_to\<close> tag, then drops the
  destination with \<open>DROP <kind> IF EXISTS\<close>, in that order.
\<close>

theorem revert_migrated_table_steps:
  assumes "be_execute env (sql_unset_upgraded_to t) (remote st) = Inr wa"
    and "be_execute env (DropIfExists (kind t) target) wa = Inr wb"
  shows "revert_migrated_table env t target st =
    (Inr (), st\<lparr>remote := wb, logs := logs st @ [(INFO, ''Reverting '' @ object_type t @ '' table '' @ database t
       @ ''.'' @ name t @ '' upgraded_to '' @ py_str_opt (upgraded_to t))]\<rparr>)"
  using assms by (simp add: revert_migrated_table_def sql_execute_def)

section \<open>Properties of the revert report\<close>

lemma group_by_database_fold:
  "map_of (fold (\<lambda>t d. dict_set d (database t)
                   ((case map_of d (database t) of None \<Rightarrow> [] | Some l \<Rightarrow> l) @ [t])) ts acc) db =
   (case map_of acc db of
      None \<Rightarrow> if filter (\<lambda>t. database t = db) ts = [] then None else Some (filter (\<lambda>t. database t = db) ts)
    | Some l \<Rightarrow> Some (l @ filter (\<lambda>t. database t = db) ts))"
  by (induction ts arbitrary: acc) (auto split: option.splits)

lemma group_by_database_keys:
  "distinct (dict_keys (group_by_database ts)) \<and> set (dict_keys (group_by_database ts)) = database ` set ts"
proof -
  have "distinct (dict_keys acc) \<Longrightarrow>
    distinct (dict_keys (fold (\<lambda>t d. dict_set d (database t)
                   ((case map_of d (database t) of None \<Rightarrow> [] | Some l \<Rightarrow> l) @ [t])) ts acc)) \<and>
    set (dict_keys (fold (\<lambda>t d. dict_set d (database t)
                   ((case map_of d (database t) of None \<Rightarrow> [] | Some l \<Rightarrow> l) @ [t])) ts acc)) =
      set (dict_keys acc) \<union> database ` set ts" for acc
    by (induction ts arbitrary: acc) auto
  from this [of "[]"] show ?thesis by (simp add: group_by_database_def dict_keys_def)
qed

text \<open>
  C24. The \<open>defaultdict(list)\<close> grouping of \<open>_get_revert_count\<close> maps each database
  that occurs to the objects of that database, in inventory order, and no other key.
\<close>

theorem group_by_database_spec:
  "map_of (group_by_database ts) db =
     (if db \<in> database ` set ts then Some (filter (\<lambda>t. database t = db) ts) else None)"
  by (auto simp: group_by_database_def group_by_database_fold filter_empty_conv)

lemma what_count_fold:
  "map_of (fold (\<lambda>t d. if upgraded_to t \<noteq> None
                  then dict_set d (what t) ((case map_of d (what t) of None \<Rightarrow> 0 | Some c \<Rightarrow> c) + 1)
                  else d) ts acc) w =
   (let n = length (filter (\<lambda>t. upgraded_to t \<noteq> None \<and> what t = w) ts) in
    case map_of acc w of None \<Rightarrow> (if n = 0 then None else Some n) | Some c \<Rightarrow> Some (c + n))"
  by (induction ts arbitrary: acc) (auto simp: Let_def split: option.splits)

lemma count_mset_filter:
  "count (mset (map f (filter P xs))) y = length (filter (\<lambda>x. P x \<and> f x = y) xs)"
  by (induction xs) auto

text \<open>
  C25. The per-classification counter of \<open>_get_revert_count\<close> equals the multiset
  count of the classifications of the objects whose inventory record carries a
  destination tag; classifications with count zero are absent.
\<close>

theorem what_count_mset:
  "map_of (what_count ts) w =
     (let n = count (mset (map what (filter (\<lambda>t. upgraded_to t \<noteq> None) ts))) w in
      if n = 0 then None else Some n)"
  unfolding what_count_def what_count_fold count_mset_filter by (simp add: Let_def)


lemma get_revert_count_spec:
  "\<exists>ls. get_revert_count env schema tbl st =
     (Inr (revert_counts (filter (revert_candidate (lower_opt schema) (lower_opt tbl) (seen_index env (remote st)))
                            (tc_snapshot env (remote st)))),
      st\<lparr>logs := logs st @ ls, seen_tables := seen_index env (remote st)\<rparr>)"
proof -
  obtain ls where i: "init_seen_tables env st =
      (Inr (), st\<lparr>logs := logs st @ ls, seen_tables := seen_index env (remote st)\<rparr>)"
    using init_seen_tables_spec by blast
  show ?thesis
    unfolding get_revert_count_def bind_eff_Inr [where m = "init_seen_tables env", OF i]
      get_tables_to_revert_spec
    by (cases st) (auto simp: bind_eff_def)
qed

lemma group_by_database_Nil [simp]: "group_by_database ts = [] \<longleftrightarrow> ts = []"
  using group_by_database_keys [of ts] by (auto simp: dict_keys_def)

text \<open>
  C22. When no inventory object is a value of the index, \<open>print_revert_report\<close>
  returns \<open>False\<close>, logs "No migrated tables were found." last, prints nothing and
  sends no statement.
\<close>

theorem print_revert_report_nothing:
  assumes "filter (\<lambda>t. key t \<in> set (dict_values (seen_index env (remote st)))) (tc_snapshot env (remote st)) = []"
  shows "\<exists>ls. print_revert_report env dm st =
     (Inr False, st\<lparr>logs := logs st @ ls @ [(INFO, ''No migrated tables were found.'')],
                   seen_tables := seen_index env (remote st)\<rparr>)"
proof -
  obtain ls where "get_revert_count env None None st = (Inr [], st\<lparr>logs := logs st @ ls, seen_tables := seen_index env (remote st)\<rparr>)"
    using get_revert_count_spec [of env None None st] assms
    by (auto simp: lower_opt_def revert_candidate_def [abs_def])
  then show ?thesis by (cases st) (auto simp: print_revert_report_def)
qed

text \<open>
  C23. When some inventory object is a value of the index, \<open>print_revert_report\<close>
  returns \<open>True\<close> and prints exactly the rendered report of the per-database counts
  of those objects, sending no statement.
\<close>

theorem print_revert_report_prints:
  assumes "ts = filter (\<lambda>t. key t \<in> set (dict_values (seen_index env (remote st)))) (tc_snapshot env (remote st))"
    and "ts \<noteq> []"
  shows "\<exists>ls. print_revert_report env dm st =
     (Inr True, st\<lparr>logs := logs st @ ls, stdout := stdout st @ report_lines dm (revert_counts ts),
                  seen_tables := seen_index env (remote st)\<rparr>)"
proof -
  obtain ls where "get_revert_count env None None st =
      (Inr (revert_counts ts), st\<lparr>logs := logs st @ ls, seen_tables := seen_index env (remote st)\<rparr>)"
    using get_revert_count_spec [of env None None st] assms(1)
    by (auto simp: lower_opt_def revert_candidate_def [abs_def])
  with assms(2) show ?thesis by (cases st) (auto simp: print_revert_report_def)
qed

lemma length_table_cell: "length ('' '' @ pad_right 10 s @ '' |'') = 13 \<longleftrightarrow> length s \<le> 10"
  by auto

lemma length_concat_cells:
  "(\<And>w. w \<in> set ws \<Longrightarrow> length (f w) = 13) \<Longrightarrow> length (concat (map f ws)) = 13 * length ws"
  by (induction ws) auto

lemma table_header_length: "length table_header = 21 + 13 * length all_whats"
  by (simp add: table_header_def what_parts_def all_whats_def what_name_def)

text \<open>
  C26. Every count row of the report is as wide as the header when the database name
  has at most 20 characters and every count has at most 10 digits; the separator
  is one character wider than both.
\<close>

theorem table_row_width:
  assumes "length (mc_database c) \<le> 20" and "\<forall>w n. map_of (mc_what_count c) w = Some n \<longrightarrow> n < 10 ^ 10"
  shows "length (table_row c) = length table_header \<and> length separator = length table_header + 1"
proof -
  have "length ('' '' @ pad_left 10 (py_str_nat (case map_of (mc_what_count c) w of None \<Rightarrow> 0 | Some n \<Rightarrow> n)) @ '' |'') = 13" for w
    using assms(2) length_py_str_nat [of _ 10] by (auto split: option.splits)
  then show ?thesis
    using assms(1) by (simp add: table_row_def length_concat_cells table_header_length separator_def)
qed

end
