(* ===== verification/Pool.thy ===== *)
theory Pool
  imports Threads
begin

text \<open>
  The concurrent schedule of \<open>Threads.strict\<close>: a bounded pool of workers
  (spec section 5, "a bounded-fan-out concurrent task runner"). The library is not
  among the sources; the model follows the specification. The runner's state holds
  the queue of tasks not yet started, the tasks in flight, the outcomes of the
  finished tasks in the order they finished, and the state the tasks share. A step
  either starts the next queued task, when fewer than \<open>k\<close> are in flight, or
  finishes any task in flight, which runs on the shared state as one atomic step
  (the granularity at which the model interleaves tasks; tasks that touch disjoint
  objects, as the specification assumes, are not affected by a finer one). The
  lemmas show the runner's invariant, that every run ends, that it never gets
  stuck before every task has an outcome, and that its result is the sequential
  runner's under one worker, and under any number of workers when the tasks
  commute.
\<close>

record ('s, 'a) pool =
  queue :: "nat list"
  running :: "nat list"
  finished :: "(nat \<times> (py_error + 'a)) list"
  shared :: 's

definition pool_init :: "('s, 'a) eff list \<Rightarrow> 's \<Rightarrow> ('s, 'a) pool" where
  "pool_init ts s = \<lparr>queue = [0..<length ts], running = [], finished = [], shared = s\<rparr>"

inductive pool_step :: "nat \<Rightarrow> ('s, 'a) eff list \<Rightarrow> ('s, 'a) pool \<Rightarrow> ('s, 'a) pool \<Rightarrow> bool"
  for k :: nat and ts :: "('s, 'a) eff list"
where
  start: "queue p = i # q \<Longrightarrow> length (running p) < k \<Longrightarrow>
          pool_step k ts p (p\<lparr>queue := q, running := running p @ [i]\<rparr>)"
| finish: "i \<in> set (running p) \<Longrightarrow> (ts ! i) (shared p) = (r, s') \<Longrightarrow>
          pool_step k ts p (p\<lparr>running := remove1 i (running p),
                               finished := finished p @ [(i, r)], shared := s'\<rparr>)"

inductive pool_reach :: "nat \<Rightarrow> ('s, 'a) eff list \<Rightarrow> 's \<Rightarrow> ('s, 'a) pool \<Rightarrow> bool"
  for k :: nat and ts :: "('s, 'a) eff list" and s0 :: 's
where
  init: "pool_reach k ts s0 (pool_init ts s0)"
| step: "pool_reach k ts s0 p \<Longrightarrow> pool_step k ts p p' \<Longrightarrow> pool_reach k ts s0 p'"

definition pool_final :: "('s, 'a) pool \<Rightarrow> bool" where
  "pool_final p = (queue p = [] \<and> running p = [])"

text \<open>The tasks run one after the other in a given order: the outcomes in that
  order and the state reached.\<close>

fun exec_order :: "('s, 'a) eff list \<Rightarrow> nat list \<Rightarrow> 's \<Rightarrow> (nat \<times> (py_error + 'a)) list \<times> 's" where
  "exec_order ts [] s = ([], s)"
| "exec_order ts (i # is) s =
     (case (ts ! i) s of (r, s') \<Rightarrow> (case exec_order ts is s' of (rs, s'') \<Rightarrow> ((i, r) # rs, s'')))"

text \<open>What the runner returns once every task has finished: the results when no
  task raised, the one exception, or the aggregate of all of them, as
  \<open>Threads.strict\<close> does.\<close>

fun outcome_errors :: "(nat \<times> (py_error + 'a)) list \<Rightarrow> py_error list" where
  "outcome_errors [] = []"
| "outcome_errors ((i, Inl e) # os) = e # outcome_errors os"
| "outcome_errors ((i, Inr r) # os) = outcome_errors os"

fun outcome_values :: "(nat \<times> (py_error + 'a)) list \<Rightarrow> 'a list" where
  "outcome_values [] = []"
| "outcome_values ((i, Inl e) # os) = outcome_values os"
| "outcome_values ((i, Inr r) # os) = r # outcome_values os"

definition pool_result :: "('s, 'a) pool \<Rightarrow> py_error + 'a list" where
  "pool_result p =
     (case outcome_errors (finished p) of
        [] \<Rightarrow> Inr (outcome_values (finished p))
      | [e] \<Rightarrow> Inl e
      | es \<Rightarrow> Inl (ManyError es))"

text \<open>\<open>Threads.strict\<close> under the pool: the results and the state of some complete
  run.\<close>

inductive run_pool :: "nat \<Rightarrow> ('s, 'a) eff list \<Rightarrow> 's \<Rightarrow> (py_error + 'a list) \<times> 's \<Rightarrow> bool"
  for k :: nat and ts :: "('s, 'a) eff list" and s0 :: 's
where
  complete: "pool_reach k ts s0 p \<Longrightarrow> pool_final p \<Longrightarrow> run_pool k ts s0 (pool_result p, shared p)"

definition pool_measure :: "('s, 'a) pool \<Rightarrow> nat" where
  "pool_measure p = 2 * length (queue p) + length (running p)"

definition pool_inv :: "nat \<Rightarrow> ('s, 'a) eff list \<Rightarrow> 's \<Rightarrow> ('s, 'a) pool \<Rightarrow> bool" where
  "pool_inv k ts s0 p =
     (length (running p) \<le> k \<and>
      mset (map fst (finished p) @ running p @ queue p) = mset [0..<length ts] \<and>
      exec_order ts (map fst (finished p)) s0 = (finished p, shared p))"

inductive_cases pool_step_cases: "pool_step k ts p p'"

section \<open>Sequential execution\<close>

lemma exec_order_snoc:
  "exec_order ts (is @ [i]) s =
     (case exec_order ts is s of (rs, s') \<Rightarrow> (case (ts ! i) s' of (r, s'') \<Rightarrow> (rs @ [(i, r)], s'')))"
  by (induction ts "is" s rule: exec_order.induct) (auto split: prod.splits)

lemma exec_order_state: "snd (exec_order ts is s) = run_all (map ((!) ts) is) s"
  by (induction ts "is" s rule: exec_order.induct) (auto split: prod.splits)

lemma exec_order_fst: "map fst (fst (exec_order ts is s)) = is"
  by (induction ts "is" s rule: exec_order.induct) (auto split: prod.splits)

lemma exec_order_gather:
  "gather (map ((!) ts) is) s =
     ((outcome_values (fst (exec_order ts is s)), outcome_errors (fst (exec_order ts is s))),
      snd (exec_order ts is s))"
  by (induction ts "is" s rule: exec_order.induct) (auto split: prod.splits sum.splits)

section \<open>The runner's invariant\<close>

lemma length_remove1_less: "i \<in> set xs \<Longrightarrow> length (remove1 i xs) < length xs"
  by (induction xs) auto

lemma mset_remove1_shift:
  "i \<in> set rs \<Longrightarrow> mset (xs @ [i] @ remove1 i rs @ qs) = mset (xs @ rs @ qs)"
  by (simp add: insert_DiffM)

lemma pool_inv_init: "pool_inv k ts s0 (pool_init ts s0)"
  by (simp add: pool_inv_def pool_init_def)

lemma pool_inv_step:
  assumes "pool_step k ts p p'" and "pool_inv k ts s0 p"
  shows "pool_inv k ts s0 p'"
  using assms
proof (cases rule: pool_step.cases)
  case (start i q)
  with assms(2) show ?thesis by (simp add: pool_inv_def)
next
  case (finish i r s')
  from assms(2) have l: "length (running p) \<le> k"
    and m: "mset (map fst (finished p) @ running p @ queue p) = mset [0..<length ts]"
    and e: "exec_order ts (map fst (finished p)) s0 = (finished p, shared p)"
    by (simp_all add: pool_inv_def)
  from finish(2) l have "length (remove1 i (running p)) \<le> k"
    using length_remove1_less [of i "running p"] by simp
  moreover from finish(2) have
    "mset (map fst (finished p) @ [i] @ remove1 i (running p) @ queue p) =
     mset (map fst (finished p) @ running p @ queue p)"
    by (rule mset_remove1_shift)
  with m have "mset (map fst (finished p @ [(i, r)]) @ remove1 i (running p) @ queue p) = mset [0..<length ts]"
    by (simp only: map_append list.map prod.sel append_assoc append_Cons append_Nil)
  moreover from e finish(3) have
    "exec_order ts (map fst (finished p @ [(i, r)])) s0 = (finished p @ [(i, r)], s')"
    by (simp add: exec_order_snoc)
  ultimately show ?thesis
    using finish(1) by (simp add: pool_inv_def)
qed

lemma pool_reach_inv: "pool_reach k ts s0 p \<Longrightarrow> pool_inv k ts s0 p"
  by (induction rule: pool_reach.induct) (auto intro: pool_inv_init pool_inv_step)

lemma pool_step_measure: "pool_step k ts p p' \<Longrightarrow> pool_measure p' < pool_measure p"
  by (induction rule: pool_step.induct)
     (auto simp: pool_measure_def dest: length_remove1_less)

lemma pool_reach_steps:
  "(pool_step k ts)\<^sup>*\<^sup>* p p' \<Longrightarrow> pool_reach k ts s0 p \<Longrightarrow> pool_reach k ts s0 p'"
  by (induction rule: rtranclp_induct) (auto intro: pool_reach.step)

lemma pool_progress:
  assumes "0 < k" and "\<not> pool_final p"
  shows "\<exists>p'. pool_step k ts p p'"
proof (cases "running p")
  case Nil
  with assms obtain i q where "queue p = i # q" by (cases "queue p") (auto simp: pool_final_def)
  with Nil assms(1) have "pool_step k ts p (p\<lparr>queue := q, running := running p @ [i]\<rparr>)"
    by (intro pool_step.start) simp_all
  then show ?thesis ..
next
  case (Cons i rs)
  obtain r s' where "(ts ! i) (shared p) = (r, s')" by fastforce
  with Cons have "pool_step k ts p (p\<lparr>running := remove1 i (running p),
                               finished := finished p @ [(i, r)], shared := s'\<rparr>)"
    by (intro pool_step.finish) simp_all
  then show ?thesis ..
qed

lemma pool_reaches_final:
  assumes "0 < k"
  shows "\<exists>p'. (pool_step k ts)\<^sup>*\<^sup>* p p' \<and> pool_final p'"
proof (induction p rule: measure_induct_rule [of pool_measure])
  case (less p)
  show ?case
  proof (cases "pool_final p")
    case False
    with assms obtain p1 where s: "pool_step k ts p p1" using pool_progress by blast
    from less [OF pool_step_measure [OF s]] obtain p' where
      "(pool_step k ts)\<^sup>*\<^sup>* p1 p'" and "pool_final p'" by blast
    with s show ?thesis by (meson converse_rtranclp_into_rtranclp)
  next
    case True
    then show ?thesis by (blast intro: rtranclp.rtrancl_refl)
  qed
qed

lemma pool_final_order:
  "pool_inv k ts s0 p \<Longrightarrow> pool_final p \<Longrightarrow> mset (map fst (finished p)) = mset [0..<length ts]"
  by (simp add: pool_inv_def pool_final_def)

lemma pool_reach_bounded:
  assumes "pool_reach k ts s0 p"
  shows "length (running p) \<le> k \<and>
         mset (map fst (finished p) @ running p @ queue p) = mset [0..<length ts]"
  using pool_reach_inv [OF assms] by (simp add: pool_inv_def)

lemma pool_terminates: "wf {(p', p). pool_step k ts p p'}"
proof (rule wf_subset)
  show "wf (measure pool_measure)" by simp
  show "{(p', p). pool_step k ts p p'} \<subseteq> measure pool_measure"
    using pool_step_measure by fastforce
qed

lemma pool_liveness:
  assumes "0 < k" and "pool_reach k ts s0 p"
  shows "\<exists>p'. (pool_step k ts)\<^sup>*\<^sup>* p p' \<and> pool_final p' \<and>
              mset (map fst (finished p')) = mset [0..<length ts]"
proof -
  from pool_reaches_final [OF assms(1)] obtain p' where
    st: "(pool_step k ts)\<^sup>*\<^sup>* p p'" and f: "pool_final p'" by blast
  from pool_reach_steps [OF st assms(2)] have "pool_inv k ts s0 p'" by (rule pool_reach_inv)
  then have "mset (map fst (finished p')) = mset [0..<length ts]" using f by (rule pool_final_order)
  with st f show ?thesis by (intro exI [of _ p'] conjI)
qed

lemma pool_final_sequential:
  assumes "pool_reach k ts s0 p" and "pool_final p"
  shows "mset (map fst (finished p)) = mset [0..<length ts] \<and>
         exec_order ts (map fst (finished p)) s0 = (finished p, shared p)"
  using pool_reach_inv [OF assms(1)] assms(2) by (simp add: pool_inv_def pool_final_def)

lemma pool_reach_one_worker:
  "pool_reach (Suc 0) ts s0 p \<Longrightarrow> map fst (finished p) @ running p @ queue p = [0..<length ts]"
proof (induction rule: pool_reach.induct)
  case init
  then show ?case by (simp add: pool_init_def)
next
  case (step p p')
  from step.hyps(2) show ?case
  proof (cases rule: pool_step.cases)
    case (start i q)
    with step.IH show ?thesis by simp
  next
    case (finish i r s')
    from pool_reach_inv [OF step.hyps(1)] have "length (running p) \<le> Suc 0"
      by (simp add: pool_inv_def)
    with finish(2) have "running p = [i]"
      by (cases "running p") auto
    with step.IH finish(1) show ?thesis by simp
  qed
qed

lemma run_all_fold: "run_all ts s = fold (\<lambda>t s. snd (t s)) ts s"
  by (simp add: run_all_def)

lemma pool_one_worker_strict:
  assumes "pool_reach (Suc 0) ts s0 p" and "pool_final p"
  shows "pool_result p = fst (strict ts s0) \<and> shared p = snd (strict ts s0)"
proof -
  from pool_reach_one_worker [OF assms(1)] assms(2)
  have o: "map fst (finished p) = [0..<length ts]" by (simp add: pool_final_def)
  from pool_reach_inv [OF assms(1)] o
  have e: "exec_order ts [0..<length ts] s0 = (finished p, shared p)" by (simp add: pool_inv_def)
  have "gather ts s0 = gather (map ((!) ts) [0..<length ts]) s0" by (simp add: map_nth)
  also have "\<dots> = ((outcome_values (finished p), outcome_errors (finished p)), shared p)"
    unfolding exec_order_gather e by simp
  finally show ?thesis
    by (simp add: strict_def pool_result_def split: list.splits)
qed

lemma pool_commuting_tasks:
  assumes "pool_reach k ts s0 p" and "pool_final p"
    and "\<forall>t \<in> set ts. \<forall>u \<in> set ts.
           (\<lambda>s. snd (t s)) \<circ> (\<lambda>s. snd (u s)) = (\<lambda>s. snd (u s)) \<circ> (\<lambda>s. snd (t s))"
  shows "shared p = run_all ts s0"
proof -
  let ?o = "map fst (finished p)"
  from pool_final_sequential [OF assms(1,2)]
  have m: "mset ?o = mset [0..<length ts]" and e: "exec_order ts ?o s0 = (finished p, shared p)"
    by simp_all
  from m have "mset (map ((!) ts) ?o) = mset (map ((!) ts) [0..<length ts])"
    by (metis mset_map)
  then have ms: "mset (map ((!) ts) ?o) = mset ts" by (simp add: map_nth)
  then have sub: "set (map ((!) ts) ?o) = set ts" by (metis set_mset_mset)
  have "shared p = run_all (map ((!) ts) ?o) s0"
    using exec_order_state [of ts ?o s0] e by simp
  also have "\<dots> = fold (\<lambda>t s. snd (t s)) ts s0"
    unfolding run_all_fold
    by (rule fun_cong [OF fold_multiset_equiv [OF _ ms]]) (use assms(3) sub in auto)
  finally show ?thesis by (simp add: run_all_fold)
qed

section \<open>The pool as a runner\<close>

inductive_cases run_pool_cases: "run_pool k ts s0 res"

lemma run_pool_exists: "0 < k \<Longrightarrow> \<exists>res. run_pool k ts s0 res"
  using pool_liveness [OF _ pool_reach.init, of k ts s0] pool_reach_steps [of k ts _ _ s0]
  by (meson pool_reach.init run_pool.complete)

lemma run_pool_permutation:
  assumes "run_pool k ts s0 (r, s')"
  shows "\<exists>ts'. mset ts' = mset ts \<and> s' = run_all ts' s0"
proof -
  from assms obtain p where p: "pool_reach k ts s0 p" "pool_final p" and s': "s' = shared p"
    by (auto elim: run_pool_cases)
  let ?o = "map fst (finished p)"
  from pool_final_sequential [OF p]
  have m: "mset ?o = mset [0..<length ts]" and e: "exec_order ts ?o s0 = (finished p, shared p)"
    by simp_all
  from m have "mset (map ((!) ts) ?o) = mset ts"
    by (metis mset_map map_nth)
  moreover have "s' = run_all (map ((!) ts) ?o) s0"
    using exec_order_state [of ts ?o s0] e s' by simp
  ultimately show ?thesis by blast
qed

lemma run_pool_strict_order:
  assumes "run_pool k ts s0 res"
  shows "\<exists>is. mset is = mset [0..<length ts] \<and> res = strict (map ((!) ts) is) s0"
proof -
  from assms obtain p where p: "pool_reach k ts s0 p" "pool_final p"
    and res: "res = (pool_result p, shared p)"
    by (auto elim: run_pool_cases)
  let ?o = "map fst (finished p)"
  from pool_final_sequential [OF p]
  have m: "mset ?o = mset [0..<length ts]" and e: "exec_order ts ?o s0 = (finished p, shared p)"
    by simp_all
  have "gather (map ((!) ts) ?o) s0 =
      ((outcome_values (finished p), outcome_errors (finished p)), shared p)"
    using exec_order_gather [of ts ?o s0] e by simp
  then have "strict (map ((!) ts) ?o) s0 = res"
    by (simp add: strict_def pool_result_def res split: list.splits)
  with m show ?thesis by blast
qed

lemma map_nth_map:
  assumes "mset is = mset [0..<length xs]"
  shows "map ((!) (map f xs)) is = map f (map ((!) xs) is) \<and> mset (map ((!) xs) is) = mset xs"
proof
  from mset_eq_setD [OF assms] have "\<forall>i \<in> set is. i < length xs" by simp
  then show "map ((!) (map f xs)) is = map f (map ((!) xs) is)" by simp
next
  have "mset (map ((!) xs) is) = mset (map ((!) xs) [0..<length xs])"
    by (simp only: mset_map assms)
  then show "mset (map ((!) xs) is) = mset xs" by (simp add: map_nth)
qed

lemma run_pool_complete_strict:
  assumes "run_pool (Suc 0) ts s0 res"
  shows "res = strict ts s0"
proof -
  from assms obtain p where p: "pool_reach (Suc 0) ts s0 p" "pool_final p"
    and res: "res = (pool_result p, shared p)"
    by (auto elim: run_pool_cases)
  from pool_one_worker_strict [OF p] res show ?thesis by (simp add: prod_eq_iff)
qed

lemma run_pool_one_worker: "run_pool (Suc 0) ts s0 res \<longleftrightarrow> res = strict ts s0"
proof
  assume "run_pool (Suc 0) ts s0 res"
  then show "res = strict ts s0" by (rule run_pool_complete_strict)
next
  assume r: "res = strict ts s0"
  from run_pool_exists [of "Suc 0" ts s0] obtain res' where o: "run_pool (Suc 0) ts s0 res'" by blast
  with run_pool_complete_strict [OF o] r show "run_pool (Suc 0) ts s0 res" by simp
qed

lemma run_pool_commuting:
  assumes "run_pool k ts s0 (r, s')"
    and "\<forall>t \<in> set ts. \<forall>u \<in> set ts.
           (\<lambda>s. snd (t s)) \<circ> (\<lambda>s. snd (u s)) = (\<lambda>s. snd (u s)) \<circ> (\<lambda>s. snd (t s))"
  shows "s' = run_all ts s0"
  using assms(1) by (auto elim!: run_pool_cases intro: pool_commuting_tasks [OF _ _ assms(2)])

end
