(* ===== verification/Batch.thy ===== *)
theory Batch
  imports Migrate Pool
begin

text \<open>
  The two batch operations of \<open>TablesMigrate\<close> with their task lists run by the
  worker pool of \<open>Pool\<close> instead of the sequential runner. \<open>migrate_tables\<close>
  (lines 59--66) and \<open>revert_migrated_tables\<close> (lines 132--148) first prepare the
  tasks sequentially (load the index, read the mapping or select the candidates,
  build one task per object) and then hand them to \<open>Threads.strict\<close>. The
  preparation is a function of the process state; the concurrent run is a relation,
  since the pool may finish the tasks in any order. The lemmas show that a batch
  always completes, that with one worker it is the sequential operation of
  \<open>Migrate\<close>, and that every concurrent run is a sequential run of a permutation of
  the batch's tasks.
\<close>

definition migrate_prepare :: "'w env \<Rightarrow> What option \<Rightarrow> ('w rt, ('w rt, bool) eff list) eff" where
  "migrate_prepare env w =
     bind_eff (init_seen_tables env) (\<lambda>_.
     bind_eff (read_remote (get_tables_to_migrate env)) (\<lambda>tables_to_migrate.
     return_eff (migration_tasks env w tables_to_migrate)))"

definition revert_prepare ::
  "'w env \<Rightarrow> string option \<Rightarrow> string option \<Rightarrow> bool \<Rightarrow> ('w rt, ('w rt, unit) eff list) eff"
where
  "revert_prepare env schema tbl delete_managed =
     bind_eff (init_seen_tables env) (\<lambda>_.
     bind_eff (get_tables_to_revert env schema tbl) (\<lambda>upgraded_tables st.
     revert_tasks env (dict_invert (seen_tables st)) delete_managed upgraded_tables st))"

text \<open>A batch whose preparation returned its tasks, run by a pool of \<open>k\<close> workers;
  the batch operations return \<open>None\<close> once the runner returns.\<close>

definition run_batch ::
  "nat \<Rightarrow> ('w rt, ('w rt, 'a) eff list) eff \<Rightarrow> 'w rt \<Rightarrow> (py_error + unit) \<times> 'w rt \<Rightarrow> bool"
where
  "run_batch k prepare st res =
     (case prepare st of
        (Inl e, st1) \<Rightarrow> res = (Inl e, st1)
      | (Inr tasks, st1) \<Rightarrow>
          (\<exists>r st2. run_pool k tasks st1 (r, st2) \<and>
                   res = ((case r of Inl e \<Rightarrow> Inl e | Inr _ \<Rightarrow> Inr ()), st2)))"

definition migrate_tables_conc ::
  "nat \<Rightarrow> 'w env \<Rightarrow> What option \<Rightarrow> 'w rt \<Rightarrow> (py_error + unit) \<times> 'w rt \<Rightarrow> bool"
where
  "migrate_tables_conc k env w = run_batch k (migrate_prepare env w)"

definition revert_migrated_tables_conc ::
  "nat \<Rightarrow> 'w env \<Rightarrow> string option \<Rightarrow> string option \<Rightarrow> bool \<Rightarrow> 'w rt \<Rightarrow> (py_error + unit) \<times> 'w rt \<Rightarrow> bool"
where
  "revert_migrated_tables_conc k env schema tbl dm = run_batch k (revert_prepare env schema tbl dm)"

section \<open>The sequential operations are a preparation and a run\<close>

lemma migrate_tables_prepare:
  "migrate_tables env w =
     bind_eff (migrate_prepare env w) (\<lambda>tasks. bind_eff (strict tasks) (\<lambda>_. return_eff ()))"
  by (simp add: migrate_tables_def migrate_prepare_def bind_eff_assoc)

lemma revert_migrated_tables_prepare:
  "revert_migrated_tables env schema tbl dm =
     bind_eff (revert_prepare env schema tbl dm) (\<lambda>tasks. bind_eff (strict tasks) (\<lambda>_. return_eff ()))"
  by (rule ext) (simp add: revert_migrated_tables_def revert_prepare_def bind_eff_def split: prod.splits sum.splits)

section \<open>Runs of a batch\<close>

lemma run_batch_exists:
  assumes "0 < k"
  shows "\<exists>res. run_batch k prepare st res"
proof (cases "prepare st")
  case (Pair r st1)
  show ?thesis
  proof (cases r)
    case (Inl e)
    with Pair show ?thesis by (simp add: run_batch_def)
  next
    case (Inr tasks)
    from run_pool_exists [OF assms, of tasks st1] obtain r' st2 where "run_pool k tasks st1 (r', st2)"
      by (metis prod.exhaust)
    with Pair Inr show ?thesis by (auto simp: run_batch_def)
  qed
qed

lemma run_batch_one_worker:
  "run_batch (Suc 0) prepare st res \<longleftrightarrow>
   res = bind_eff prepare (\<lambda>tasks. bind_eff (strict tasks) (\<lambda>_. return_eff ())) st"
proof (cases "prepare st")
  case (Pair r st1)
  show ?thesis
  proof (cases r)
    case (Inl e)
    with Pair show ?thesis by (simp add: run_batch_def bind_eff_def)
  next
    case (Inr tasks)
    obtain r' st2 where s: "strict tasks st1 = (r', st2)" by fastforce
    have "(\<exists>r st2'. run_pool (Suc 0) tasks st1 (r, st2') \<and>
                   res = ((case r of Inl e \<Rightarrow> Inl e | Inr _ \<Rightarrow> Inr ()), st2')) \<longleftrightarrow>
          res = ((case r' of Inl e \<Rightarrow> Inl e | Inr _ \<Rightarrow> Inr ()), st2)"
      by (simp add: run_pool_one_worker s)
    with Pair Inr s show ?thesis
      by (cases r') (simp_all add: run_batch_def bind_eff_def)
  qed
qed

lemma run_batch_permutation:
  assumes "prepare st = (Inr tasks, st1)" and "run_batch k prepare st (r, st')"
  shows "\<exists>ts'. mset ts' = mset tasks \<and> st' = run_all ts' st1"
  using assms by (auto simp: run_batch_def dest: run_pool_permutation)

lemma run_batch_sequential:
  assumes "prepare st = (Inr tasks, st1)" and "run_batch k prepare st res"
  shows "\<exists>is. mset is = mset [0..<length tasks] \<and>
           res = bind_eff (strict (map ((!) tasks) is)) (\<lambda>_. return_eff ()) st1"
proof -
  from assms obtain r st2 where rp: "run_pool k tasks st1 (r, st2)"
    and res: "res = ((case r of Inl e \<Rightarrow> Inl e | Inr _ \<Rightarrow> Inr ()), st2)"
    by (auto simp: run_batch_def)
  from run_pool_strict_order [OF rp] obtain "is" where
    m: "mset is = mset [0..<length tasks]" and s: "(r, st2) = strict (map ((!) tasks) is) st1"
    by blast
  from s [symmetric] res have "res = bind_eff (strict (map ((!) tasks) is)) (\<lambda>_. return_eff ()) st1"
    by (cases r) (simp_all add: bind_eff_def)
  with m show ?thesis by blast
qed

lemma run_batch_commuting:
  assumes "prepare st = (Inr tasks, st1)" and "run_batch k prepare st (r, st')"
    and "\<forall>t \<in> set tasks. \<forall>u \<in> set tasks.
           (\<lambda>s. snd (t s)) \<circ> (\<lambda>s. snd (u s)) = (\<lambda>s. snd (u s)) \<circ> (\<lambda>s. snd (t s))"
  shows "st' = run_all tasks st1"
  using assms by (auto simp: run_batch_def dest: run_pool_commuting)

end
