(* ===== verification/TagWorld.thy ===== *)
theory TagWorld
  imports Migrate
begin

text \<open>
  A reference backend whose world is the state the orchestrator's statements act
  on (spec sections 3 and 6): the destination objects with their properties, the
  source objects' \<open>upgraded_to\<close> tags, what the metadata-only \<open>SYNC\<close> answers for
  each source, the inventory, the mapping, the workspace id, the clock and the
  saved tables, and the history of the statements the warehouse ran. The backend is not part of the sources; each statement does what
  the specification's statement shape says: creating a destination leaves an
  existing one alone, tagging a destination needs it to exist, a successful
  \<open>SYNC\<close> registers the destination already tagged with its source (the
  primitive's own contract), a drop tolerates a missing object. A destination is
  named by its three parts; a statement naming anything else fails as the SQL
  engine would; a \<open>SELECT\<close> reads a saved table back, and fails as not found when it
  was never saved. Over this world, properties that span several calls, such as a
  second run after a first one or a second snapshot after a first, become theorems
  about the model's own functions.
\<close>

type_synonym obj_name = "string \<times> string \<times> string"

record tag_world =
  tw_objects :: "(obj_name, (string, string) pydict) pydict"
  tw_src_tags :: "(string, string) pydict"
  tw_sync_status :: "string \<Rightarrow> string"
  tw_inventory :: "table list"
  tw_rules :: "table_to_migrate list"
  tw_ws_id :: int
  tw_clock :: string
  tw_saved :: "(string, row list) pydict"
  tw_history :: "stmt list"

definition parse_name :: "string \<Rightarrow> obj_name option" where
  "parse_name n = (case py_split CHR ''.'' n of [c, s, t] \<Rightarrow> Some (c, s, t) | _ \<Rightarrow> None)"

definition full_name :: "obj_name \<Rightarrow> string" where
  "full_name n = (case n of (c, s, t) \<Rightarrow> c @ ''.'' @ s @ ''.'' @ t)"

definition dict_remove :: "('k, 'v) pydict \<Rightarrow> 'k \<Rightarrow> ('k, 'v) pydict" where
  "dict_remove d k = filter (\<lambda>(k', v). k' \<noteq> k) d"

text \<open>Create a destination unless it exists.\<close>

definition tw_create :: "string \<Rightarrow> (string, string) pydict \<Rightarrow> tag_world \<Rightarrow> py_error + tag_world" where
  "tw_create dst props w =
     (case parse_name dst of
        None \<Rightarrow> Inl (SqlError ''INVALID_IDENTIFIER'')
      | Some n \<Rightarrow> Inr (if map_of (tw_objects w) n = None
                       then w\<lparr>tw_objects := dict_set (tw_objects w) n props\<rparr> else w))"

definition tw_execute :: "stmt \<Rightarrow> tag_world \<Rightarrow> py_error + tag_world" where
  "tw_execute s w =
     (case s of
        CreateDeepClone t dst \<Rightarrow> tw_create dst [] w
      | CreateView t dst \<Rightarrow> tw_create dst [] w
      | SetUpgradedTo t dst \<Rightarrow> Inr (w\<lparr>tw_src_tags := dict_set (tw_src_tags w) (key t) dst\<rparr>)
      | SetUpgradedFrom t dst ws \<Rightarrow>
          (case parse_name dst of
             None \<Rightarrow> Inl (SqlError ''INVALID_IDENTIFIER'')
           | Some n \<Rightarrow>
               (case map_of (tw_objects w) n of
                  None \<Rightarrow> Inl (SqlError ''TABLE_OR_VIEW_NOT_FOUND'')
                | Some props \<Rightarrow>
                    Inr (w\<lparr>tw_objects := dict_set (tw_objects w) n
                                           (dict_set props ''upgraded_from'' (key t))\<rparr>)))
      | UnsetUpgradedTo t \<Rightarrow> Inr (w\<lparr>tw_src_tags := dict_remove (tw_src_tags w) (key t)\<rparr>)
      | DropIfExists k dst \<Rightarrow>
          (case parse_name dst of
             None \<Rightarrow> Inl (SqlError ''INVALID_IDENTIFIER'')
           | Some n \<Rightarrow> Inr (w\<lparr>tw_objects := dict_remove (tw_objects w) n\<rparr>))
      | _ \<Rightarrow> Inr w)"

definition tw_fetch :: "stmt \<Rightarrow> tag_world \<Rightarrow> py_error + (row list \<times> tag_world)" where
  "tw_fetch s w =
     (case s of
        SyncTable t dst \<Rightarrow>
          (let status = tw_sync_status w (key t);
               row = [(''status_code'', Some status), (''description'', Some (''SYNC '' @ status))] in
           if status = ''SUCCESS'' then
             (case tw_create dst [(''upgraded_from'', key t)] w of
                Inl e \<Rightarrow> Inl e
              | Inr w' \<Rightarrow> Inr ([row], w'))
           else Inr ([row], w))
      | ShowTblProperties n \<Rightarrow>
          Inr ((case map_of (tw_src_tags w) (lower (''hive_metastore.'' @ n)) of
                  None \<Rightarrow> []
                | Some d \<Rightarrow> [[(''key'', Some ''upgraded_to''), (''value'', Some d)]]), w)
      | SelectAll schema tbl \<Rightarrow>
          (case map_of (tw_saved w) (''hive_metastore.'' @ schema @ ''.'' @ tbl) of
             None \<Rightarrow> Inl (NotFound tbl)
           | Some rows \<Rightarrow> Inr (rows, w))
      | _ \<Rightarrow> (case tw_execute s w of Inl e \<Rightarrow> Inl e | Inr w' \<Rightarrow> Inr ([], w')))"

text \<open>The warehouse's query history: every statement that runs is recorded.\<close>

definition tw_record :: "stmt \<Rightarrow> tag_world \<Rightarrow> tag_world" where
  "tw_record s w = w\<lparr>tw_history := tw_history w @ [s]\<rparr>"

definition tw_info :: "obj_name \<times> (string, string) pydict \<Rightarrow> table_info" where
  "tw_info ob = (case ob of ((c, s, t), props) \<Rightarrow>
     \<lparr>ti_name = t, ti_full_name = Some (full_name (c, s, t)), ti_properties = Some props\<rparr>)"

definition tag_env :: "tag_world env" where
  "tag_env =
     \<lparr>be_execute = (\<lambda>s w. map_sum id (tw_record s) (tw_execute s w)),
      be_fetch = (\<lambda>s w. map_sum id (\<lambda>(rows, w'). (rows, tw_record s w')) (tw_fetch s w)),
      be_save_table = (\<lambda>n rows w. Inr (w\<lparr>tw_saved := dict_set (tw_saved w) n rows\<rparr>)),
      catalogs_list = (\<lambda>w. remdups (map (\<lambda>((c, s, t), p). c) (tw_objects w))),
      schemas_list = (\<lambda>w c. map (\<lambda>s. \<lparr>si_catalog_name = c, si_name = s\<rparr>)
                         (remdups (map (\<lambda>((c', s, t), p). s) (filter (\<lambda>((c', s, t), p). c' = c) (tw_objects w))))),
      tables_list = (\<lambda>w c s. map tw_info (filter (\<lambda>((c', s', t), p). c' = c \<and> s' = s) (tw_objects w))),
      get_workspace_id = tw_ws_id,
      tc_snapshot = tw_inventory,
      get_tables_to_migrate = tw_rules,
      clock = tw_clock\<rparr>"

text \<open>The destination objects that carry an \<open>upgraded_from\<close> tag.\<close>

definition tagged :: "tag_world \<Rightarrow> obj_name \<Rightarrow> bool" where
  "tagged w n = (case map_of (tw_objects w) n of
                   None \<Rightarrow> False
                 | Some props \<Rightarrow> map_of props ''upgraded_from'' \<noteq> None)"

text \<open>The world's well-formedness: one entry per destination name.\<close>

definition tw_wf :: "tag_world \<Rightarrow> bool" where
  "tw_wf w = distinct (dict_keys (tw_objects w))"

text \<open>A later world of the same migration: still well-formed, with the same mapping
  and the same \<open>SYNC\<close> answers, and every tag of the earlier world still there.\<close>

definition world_grows :: "tag_world \<Rightarrow> tag_world \<Rightarrow> bool" where
  "world_grows w w' =
     (tw_wf w' \<and> tw_rules w' = tw_rules w \<and> tw_sync_status w' = tw_sync_status w \<and>
      (\<forall>n. tagged w n \<longrightarrow> tagged w' n))"

text \<open>A pair the first run migrates and tags: its destination is written in lower
  case as three parts, and its strategy succeeds on this world (a copy, a view, or a
  \<open>SYNC\<close> that answers \<open>SUCCESS\<close>).\<close>

definition migratable :: "tag_world \<Rightarrow> table_to_migrate \<Rightarrow> bool" where
  "migratable w p =
     (let src = ttm_src p; d = as_uc_table_key (ttm_rule p) in
      lower d = d \<and> parse_name d \<noteq> None \<and>
      (what src = DBFS_ROOT_DELTA \<or> what src = VIEW \<or>
       (what src = EXTERNAL_SYNC \<and> tw_sync_status w (key src) = ''SUCCESS'')))"

section \<open>Statements on the tag world\<close>

lemma tag_env_fields [simp]:
  "be_execute tag_env s w = map_sum id (tw_record s) (tw_execute s w)"
  "be_fetch tag_env s w = map_sum id (\<lambda>(rows, w'). (rows, tw_record s w')) (tw_fetch s w)"
  "get_workspace_id tag_env = tw_ws_id" "tc_snapshot tag_env = tw_inventory"
  "get_tables_to_migrate tag_env = tw_rules" "clock tag_env = tw_clock"
  by (simp_all add: tag_env_def)

lemma tw_record_fields [simp]:
  "tw_objects (tw_record s w) = tw_objects w" "tw_rules (tw_record s w) = tw_rules w"
  "tw_sync_status (tw_record s w) = tw_sync_status w" "tw_ws_id (tw_record s w) = tw_ws_id w"
  by (simp_all add: tw_record_def)

lemma tagged_record [simp]: "tagged (tw_record s w) = tagged w"
  by (simp add: tagged_def fun_eq_iff)

lemma tw_wf_record [simp]: "tw_wf (tw_record s w) = tw_wf w"
  by (simp add: tw_wf_def)

lemma world_grows_record [simp]: "world_grows w (tw_record s w') = world_grows w w'"
  by (simp add: world_grows_def)

lemma bind_sql_execute_ok:
  "be_execute env s (remote st) = Inr w \<Longrightarrow> bind_eff (sql_execute env s) f st = f () (st\<lparr>remote := w\<rparr>)"
  by (simp add: sql_execute_ok)

lemma bind_sql_fetch_ok:
  "be_fetch env s (remote st) = Inr (rows, w) \<Longrightarrow> bind_eff (sql_fetch env s) f st = f rows (st\<lparr>remote := w\<rparr>)"
  by (simp add: sql_fetch_ok)

lemma world_grows_refl: "tw_wf w \<Longrightarrow> world_grows w w"
  by (simp add: world_grows_def)

lemma world_grows_trans: "world_grows wa wb \<Longrightarrow> world_grows wb wc \<Longrightarrow> world_grows wa wc"
  by (simp add: world_grows_def)

lemma parse_name_full_name:
  assumes "parse_name d = Some n"
  shows "full_name n = d"
proof -
  from assms obtain c s t where sp: "py_split CHR ''.'' d = [c, s, t]" and n: "n = (c, s, t)"
    by (auto simp: parse_name_def split: list.splits)
  have "py_join CHR ''.'' [c, s, t] = d"
    using py_join_split [of "CHR ''.''" d] sp by simp
  with n show ?thesis by (simp add: full_name_def)
qed

lemma tw_create_grows:
  assumes "tw_wf w" and "parse_name dst = Some n"
  shows "\<exists>w'. tw_create dst props w = Inr w' \<and> world_grows w w' \<and> map_of (tw_objects w') n \<noteq> None \<and>
              (map_of (tw_objects w) n = None \<longrightarrow> map_of (tw_objects w') n = Some props)"
  using assms by (auto simp: tw_create_def world_grows_def tw_wf_def tagged_def)

lemma exec_create:
  assumes "tw_wf w" and "parse_name dst = Some n"
    and "create = CreateDeepClone src dst \<or> create = CreateView src dst"
  shows "\<exists>w'. be_execute tag_env create w = Inr w' \<and> world_grows w w' \<and> map_of (tw_objects w') n \<noteq> None"
proof -
  from tw_create_grows [OF assms(1,2), of "[]"] obtain w' where
    "tw_create dst [] w = Inr w'" "world_grows w w'" "map_of (tw_objects w') n \<noteq> None" by blast
  with assms(3) show ?thesis by (auto simp: tw_execute_def)
qed

lemma exec_set_upgraded_from:
  assumes "tw_wf w" and "parse_name dst = Some n" and "map_of (tw_objects w) n \<noteq> None"
  shows "\<exists>w'. be_execute tag_env (SetUpgradedFrom t dst ws) w = Inr w' \<and> world_grows w w' \<and> tagged w' n"
  using assms by (auto simp: tw_execute_def world_grows_def tw_wf_def tagged_def)

lemma exec_set_upgraded_to:
  "tw_wf w \<Longrightarrow> \<exists>w'. be_execute tag_env (SetUpgradedTo t dst) w = Inr w' \<and> world_grows w w' \<and>
                     tw_objects w' = tw_objects w"
  by (auto simp: tw_execute_def world_grows_def tw_wf_def tagged_def)

lemma fetch_sync_success:
  assumes "tw_wf w" and "parse_name dst = Some n" and "tw_sync_status w (key t) = ''SUCCESS''"
  shows "\<exists>w'. be_fetch tag_env (SyncTable t dst) w =
                Inr ([[(''status_code'', Some ''SUCCESS''), (''description'', Some ''SYNC SUCCESS'')]], w') \<and>
              world_grows w w' \<and> map_of (tw_objects w') n \<noteq> None"
proof -
  from tw_create_grows [OF assms(1,2), of "[(''upgraded_from'', key t)]"] obtain w' where
    "tw_create dst [(''upgraded_from'', key t)] w = Inr w'" "world_grows w w'" "map_of (tw_objects w') n \<noteq> None"
    by blast
  with assms(3) show ?thesis by (auto simp: tw_fetch_def Let_def)
qed

section \<open>The listing of the tag world\<close>

lemma listed_objects_tag_env:
  "set (listed_objects tag_env w) = tw_info ` set (tw_objects w)"
  by (auto simp: listed_objects_def iter_schemas_def tag_env_def image_iff) (force+)

lemma tagged_in_index:
  assumes "tagged w n"
  shows "lower (full_name n) \<in> set (dict_keys (seen_index tag_env w))"
proof -
  from assms obtain props src where p: "map_of (tw_objects w) n = Some props"
    and s: "map_of props ''upgraded_from'' = Some src"
    by (auto simp: tagged_def split: option.splits)
  from p have "(n, props) \<in> set (tw_objects w)" by (rule map_of_SomeD)
  then have "tw_info (n, props) \<in> set (listed_objects tag_env w)"
    by (simp add: listed_objects_tag_env)
  moreover have "full_name n \<noteq> []"
    by (cases n) (simp add: full_name_def)
  then have "seen_entry (tw_info (n, props)) = Some (lower (full_name n), lower src)"
    using s by (cases n) (simp add: seen_entry_def tw_info_def)
  ultimately show ?thesis
    using fold_add_entry_keys [of "listed_objects tag_env w" "[]"]
    by (auto simp: seen_index_def dict_keys_def)
qed

lemma seen_index_tagged:
  assumes "tw_wf w" and "k \<in> set (dict_keys (seen_index tag_env w))"
  shows "\<exists>n. tagged w n \<and> k = lower (full_name n)"
proof -
  from assms(2) obtain t v where t: "t \<in> set (listed_objects tag_env w)" and e: "seen_entry t = Some (k, v)"
    using fold_add_entry_keys [of "listed_objects tag_env w" "[]"]
    by (auto simp: seen_index_def dict_keys_def)
  from t obtain n props where np: "(n, props) \<in> set (tw_objects w)" and tt: "t = tw_info (n, props)"
    by (auto simp: listed_objects_tag_env)
  from assms(1) np have "map_of (tw_objects w) n = Some props"
    by (simp add: tw_wf_def dict_keys_def)
  with e tt have "tagged w n \<and> k = lower (full_name n)"
    by (cases n) (auto simp: tagged_def seen_entry_def tw_info_def split: option.splits if_splits)
  then show ?thesis by blast
qed

lemma world_grows_index:
  assumes "world_grows w w'" and "tw_wf w" and "k \<in> set (dict_keys (seen_index tag_env w))"
  shows "k \<in> set (dict_keys (seen_index tag_env w'))"
proof -
  from seen_index_tagged [OF assms(2,3)] obtain n where "tagged w n" and k: "k = lower (full_name n)"
    by blast
  with assms(1) have "tagged w' n" unfolding world_grows_def by blast
  from tagged_in_index [OF this] k show ?thesis by simp
qed

section \<open>The migration strategies on the tag world\<close>

lemma tag_copy_then_tag:
  assumes "tw_wf (remote st)" and "parse_name (as_uc_table_key r) = Some n"
    and "create = CreateDeepClone src (as_uc_table_key r) \<or> create = CreateView src (as_uc_table_key r)"
  shows "\<exists>st'. bind_eff (sql_execute tag_env create) (\<lambda>_.
                bind_eff (sql_execute tag_env (sql_alter_to src (as_uc_table_key r))) (\<lambda>_.
                bind_eff (read_remote (get_workspace_id tag_env)) (\<lambda>ws_id.
                bind_eff (sql_execute tag_env (sql_alter_from src (as_uc_table_key r) ws_id)) (\<lambda>_.
                return_eff True)))) st = (Inr True, st') \<and>
              seen_tables st' = seen_tables st \<and> world_grows (remote st) (remote st') \<and> tagged (remote st') n"
proof -
  let ?d = "as_uc_table_key r"
  obtain w1 where x1: "be_execute tag_env create (remote st) = Inr w1" and g1: "world_grows (remote st) w1"
    and e1: "map_of (tw_objects w1) n \<noteq> None"
    using exec_create [OF assms] by blast
  from g1 have wf1: "tw_wf w1" by (simp add: world_grows_def)
  obtain w2 where x2: "be_execute tag_env (SetUpgradedTo src ?d) w1 = Inr w2" and g2: "world_grows w1 w2"
    and o2: "tw_objects w2 = tw_objects w1"
    using exec_set_upgraded_to [OF wf1] by blast
  from g2 have wf2: "tw_wf w2" by (simp add: world_grows_def)
  from e1 o2 have e2: "map_of (tw_objects w2) n \<noteq> None" by simp
  obtain w3 where x3: "be_execute tag_env (SetUpgradedFrom src ?d (get_workspace_id tag_env w2)) w2 = Inr w3"
    and g3: "world_grows w2 w3" and t3: "tagged w3 n"
    using exec_set_upgraded_from [OF wf2 assms(2) e2] by blast
  have "bind_eff (sql_execute tag_env create) (\<lambda>_.
                bind_eff (sql_execute tag_env (sql_alter_to src ?d)) (\<lambda>_.
                bind_eff (read_remote (get_workspace_id tag_env)) (\<lambda>ws_id.
                bind_eff (sql_execute tag_env (sql_alter_from src ?d ws_id)) (\<lambda>_.
                return_eff True)))) st = (Inr True, st\<lparr>remote := w3\<rparr>)"
    using x1 x2 x3 by (simp only: bind_sql_execute_ok sql_defs) (simp add: bind_sql_execute_ok)
  moreover have "world_grows (remote st) w3"
    using g1 g2 g3 world_grows_trans by blast
  ultimately show ?thesis using t3 by auto
qed

lemma tag_external_sync:
  assumes "tw_wf (remote st)" and "parse_name (as_uc_table_key r) = Some n"
    and "tw_sync_status (remote st) (key src) = ''SUCCESS''"
  shows "\<exists>st'. migrate_external_table tag_env src r st = (Inr True, st') \<and>
              seen_tables st' = seen_tables st \<and> world_grows (remote st) (remote st') \<and> tagged (remote st') n"
proof -
  let ?d = "as_uc_table_key r"
  obtain w1 where f: "be_fetch tag_env (SyncTable src ?d) (remote st) =
      Inr ([[(''status_code'', Some ''SUCCESS''), (''description'', Some ''SYNC SUCCESS'')]], w1)"
    and g1: "world_grows (remote st) w1" and e1: "map_of (tw_objects w1) n \<noteq> None"
    using fetch_sync_success [OF assms] by blast
  from g1 have wf1: "tw_wf w1" by (simp add: world_grows_def)
  obtain w2 where x2: "be_execute tag_env (SetUpgradedFrom src ?d (get_workspace_id tag_env w1)) w1 = Inr w2"
    and g2: "world_grows w1 w2" and t2: "tagged w2 n"
    using exec_set_upgraded_from [OF wf1 assms(2) e1] by blast
  from f have f': "be_fetch tag_env (sql_migrate_external src ?d) (remote st) =
      Inr ([[(''status_code'', Some ''SUCCESS''), (''description'', Some ''SYNC SUCCESS'')]], w1)"
    by (simp only: sql_defs)
  from x2 have x2': "be_execute tag_env (sql_alter_from src ?d (get_workspace_id tag_env w1)) w1 = Inr w2"
    by (simp only: sql_defs)
  have "migrate_external_table tag_env src r st = (Inr True, st\<lparr>remote := w2\<rparr>)"
    unfolding migrate_external_table_def Let_def bind_sql_fetch_ok [OF f']
    using x2' by (simp add: row_get_def bind_sql_execute_ok del: tag_env_fields)
  moreover have "world_grows (remote st) w2"
    using g1 g2 world_grows_trans by blast
  ultimately show ?thesis using t2 by auto
qed

lemma migrate_table_tag:
  assumes "tw_wf (remote st)" and "migratable (remote st) p"
  shows "\<exists>st'. migrate_table tag_env (ttm_src p) (ttm_rule p) st = (Inr True, st') \<and>
              seen_tables st' = seen_tables st \<and> world_grows (remote st) (remote st') \<and>
              (as_uc_table_key (ttm_rule p) \<in> set (dict_keys (seen_tables st)) \<or>
               as_uc_table_key (ttm_rule p) \<in> set (dict_keys (seen_index tag_env (remote st'))))"
proof (cases "as_uc_table_key (ttm_rule p) \<in> set (dict_keys (seen_tables st))")
  case True
  then have "migrate_table tag_env (ttm_src p) (ttm_rule p) st =
      (Inr True, st\<lparr>logs := logs st @ [(INFO, ''Table '' @ key (ttm_src p) @ '' already upgraded to ''
                                          @ as_uc_table_key (ttm_rule p))]\<rparr>)"
    by (simp add: migrate_table_def)
  with True assms(1) show ?thesis by (auto intro: world_grows_refl)
next
  case False
  let ?d = "as_uc_table_key (ttm_rule p)"
  from assms(2) obtain n where n: "parse_name ?d = Some n" and low: "lower ?d = ?d"
    by (auto simp: migratable_def Let_def)
  have idx: "tagged w n \<Longrightarrow> ?d \<in> set (dict_keys (seen_index tag_env w))" for w
    using tagged_in_index [of w n] parse_name_full_name [OF n] low by simp
  consider "what (ttm_src p) = DBFS_ROOT_DELTA" | "what (ttm_src p) = VIEW"
    | "what (ttm_src p) = EXTERNAL_SYNC" "tw_sync_status (remote st) (key (ttm_src p)) = ''SUCCESS''"
    using assms(2) by (auto simp: migratable_def Let_def)
  then show ?thesis
  proof cases
    case 1
    from tag_copy_then_tag [OF assms(1) n, of "CreateDeepClone (ttm_src p) ?d" "ttm_src p"] obtain st' where
      "migrate_dbfs_root_table tag_env (ttm_src p) (ttm_rule p) st = (Inr True, st') \<and>
       seen_tables st' = seen_tables st \<and> world_grows (remote st) (remote st') \<and> tagged (remote st') n"
      by (auto simp: migrate_dbfs_root_table_def Let_def sql_defs)
    with 1 False idx show ?thesis by (auto simp: migrate_table_def)
  next
    case 2
    from tag_copy_then_tag [OF assms(1) n, of "CreateView (ttm_src p) ?d" "ttm_src p"] obtain st' where
      "migrate_view tag_env (ttm_src p) (ttm_rule p) st = (Inr True, st') \<and>
       seen_tables st' = seen_tables st \<and> world_grows (remote st) (remote st') \<and> tagged (remote st') n"
      by (auto simp: migrate_view_def Let_def sql_defs)
    with 2 False idx show ?thesis by (auto simp: migrate_table_def)
  next
    case 3
    from tag_external_sync [OF assms(1) n 3(2)] obtain st' where
      "migrate_external_table tag_env (ttm_src p) (ttm_rule p) st = (Inr True, st') \<and>
       seen_tables st' = seen_tables st \<and> world_grows (remote st) (remote st') \<and> tagged (remote st') n"
      by blast
    with 3 False idx show ?thesis by (auto simp: migrate_table_def)
  qed
qed

lemma migratable_grows: "world_grows w w' \<Longrightarrow> migratable w p \<Longrightarrow> migratable w' p"
  by (simp add: world_grows_def migratable_def)

lemma run_all_migrate_tag:
  assumes "tw_wf (remote st)" and "\<forall>p \<in> set ps. migratable (remote st) p"
  shows "no_raise (map (\<lambda>t. migrate_table tag_env (ttm_src t) (ttm_rule t)) ps) st \<and>
         seen_tables (run_all (map (\<lambda>t. migrate_table tag_env (ttm_src t) (ttm_rule t)) ps) st) = seen_tables st \<and>
         world_grows (remote st) (remote (run_all (map (\<lambda>t. migrate_table tag_env (ttm_src t) (ttm_rule t)) ps) st)) \<and>
         (\<forall>p \<in> set ps. as_uc_table_key (ttm_rule p) \<in> set (dict_keys (seen_tables st)) \<or>
            as_uc_table_key (ttm_rule p) \<in>
              set (dict_keys (seen_index tag_env (remote (run_all (map (\<lambda>t. migrate_table tag_env (ttm_src t) (ttm_rule t)) ps) st)))))"
  using assms
proof (induction ps arbitrary: st)
  case Nil
  then show ?case by (simp add: no_raise_def world_grows_refl)
next
  case (Cons p ps)
  let ?f = "\<lambda>t. migrate_table tag_env (ttm_src t) (ttm_rule t)"
  from migrate_table_tag [OF Cons.prems(1)] Cons.prems(2) obtain st1 where
    t: "?f p st = (Inr True, st1)" and s1: "seen_tables st1 = seen_tables st"
    and g1: "world_grows (remote st) (remote st1)"
    and k1: "as_uc_table_key (ttm_rule p) \<in> set (dict_keys (seen_tables st)) \<or>
             as_uc_table_key (ttm_rule p) \<in> set (dict_keys (seen_index tag_env (remote st1)))"
    by auto
  from g1 have wf1: "tw_wf (remote st1)" by (simp add: world_grows_def)
  from Cons.prems(2) g1 have "\<forall>p \<in> set ps. migratable (remote st1) p"
    using migratable_grows by auto
  note IH = Cons.IH [OF wf1 this]
  let ?st' = "run_all (map ?f ps) st1"
  from IH have g: "world_grows (remote st) (remote ?st')"
    using g1 world_grows_trans by blast
  from k1 IH wf1 have "as_uc_table_key (ttm_rule p) \<in> set (dict_keys (seen_tables st)) \<or>
      as_uc_table_key (ttm_rule p) \<in> set (dict_keys (seen_index tag_env (remote ?st')))"
    using world_grows_index by blast
  moreover from IH t have "no_raise (map ?f (p # ps)) st"
    unfolding no_raise_def list.map gather_no_error_Cons by (auto simp: no_raise_def)
  moreover from IH t s1 have "seen_tables (run_all (map ?f (p # ps)) st) = seen_tables st"
    by simp
  moreover from IH s1 have "\<forall>q \<in> set ps. as_uc_table_key (ttm_rule q) \<in> set (dict_keys (seen_tables st)) \<or>
      as_uc_table_key (ttm_rule q) \<in> set (dict_keys (seen_index tag_env (remote ?st')))"
    by simp
  ultimately show ?case using t g by simp
qed

section \<open>The cache on the tag world\<close>






section \<open>Two runs\<close>

text \<open>
  C29. Idempotency across runs, on the tag world: when every pair the mapping
  returns has a lower-case three-part destination and a strategy that succeeds,
  a first \<open>migrate_tables\<close> returns normally, and a second one, which reloads the
  index from the world the first one left, sends no statement: the warehouse's
  history and every object and tag stay as the first run left them.
\<close>

theorem migrate_twice_idempotent:
  assumes "tw_wf (remote st)" and "\<forall>p \<in> set (tw_rules (remote st)). migratable (remote st) p"
  shows "fst (migrate_tables tag_env w st) = Inr () \<and>
         remote (snd (migrate_tables tag_env w (snd (migrate_tables tag_env w st)))) =
         remote (snd (migrate_tables tag_env w st))"
proof -
  let ?f = "\<lambda>t. migrate_table tag_env (ttm_src t) (ttm_rule t)"
  let ?sel = "filter (\<lambda>t. w = None \<or> Some (what (ttm_src t)) = w)"
  obtain ls where i: "init_seen_tables tag_env st =
      (Inr (), st\<lparr>logs := logs st @ ls, seen_tables := seen_index tag_env (remote st)\<rparr>)"
    using init_seen_tables_spec by blast
  let ?st1 = "st\<lparr>logs := logs st @ ls, seen_tables := seen_index tag_env (remote st)\<rparr>"
  let ?ps = "?sel (tw_rules (remote st))"
  let ?st2 = "run_all (map ?f ?ps) ?st1"
  from assms have "\<forall>p \<in> set ?ps. migratable (remote ?st1) p" by simp
  from run_all_migrate_tag [OF _ this] assms(1)
  have n: "no_raise (map ?f ?ps) ?st1" and g: "world_grows (remote st) (remote ?st2)"
    and k: "\<forall>p \<in> set ?ps. as_uc_table_key (ttm_rule p) \<in> set (dict_keys (seen_index tag_env (remote st))) \<or>
              as_uc_table_key (ttm_rule p) \<in> set (dict_keys (seen_index tag_env (remote ?st2)))"
    by simp_all
  have m: "migrate_tables tag_env w st = bind_eff (strict (map ?f ?ps)) (\<lambda>_. return_eff ()) ?st1"
    using i by (simp add: migrate_tables_def migration_tasks_def)
  with strict_bind_return [of "map ?f ?ps" ?st1] n
  have first: "migrate_tables tag_env w st = (Inr (), ?st2)"
    by (simp add: prod_eq_iff)
  from k g assms(1) have "\<forall>p \<in> set ?ps. as_uc_table_key (ttm_rule p) \<in> set (dict_keys (seen_index tag_env (remote ?st2)))"
    using world_grows_index by blast
  moreover from g have "tw_rules (remote ?st2) = tw_rules (remote st)" by (simp add: world_grows_def)
  ultimately have "\<forall>t \<in> set (?sel (get_tables_to_migrate tag_env (remote ?st2))).
      as_uc_table_key (ttm_rule t) \<in> set (dict_keys (seen_index tag_env (remote ?st2)))"
    by simp
  from migrate_tables_indexed [OF this] first show ?thesis by simp
qed

end
