(* ===== verification/Roundtrip.thy ===== *)
theory Roundtrip
  imports Batch TagWorld
begin

text \<open>
  The migration and its revert, composed on the tag world of \<open>TagWorld\<close>: the exact
  objects and tags one migration and one revert task leave, the index the first run
  leaves, the task lists both preparations build, and the round trip, sequential
  (\<open>migrate_tables\<close> then \<open>revert_migrated_tables\<close>) and under the worker pool
  (\<open>migrate_tables_conc\<close> then \<open>revert_migrated_tables_conc\<close>).
\<close>

section \<open>Definitions\<close>

text \<open>Two worlds of one migration: same mapping, inventory, \<open>SYNC\<close> answers,
  workspace, clock and saved tables; the objects, tags and history may differ.\<close>

definition tw_frame :: "tag_world \<Rightarrow> tag_world \<Rightarrow> bool" where
  "tw_frame w w' =
     (tw_rules w' = tw_rules w \<and> tw_inventory w' = tw_inventory w \<and> tw_sync_status w' = tw_sync_status w \<and>
      tw_ws_id w' = tw_ws_id w \<and> tw_clock w' = tw_clock w \<and> tw_saved w' = tw_saved w)"

text \<open>The object name a pair's destination parses to.\<close>

definition dst_name :: "table_to_migrate \<Rightarrow> obj_name" where
  "dst_name p = the (parse_name (as_uc_table_key (ttm_rule p)))"

section \<open>One task on the tag world\<close>

lemma dict_set_twice [simp]: "dict_set (dict_set d k v) k v' = dict_set d k v'"
  by (induction d) auto

lemma sql_execute_tag:
  "tw_execute s (remote st) = Inr w \<Longrightarrow> sql_execute tag_env s st = (Inr (), st\<lparr>remote := tw_record s w\<rparr>)"
  by (simp add: sql_execute_def)

lemma tag_dbfs_exact:
  assumes "parse_name (as_uc_table_key r) = Some n" and "map_of (tw_objects (remote st)) n = None"
  shows "\<exists>st'. migrate_dbfs_root_table tag_env src r st = (Inr True, st') \<and>
     seen_tables st' = seen_tables st \<and> tw_frame (remote st) (remote st') \<and>
     tw_objects (remote st') = dict_set (tw_objects (remote st)) n [(''upgraded_from'', key src)] \<and>
     tw_src_tags (remote st') = dict_set (tw_src_tags (remote st)) (key src) (as_uc_table_key r)"
  using assms
  by (simp add: migrate_dbfs_root_table_def Let_def sql_defs bind_eff_def sql_execute_def
                tw_execute_def tw_create_def tw_record_def tw_frame_def)

lemma tag_view_exact:
  assumes "parse_name (as_uc_table_key r) = Some n" and "map_of (tw_objects (remote st)) n = None"
  shows "\<exists>st'. migrate_view tag_env src r st = (Inr True, st') \<and>
     seen_tables st' = seen_tables st \<and> tw_frame (remote st) (remote st') \<and>
     tw_objects (remote st') = dict_set (tw_objects (remote st)) n [(''upgraded_from'', key src)] \<and>
     tw_src_tags (remote st') = dict_set (tw_src_tags (remote st)) (key src) (as_uc_table_key r)"
  using assms
  by (simp add: migrate_view_def Let_def sql_defs bind_eff_def sql_execute_def
                tw_execute_def tw_create_def tw_record_def tw_frame_def)

lemma tag_external_exact:
  assumes "parse_name (as_uc_table_key r) = Some n" and "map_of (tw_objects (remote st)) n = None"
    and "tw_sync_status (remote st) (key src) = ''SUCCESS''"
  shows "\<exists>st'. migrate_external_table tag_env src r st = (Inr True, st') \<and>
     seen_tables st' = seen_tables st \<and> tw_frame (remote st) (remote st') \<and>
     tw_objects (remote st') = dict_set (tw_objects (remote st)) n [(''upgraded_from'', key src)] \<and>
     tw_src_tags (remote st') = tw_src_tags (remote st)"
  using assms
  by (simp add: migrate_external_table_def Let_def sql_defs bind_eff_def sql_execute_def sql_fetch_def
                tw_execute_def tw_fetch_def tw_create_def tw_record_def tw_frame_def row_get_def)

lemma tw_frame_refl [simp]: "tw_frame w w"
  by (simp add: tw_frame_def)

lemma tw_frame_trans: "tw_frame wa wb \<Longrightarrow> tw_frame wb wc \<Longrightarrow> tw_frame wa wc"
  by (simp add: tw_frame_def)

lemma migratable_frame: "tw_frame w w' \<Longrightarrow> migratable w p \<Longrightarrow> migratable w' p"
  by (simp add: tw_frame_def migratable_def)

lemma migrate_table_fresh_tag:
  assumes "migratable (remote st) p" and "as_uc_table_key (ttm_rule p) \<notin> set (dict_keys (seen_tables st))"
    and "map_of (tw_objects (remote st)) (dst_name p) = None"
  shows "\<exists>st'. migrate_table tag_env (ttm_src p) (ttm_rule p) st = (Inr True, st') \<and>
     seen_tables st' = seen_tables st \<and> tw_frame (remote st) (remote st') \<and>
     tw_objects (remote st') = dict_set (tw_objects (remote st)) (dst_name p) [(''upgraded_from'', key (ttm_src p))] \<and>
     set (dict_keys (tw_src_tags (remote st'))) \<subseteq> insert (key (ttm_src p)) (set (dict_keys (tw_src_tags (remote st))))"
proof -
  from assms(1) obtain n where n: "parse_name (as_uc_table_key (ttm_rule p)) = Some n"
    by (auto simp: migratable_def Let_def)
  then have dn: "dst_name p = n" by (simp add: dst_name_def)
  consider "what (ttm_src p) = DBFS_ROOT_DELTA" | "what (ttm_src p) = VIEW"
    | "what (ttm_src p) = EXTERNAL_SYNC" "tw_sync_status (remote st) (key (ttm_src p)) = ''SUCCESS''"
    using assms(1) by (auto simp: migratable_def Let_def)
  then show ?thesis
  proof cases
    case 1
    with tag_dbfs_exact [OF n assms(3) [unfolded dn], where src = "ttm_src p"] assms(2) dn show ?thesis
      by (auto simp: migrate_table_def)
  next
    case 2
    with tag_view_exact [OF n assms(3) [unfolded dn], where src = "ttm_src p"] assms(2) dn show ?thesis
      by (auto simp: migrate_table_def)
  next
    case 3
    with tag_external_exact [OF n assms(3) [unfolded dn] 3(2)] assms(2) dn show ?thesis
      by (auto simp: migrate_table_def)
  qed
qed

lemma run_migrate_fresh:
  assumes "\<forall>p \<in> set ps. migratable (remote st) p \<and>
             as_uc_table_key (ttm_rule p) \<notin> set (dict_keys (seen_tables st)) \<and>
             map_of (tw_objects (remote st)) (dst_name p) = None"
    and "distinct (map dst_name ps)"
  shows "no_raise (map (\<lambda>t. migrate_table tag_env (ttm_src t) (ttm_rule t)) ps) st \<and>
    seen_tables (run_all (map (\<lambda>t. migrate_table tag_env (ttm_src t) (ttm_rule t)) ps) st) = seen_tables st \<and>
    tw_frame (remote st) (remote (run_all (map (\<lambda>t. migrate_table tag_env (ttm_src t) (ttm_rule t)) ps) st)) \<and>
    tw_objects (remote (run_all (map (\<lambda>t. migrate_table tag_env (ttm_src t) (ttm_rule t)) ps) st)) =
      fold (\<lambda>p d. dict_set d (dst_name p) [(''upgraded_from'', key (ttm_src p))]) ps (tw_objects (remote st)) \<and>
    set (dict_keys (tw_src_tags (remote (run_all (map (\<lambda>t. migrate_table tag_env (ttm_src t) (ttm_rule t)) ps) st)))) \<subseteq>
      set (dict_keys (tw_src_tags (remote st))) \<union> (\<lambda>p. key (ttm_src p)) ` set ps"
  using assms
proof (induction ps arbitrary: st)
  case Nil
  then show ?case by (simp add: no_raise_def)
next
  case (Cons p ps)
  let ?f = "\<lambda>t. migrate_table tag_env (ttm_src t) (ttm_rule t)"
  from migrate_table_fresh_tag [of st p] Cons.prems(1) obtain st1 where
    t: "?f p st = (Inr True, st1)" and s1: "seen_tables st1 = seen_tables st"
    and f1: "tw_frame (remote st) (remote st1)"
    and o1: "tw_objects (remote st1) = dict_set (tw_objects (remote st)) (dst_name p) [(''upgraded_from'', key (ttm_src p))]"
    and k1: "set (dict_keys (tw_src_tags (remote st1))) \<subseteq> insert (key (ttm_src p)) (set (dict_keys (tw_src_tags (remote st))))"
    by auto
  from Cons.prems have "\<forall>q \<in> set ps. migratable (remote st1) q \<and>
      as_uc_table_key (ttm_rule q) \<notin> set (dict_keys (seen_tables st1)) \<and>
      map_of (tw_objects (remote st1)) (dst_name q) = None"
    using f1 s1 o1 migratable_frame by (force simp: image_iff)
  moreover from Cons.prems(2) have "distinct (map dst_name ps)" by simp
  ultimately have IH: "no_raise (map ?f ps) st1 \<and> seen_tables (run_all (map ?f ps) st1) = seen_tables st1 \<and>
    tw_frame (remote st1) (remote (run_all (map ?f ps) st1)) \<and>
    tw_objects (remote (run_all (map ?f ps) st1)) =
      fold (\<lambda>p d. dict_set d (dst_name p) [(''upgraded_from'', key (ttm_src p))]) ps (tw_objects (remote st1)) \<and>
    set (dict_keys (tw_src_tags (remote (run_all (map ?f ps) st1)))) \<subseteq>
      set (dict_keys (tw_src_tags (remote st1))) \<union> (\<lambda>p. key (ttm_src p)) ` set ps"
    by (rule Cons.IH)
  have "no_raise (map ?f (p # ps)) st"
    using IH t unfolding no_raise_def list.map gather_no_error_Cons by (auto simp: no_raise_def)
  moreover have "tw_frame (remote st) (remote (run_all (map ?f (p # ps)) st))"
    using IH t f1 tw_frame_trans by auto
  moreover have "set (dict_keys (tw_src_tags (remote (run_all (map ?f (p # ps)) st)))) \<subseteq>
      set (dict_keys (tw_src_tags (remote st))) \<union> (\<lambda>p. key (ttm_src p)) ` set (p # ps)"
    using IH t k1 by auto
  ultimately show ?case using IH t s1 o1 by simp
qed

lemma revert_table_exact:
  assumes "parse_name d = Some n"
  shows "\<exists>st'. revert_migrated_table tag_env t d st = (Inr (), st') \<and>
     seen_tables st' = seen_tables st \<and> tw_frame (remote st) (remote st') \<and>
     tw_objects (remote st') = dict_remove (tw_objects (remote st)) n \<and>
     tw_src_tags (remote st') = dict_remove (tw_src_tags (remote st)) (key t)"
  using assms
  by (simp add: revert_migrated_table_def sql_defs bind_eff_def sql_execute_def log_msg_def
                tw_execute_def tw_record_def tw_frame_def)

lemma run_revert_exact:
  assumes "\<forall>t \<in> set ts. parse_name (f t) \<noteq> None"
  shows "no_raise (map (\<lambda>t. revert_migrated_table tag_env t (f t)) ts) st \<and>
    seen_tables (run_all (map (\<lambda>t. revert_migrated_table tag_env t (f t)) ts) st) = seen_tables st \<and>
    tw_objects (remote (run_all (map (\<lambda>t. revert_migrated_table tag_env t (f t)) ts) st)) =
      filter (\<lambda>(m, v). m \<notin> (\<lambda>t. the (parse_name (f t))) ` set ts) (tw_objects (remote st)) \<and>
    tw_src_tags (remote (run_all (map (\<lambda>t. revert_migrated_table tag_env t (f t)) ts) st)) =
      filter (\<lambda>(k, v). k \<notin> key ` set ts) (tw_src_tags (remote st))"
  using assms
proof (induction ts arbitrary: st)
  case Nil
  then show ?case by (simp add: no_raise_def)
next
  case (Cons t ts)
  let ?g = "\<lambda>t. revert_migrated_table tag_env t (f t)"
  from Cons.prems obtain n where n: "parse_name (f t) = Some n" by auto
  from revert_table_exact [OF n, of t st] obtain st1 where
    r: "?g t st = (Inr (), st1)" and s1: "seen_tables st1 = seen_tables st"
    and o1: "tw_objects (remote st1) = dict_remove (tw_objects (remote st)) n"
    and k1: "tw_src_tags (remote st1) = dict_remove (tw_src_tags (remote st)) (key t)"
    by blast
  from Cons.prems have IH: "no_raise (map ?g ts) st1 \<and> seen_tables (run_all (map ?g ts) st1) = seen_tables st1 \<and>
    tw_objects (remote (run_all (map ?g ts) st1)) =
      filter (\<lambda>(m, v). m \<notin> (\<lambda>t. the (parse_name (f t))) ` set ts) (tw_objects (remote st1)) \<and>
    tw_src_tags (remote (run_all (map ?g ts) st1)) = filter (\<lambda>(k, v). k \<notin> key ` set ts) (tw_src_tags (remote st1))"
    by (intro Cons.IH) simp
  have "no_raise (map ?g (t # ts)) st"
    using IH r unfolding no_raise_def list.map gather_no_error_Cons by (auto simp: no_raise_def)
  with IH r s1 o1 k1 n show ?case
    by (auto simp: dict_remove_def intro!: filter_cong)
qed

lemma lower_key [simp]: "lower (key t) = key t"
  by (simp add: key_def)

lemma fold_dict_set_fresh:
  assumes "distinct (map f ps)" and "\<forall>p \<in> set ps. f p \<notin> set (dict_keys d)"
  shows "fold (\<lambda>p d. dict_set d (f p) (g p)) ps d = d @ map (\<lambda>p. (f p, g p)) ps"
  using assms
proof (induction ps arbitrary: d)
  case (Cons p ps)
  from Cons.prems(2) have "dict_set d (f p) (g p) = d @ [(f p, g p)]"
    by (induction d) (auto simp: dict_keys_def)
  moreover from Cons.prems have "\<forall>q \<in> set ps. f q \<notin> set (dict_keys (d @ [(f p, g p)]))"
    by (auto simp: dict_keys_def image_iff)
  ultimately show ?case using Cons.IH Cons.prems(1) by simp
qed simp

text \<open>The world a first run leaves from an empty one: one object per pair, tagged
  with its source's key.\<close>

lemma migrated_world_index:
  assumes "tw_objects w = map (\<lambda>p. (dst_name p, [(''upgraded_from'', key (ttm_src p))])) ps"
    and "\<forall>p \<in> set ps. lower (as_uc_table_key (ttm_rule p)) = as_uc_table_key (ttm_rule p) \<and>
           parse_name (as_uc_table_key (ttm_rule p)) \<noteq> None"
    and "distinct (map (\<lambda>p. as_uc_table_key (ttm_rule p)) ps)"
  shows "set (seen_index tag_env w) = (\<lambda>p. (as_uc_table_key (ttm_rule p), key (ttm_src p))) ` set ps"
proof -
  have fn: "lower (full_name (dst_name p)) = as_uc_table_key (ttm_rule p)" if "p \<in> set ps" for p
    using assms(2) that parse_name_full_name by (auto simp: dst_name_def)
  have ent: "seen_entry (tw_info (dst_name p, [(''upgraded_from'', key (ttm_src p))])) =
      Some (as_uc_table_key (ttm_rule p), key (ttm_src p))" if "p \<in> set ps" for p
    using fn [OF that] by (cases "dst_name p") (simp add: seen_entry_def tw_info_def full_name_def)
  have lst: "set (listed_objects tag_env w) = (\<lambda>p. tw_info (dst_name p, [(''upgraded_from'', key (ttm_src p))])) ` set ps"
    using assms(1) by (simp add: listed_objects_tag_env image_image)
  have sub: "\<exists>p \<in> set ps. (k, v) = (as_uc_table_key (ttm_rule p), key (ttm_src p))"
    if "(k, v) \<in> set (seen_index tag_env w)" for k v
    using fold_add_entry_pairs [OF that [unfolded seen_index_def]] lst ent by auto
  have inj: "inj_on (\<lambda>p. as_uc_table_key (ttm_rule p)) (set ps)"
    using assms(3) by (simp add: distinct_map)
  have "(as_uc_table_key (ttm_rule p), key (ttm_src p)) \<in> set (seen_index tag_env w)" if p: "p \<in> set ps" for p
  proof -
    have "as_uc_table_key (ttm_rule p) \<in> set (dict_keys (seen_index tag_env w))"
      using fold_add_entry_keys [of "listed_objects tag_env w" "[]"] lst ent [OF p] p
      by (force simp: seen_index_def)
    then obtain v where kv: "(as_uc_table_key (ttm_rule p), v) \<in> set (seen_index tag_env w)"
      by (auto simp: dict_keys_def)
    from sub [OF kv] obtain q where "q \<in> set ps" and "as_uc_table_key (ttm_rule p) = as_uc_table_key (ttm_rule q)"
      and "v = key (ttm_src q)" by auto
    with inj p kv show ?thesis by (auto dest: inj_onD)
  qed
  with sub show ?thesis by fastforce
qed

lemma invert_migrated_index:
  assumes "set idx = (\<lambda>p. (as_uc_table_key (ttm_rule p), key (ttm_src p))) ` set ps"
    and "distinct (map (\<lambda>p. key (ttm_src p)) ps)" and "p \<in> set ps"
  shows "map_of (dict_invert idx) (key (ttm_src p)) = Some (as_uc_table_key (ttm_rule p))"
proof -
  have "key (ttm_src p) \<in> set (dict_values idx)"
    using assms(1,3) by (force simp: dict_values_def)
  then obtain k where k: "map_of (dict_invert idx) (key (ttm_src p)) = Some k"
    using dom_dict_invert [of idx] by auto
  then have "(k, key (ttm_src p)) \<in> set idx" by (rule dict_invert_Some)
  with assms(1) obtain q where "q \<in> set ps" and "k = as_uc_table_key (ttm_rule q)"
    and "key (ttm_src p) = key (ttm_src q)" by auto
  with assms(2,3) k show ?thesis by (auto simp: distinct_map dest: inj_onD)
qed

lemma dst_name_full_name:
  "migratable w p \<Longrightarrow> full_name (dst_name p) = as_uc_table_key (ttm_rule p)"
  by (auto simp: migratable_def Let_def dst_name_def intro: parse_name_full_name)

lemma distinct_dst_name:
  assumes "\<forall>p \<in> set ps. migratable w p" and "distinct (map (\<lambda>p. as_uc_table_key (ttm_rule p)) ps)"
  shows "distinct (map dst_name ps)"
proof -
  have "inj_on dst_name (set ps)"
  proof (rule inj_onI)
    fix p q assume "p \<in> set ps" "q \<in> set ps" "dst_name p = dst_name q"
    with assms(1) have "as_uc_table_key (ttm_rule p) = as_uc_table_key (ttm_rule q)"
      by (metis dst_name_full_name)
    with assms(2) \<open>p \<in> set ps\<close> \<open>q \<in> set ps\<close> show "p = q" by (auto simp: distinct_map dest: inj_onD)
  qed
  with assms(2) show ?thesis by (simp add: distinct_map)
qed

lemma seen_index_empty: "tw_objects w = [] \<Longrightarrow> seen_index tag_env w = []"
  using listed_objects_tag_env [of w] by (simp add: seen_index_def)

section \<open>The two preparations\<close>

lemma migrate_prepare_empty:
  assumes "tw_objects (remote st) = []"
  shows "\<exists>ls. migrate_prepare tag_env None st =
    (Inr (map (\<lambda>t. migrate_table tag_env (ttm_src t) (ttm_rule t)) (tw_rules (remote st))),
     st\<lparr>logs := logs st @ ls, seen_tables := []\<rparr>)"
proof -
  obtain ls where i: "init_seen_tables tag_env st =
      (Inr (), st\<lparr>logs := logs st @ ls, seen_tables := seen_index tag_env (remote st)\<rparr>)"
    using init_seen_tables_spec by blast
  with seen_index_empty [OF assms] show ?thesis
    by (auto simp: migrate_prepare_def migration_tasks_def)
qed

text \<open>The tasks of a first run, in any order, from a world with no destination and
  no tag and an empty index: none raises, the world holds exactly one tagged object
  per pair, and only the pairs' sources are tagged.\<close>

lemma migrate_run_empty:
  assumes "tw_objects (remote st) = []" and "tw_src_tags (remote st) = []" and "seen_tables st = []"
    and "\<forall>p \<in> set qs. migratable (remote st) p" and "distinct (map dst_name qs)"
  shows "no_raise (map (\<lambda>t. migrate_table tag_env (ttm_src t) (ttm_rule t)) qs) st \<and>
    tw_frame (remote st) (remote (run_all (map (\<lambda>t. migrate_table tag_env (ttm_src t) (ttm_rule t)) qs) st)) \<and>
    tw_objects (remote (run_all (map (\<lambda>t. migrate_table tag_env (ttm_src t) (ttm_rule t)) qs) st)) =
      map (\<lambda>p. (dst_name p, [(''upgraded_from'', key (ttm_src p))])) qs \<and>
    set (dict_keys (tw_src_tags (remote (run_all (map (\<lambda>t. migrate_table tag_env (ttm_src t) (ttm_rule t)) qs) st)))) \<subseteq>
      (\<lambda>p. key (ttm_src p)) ` set qs"
proof -
  from assms(1,3,4) have "\<forall>p \<in> set qs. migratable (remote st) p \<and>
      as_uc_table_key (ttm_rule p) \<notin> set (dict_keys (seen_tables st)) \<and>
      map_of (tw_objects (remote st)) (dst_name p) = None"
    by (simp add: dict_keys_def)
  from run_migrate_fresh [OF this assms(5)] fold_dict_set_fresh [OF assms(5), of "[]"] assms(1,2)
  show ?thesis by (simp add: dict_keys_def)
qed

text \<open>The tasks of a first run in any order of the pairs, from a world with no
  destination and no tag: none raises, and the world they leave is one a revert of
  everything applies to.\<close>

lemma migrate_order_from_empty:
  assumes "tw_objects (remote s) = []" and "tw_src_tags (remote s) = []" and "seen_tables s = []"
    and m: "\<forall>p \<in> set ps. migratable (remote s) p \<and> ttm_src p \<in> set (tw_inventory (remote s))"
    and "distinct (map (\<lambda>p. key (ttm_src p)) ps)" and "distinct (map (\<lambda>p. as_uc_table_key (ttm_rule p)) ps)"
    and mq: "mset qs = mset ps"
  shows "no_raise (map (\<lambda>t. migrate_table tag_env (ttm_src t) (ttm_rule t)) qs) s \<and>
    tw_objects (remote (run_all (map (\<lambda>t. migrate_table tag_env (ttm_src t) (ttm_rule t)) qs) s)) = map (\<lambda>p. (dst_name p, [(''upgraded_from'', key (ttm_src p))])) qs \<and>
    set (dict_keys (tw_src_tags (remote (run_all (map (\<lambda>t. migrate_table tag_env (ttm_src t) (ttm_rule t)) qs) s)))) \<subseteq> (\<lambda>p. key (ttm_src p)) ` set qs \<and>
    (\<forall>p \<in> set qs. migratable (remote (run_all (map (\<lambda>t. migrate_table tag_env (ttm_src t) (ttm_rule t)) qs) s)) p \<and>
       ttm_src p \<in> set (tw_inventory (remote (run_all (map (\<lambda>t. migrate_table tag_env (ttm_src t) (ttm_rule t)) qs) s)))) \<and>
    tw_inventory (remote (run_all (map (\<lambda>t. migrate_table tag_env (ttm_src t) (ttm_rule t)) qs) s)) = tw_inventory (remote s) \<and>
    distinct (map (\<lambda>p. key (ttm_src p)) qs) \<and> distinct (map (\<lambda>p. as_uc_table_key (ttm_rule p)) qs)"
proof -
  from mq have sq: "set qs = set ps" by (rule mset_eq_setD)
  have perm: "distinct (map h qs) \<longleftrightarrow> distinct (map h ps)" for h :: "table_to_migrate \<Rightarrow> 'b"
    by (rule mset_eq_imp_distinct_iff) (metis mq mset_map)
  have "distinct (map dst_name ps)" using assms(4,6) by (intro distinct_dst_name) auto
  with migrate_run_empty [of s qs] assms(1-4) sq perm [of dst_name]
  have "no_raise (map (\<lambda>t. migrate_table tag_env (ttm_src t) (ttm_rule t)) qs) s" and f: "tw_frame (remote s) (remote (run_all (map (\<lambda>t. migrate_table tag_env (ttm_src t) (ttm_rule t)) qs) s))"
    and "tw_objects (remote (run_all (map (\<lambda>t. migrate_table tag_env (ttm_src t) (ttm_rule t)) qs) s)) = map (\<lambda>p. (dst_name p, [(''upgraded_from'', key (ttm_src p))])) qs"
    and "set (dict_keys (tw_src_tags (remote (run_all (map (\<lambda>t. migrate_table tag_env (ttm_src t) (ttm_rule t)) qs) s)))) \<subseteq> (\<lambda>p. key (ttm_src p)) ` set qs"
    by simp_all
  moreover from m sq f have "\<forall>p \<in> set qs. migratable (remote (run_all (map (\<lambda>t. migrate_table tag_env (ttm_src t) (ttm_rule t)) qs) s)) p \<and>
       ttm_src p \<in> set (tw_inventory (remote (run_all (map (\<lambda>t. migrate_table tag_env (ttm_src t) (ttm_rule t)) qs) s)))"
    using migratable_frame by (auto simp: tw_frame_def)
  moreover from f have "tw_inventory (remote (run_all (map (\<lambda>t. migrate_table tag_env (ttm_src t) (ttm_rule t)) qs) s)) = tw_inventory (remote s)"
    by (simp add: tw_frame_def)
  ultimately show ?thesis
    using assms(5,6) perm [of "\<lambda>p. key (ttm_src p)"] perm [of "\<lambda>p. as_uc_table_key (ttm_rule p)"] by simp
qed

text \<open>The preparation of a revert of everything on the world a first run left: one task
  per migrated source that the deletion policy reverts, and the tasks, in any order,
  never raise, remove exactly the destinations of those sources and every tag but
  those of the sources the policy keeps.\<close>

lemma revert_prepare_migrated:
  assumes o: "tw_objects (remote st) = map (\<lambda>p. (dst_name p, [(''upgraded_from'', key (ttm_src p))])) ps"
    and k: "set (dict_keys (tw_src_tags (remote st))) \<subseteq> (\<lambda>p. key (ttm_src p)) ` set ps"
    and m: "\<forall>p \<in> set ps. migratable (remote st) p \<and> ttm_src p \<in> set (tw_inventory (remote st))"
    and ds: "distinct (map (\<lambda>p. key (ttm_src p)) ps)"
    and dd: "distinct (map (\<lambda>p. as_uc_table_key (ttm_rule p)) ps)"
    and di: "distinct (map key (tw_inventory (remote st)))"
  shows "\<exists>cs st1. revert_prepare tag_env None None dm st = (Inr (map (\<lambda>t. revert_migrated_table tag_env t (the (map_of (dict_invert (seen_index tag_env (remote st))) (key t)))) cs), st1) \<and>
    (\<forall>cs'. set cs' = set cs \<longrightarrow> no_raise (map (\<lambda>t. revert_migrated_table tag_env t (the (map_of (dict_invert (seen_index tag_env (remote st))) (key t)))) cs') st1 \<and>
       tw_objects (remote (run_all (map (\<lambda>t. revert_migrated_table tag_env t (the (map_of (dict_invert (seen_index tag_env (remote st))) (key t)))) cs') st1)) =
         map (\<lambda>p. (dst_name p, [(''upgraded_from'', key (ttm_src p))])) (filter (\<lambda>p. \<not> revert_eligible dm (ttm_src p)) ps) \<and>
       set (dict_keys (tw_src_tags (remote (run_all (map (\<lambda>t. revert_migrated_table tag_env t (the (map_of (dict_invert (seen_index tag_env (remote st))) (key t)))) cs') st1)))) \<subseteq>
         (\<lambda>p. key (ttm_src p)) ` {p \<in> set ps. \<not> revert_eligible dm (ttm_src p)})"
proof -
  let ?idx = "seen_index tag_env (remote st)"
  let ?tgt = "\<lambda>t. the (map_of (dict_invert ?idx) (key t))"
  let ?g = "\<lambda>t. revert_migrated_table tag_env t (?tgt t)"
  obtain ls where i: "init_seen_tables tag_env st = (Inr (), st\<lparr>logs := logs st @ ls, seen_tables := ?idx\<rparr>)"
    using init_seen_tables_spec by blast
  let ?st1 = "st\<lparr>logs := logs st @ ls, seen_tables := ?idx\<rparr>"
  let ?cs = "filter (\<lambda>t. key t \<in> set (dict_values ?idx)) (tw_inventory (remote st))"
  let ?es = "filter (revert_eligible dm) ?cs"
  have idx: "set ?idx = (\<lambda>p. (as_uc_table_key (ttm_rule p), key (ttm_src p))) ` set ps"
    using m by (intro migrated_world_index [OF o _ dd]) (auto simp: migratable_def Let_def)
  then have vals: "set (dict_values ?idx) = (\<lambda>p. key (ttm_src p)) ` set ps"
    by (force simp: dict_values_def)
  have tgt: "?tgt (ttm_src p) = as_uc_table_key (ttm_rule p)" if "p \<in> set ps" for p
    using invert_migrated_index [OF idx ds that] by simp
  have g: "get_tables_to_revert tag_env None None ?st1 = (Inr ?cs, ?st1)"
    unfolding get_tables_to_revert_spec by (auto simp: revert_candidate_def lower_opt_def intro!: filter_cong)
  from revert_tasks_spec [of ?cs dm "dict_invert ?idx" tag_env ?st1]
  obtain st2 where r: "revert_tasks tag_env (dict_invert ?idx) dm ?cs ?st1 = (Inr (map ?g ?es), st2)"
    and l: "logs_only ?st1 st2"
    using dom_dict_invert [of ?idx] by (auto simp: prod_eq_iff)
  have prep: "revert_prepare tag_env None None dm st = (Inr (map ?g ?es), st2)"
    using i g r by (simp add: revert_prepare_def)
  have src: "ttm_src p \<in> set ?cs" if "p \<in> set ps" for p
    using that m vals by auto
  have cand: "\<exists>p \<in> set ps. t = ttm_src p" if "t \<in> set ?cs" for t
  proof -
    from that vals obtain p where p: "p \<in> set ps" and kt: "key t = key (ttm_src p)" by auto
    from that m p have "t \<in> set (tw_inventory (remote st))" "ttm_src p \<in> set (tw_inventory (remote st))" by auto
    with di kt have "t = ttm_src p" by (auto simp: distinct_map dest: inj_onD)
    with p show ?thesis by blast
  qed
  have dn: "distinct (map dst_name ps)" using m dd by (intro distinct_dst_name) auto
  have "no_raise (map ?g cs') st2 \<and>
      tw_objects (remote (run_all (map ?g cs') st2)) =
        map (\<lambda>p. (dst_name p, [(''upgraded_from'', key (ttm_src p))])) (filter (\<lambda>p. \<not> revert_eligible dm (ttm_src p)) ps) \<and>
      set (dict_keys (tw_src_tags (remote (run_all (map ?g cs') st2)))) \<subseteq>
        (\<lambda>p. key (ttm_src p)) ` {p \<in> set ps. \<not> revert_eligible dm (ttm_src p)}"
    if cs': "set cs' = set ?es" for cs'
  proof -
    have ce: "t \<in> set cs' \<longleftrightarrow> (\<exists>p \<in> set ps. t = ttm_src p \<and> revert_eligible dm t)" for t
    proof
      assume "t \<in> set cs'"
      with cs' have "t \<in> set ?cs" and e: "revert_eligible dm t" by simp_all
      from cand [OF this(1)] e show "\<exists>p \<in> set ps. t = ttm_src p \<and> revert_eligible dm t" by blast
    next
      assume "\<exists>p \<in> set ps. t = ttm_src p \<and> revert_eligible dm t"
      then obtain p where "p \<in> set ps" "t = ttm_src p" "revert_eligible dm t" by blast
      with src [of p] cs' show "t \<in> set cs'" by simp
    qed
    have "\<forall>t \<in> set cs'. parse_name (?tgt t) \<noteq> None"
    proof
      fix t assume "t \<in> set cs'"
      with ce obtain p where p: "p \<in> set ps" and t: "t = ttm_src p" by blast
      from m p have "parse_name (as_uc_table_key (ttm_rule p)) \<noteq> None" by (simp add: migratable_def Let_def)
      with tgt [OF p] t show "parse_name (?tgt t) \<noteq> None" by simp
    qed
    from run_revert_exact [OF this, of st2] l
    have n: "no_raise (map ?g cs') st2"
      and ro: "tw_objects (remote (run_all (map ?g cs') st2)) =
        filter (\<lambda>(n, v). n \<notin> (\<lambda>t. the (parse_name (?tgt t))) ` set cs') (tw_objects (remote st))"
      and rk: "tw_src_tags (remote (run_all (map ?g cs') st2)) =
        filter (\<lambda>(k, v). k \<notin> key ` set cs') (tw_src_tags (remote st))"
      by simp_all
    have rem: "dst_name p \<in> (\<lambda>t. the (parse_name (?tgt t))) ` set cs' \<longleftrightarrow> revert_eligible dm (ttm_src p)"
      if p: "p \<in> set ps" for p
    proof
      assume "dst_name p \<in> (\<lambda>t. the (parse_name (?tgt t))) ` set cs'"
      then obtain t where t: "t \<in> set cs'" and dt: "dst_name p = the (parse_name (?tgt t))" by blast
      from t ce obtain q where q: "q \<in> set ps" "t = ttm_src q" "revert_eligible dm t" by blast
      from dt tgt [OF q(1)] q(2) have "dst_name p = dst_name q" by (simp add: dst_name_def)
      with dn p q(1) have "p = q" by (auto simp: distinct_map dest: inj_onD)
      with q show "revert_eligible dm (ttm_src p)" by simp
    next
      assume "revert_eligible dm (ttm_src p)"
      with ce p tgt [OF p] show "dst_name p \<in> (\<lambda>t. the (parse_name (?tgt t))) ` set cs'"
        by (force simp: dst_name_def)
    qed
    have "filter (\<lambda>p. dst_name p \<notin> (\<lambda>t. the (parse_name (?tgt t))) ` set cs') ps =
        filter (\<lambda>p. \<not> revert_eligible dm (ttm_src p)) ps"
      using rem by (intro filter_cong refl) blast
    then have "tw_objects (remote (run_all (map ?g cs') st2)) =
        map (\<lambda>p. (dst_name p, [(''upgraded_from'', key (ttm_src p))])) (filter (\<lambda>p. \<not> revert_eligible dm (ttm_src p)) ps)"
      using ro o by (simp add: filter_map comp_def)
    moreover have "set (dict_keys (tw_src_tags (remote (run_all (map ?g cs') st2)))) \<subseteq>
        (\<lambda>p. key (ttm_src p)) ` {p \<in> set ps. \<not> revert_eligible dm (ttm_src p)}"
    proof
      fix x assume "x \<in> set (dict_keys (tw_src_tags (remote (run_all (map ?g cs') st2))))"
      with rk have x: "x \<in> set (dict_keys (tw_src_tags (remote st)))" and nx: "x \<notin> key ` set cs'"
        by (auto simp: dict_keys_def)
      from x k obtain p where p: "p \<in> set ps" and kx: "x = key (ttm_src p)" by blast
      have "\<not> revert_eligible dm (ttm_src p)"
      proof
        assume "revert_eligible dm (ttm_src p)"
        with ce p have "ttm_src p \<in> set cs'" by blast
        with nx kx show False by blast
      qed
      with p kx show "x \<in> (\<lambda>p. key (ttm_src p)) ` {p \<in> set ps. \<not> revert_eligible dm (ttm_src p)}" by blast
    qed
    ultimately show ?thesis using n by simp
  qed
  then have "\<forall>cs'. set cs' = set ?es \<longrightarrow> no_raise (map ?g cs') st2 \<and>
      tw_objects (remote (run_all (map ?g cs') st2)) =
        map (\<lambda>p. (dst_name p, [(''upgraded_from'', key (ttm_src p))])) (filter (\<lambda>p. \<not> revert_eligible dm (ttm_src p)) ps) \<and>
      set (dict_keys (tw_src_tags (remote (run_all (map ?g cs') st2)))) \<subseteq>
        (\<lambda>p. key (ttm_src p)) ` {p \<in> set ps. \<not> revert_eligible dm (ttm_src p)}"
    by blast
  with prep show ?thesis by blast
qed

section \<open>The round trip\<close>

text \<open>
  C27. Migrate, then revert everything: on a world with no destination and no tag,
  when the inventory crawler and the rule mapping keep their contracts
  (\<open>inventory_contract\<close>, \<open>mapping_contract\<close>), every pair has a lower-case
  three-part destination and a strategy that succeeds, and no two pairs share a
  destination, \<open>migrate_tables\<close> returns normally,
  and \<open>revert_migrated_tables\<close> with no filter then returns normally and undoes
  exactly what the deletion policy allows: the destinations left are those of the
  pairs whose source it keeps (managed tables without \<open>delete_managed\<close>), in
  mapping order, and no other source keeps a tag. With \<open>delete_managed\<close> nothing
  is left.
\<close>

theorem migrate_revert_roundtrip:
  assumes e: "tw_objects (remote st) = []" "tw_src_tags (remote st) = []"
    and ic: "inventory_contract (tw_inventory (remote st))"
    and mc: "mapping_contract (tw_inventory (remote st)) (tw_rules (remote st))"
    and mg: "\<forall>p \<in> set (tw_rules (remote st)). migratable (remote st) p"
    and dd: "distinct (map (\<lambda>p. as_uc_table_key (ttm_rule p)) (tw_rules (remote st)))"
  shows "fst (migrate_tables tag_env None st) = Inr () \<and>
    fst (revert_migrated_tables tag_env None None dm (snd (migrate_tables tag_env None st))) = Inr () \<and>
    tw_objects (remote (snd (revert_migrated_tables tag_env None None dm (snd (migrate_tables tag_env None st))))) =
      map (\<lambda>p. (dst_name p, [(''upgraded_from'', key (ttm_src p))])) (filter (\<lambda>p. \<not> revert_eligible dm (ttm_src p)) (tw_rules (remote st))) \<and>
    set (dict_keys (tw_src_tags (remote (snd (revert_migrated_tables tag_env None None dm (snd (migrate_tables tag_env None st))))))) \<subseteq>
      (\<lambda>p. key (ttm_src p)) ` {p \<in> set (tw_rules (remote st)). \<not> revert_eligible dm (ttm_src p)}"
proof -
  have h: "\<forall>p \<in> set (tw_rules (remote st)). migratable (remote st) p \<and> ttm_src p \<in> set (tw_inventory (remote st))"
    "distinct (map (\<lambda>p. key (ttm_src p)) (tw_rules (remote st)))" "distinct (map key (tw_inventory (remote st)))"
    using ic mc mg by (auto simp: inventory_contract_def mapping_contract_def list_all_iff)
  let ?f = "\<lambda>t. migrate_table tag_env (ttm_src t) (ttm_rule t)"
  let ?ps = "tw_rules (remote st)"
  obtain ls where p1: "migrate_prepare tag_env None st = (Inr (map ?f ?ps), st\<lparr>logs := logs st @ ls, seen_tables := []\<rparr>)"
    using migrate_prepare_empty [OF e(1)] by blast
  let ?s1 = "st\<lparr>logs := logs st @ ls, seen_tables := []\<rparr>"
  let ?st2 = "run_all (map ?f ?ps) ?s1"
  from migrate_order_from_empty [of ?s1 ?ps ?ps] e h(1,2) dd
  have n: "no_raise (map ?f ?ps) ?s1"
    and o: "tw_objects (remote ?st2) = map (\<lambda>p. (dst_name p, [(''upgraded_from'', key (ttm_src p))])) ?ps"
    and k: "set (dict_keys (tw_src_tags (remote ?st2))) \<subseteq> (\<lambda>p. key (ttm_src p)) ` set ?ps"
    and m: "\<forall>p \<in> set ?ps. migratable (remote ?st2) p \<and> ttm_src p \<in> set (tw_inventory (remote ?st2))"
    and inv: "tw_inventory (remote ?st2) = tw_inventory (remote st)"
    by simp_all
  have mig: "migrate_tables tag_env None st = (Inr (), ?st2)"
    using p1 strict_bind_return [of "map ?f ?ps" ?s1] n by (simp add: migrate_tables_prepare prod_eq_iff)
  from h(3) inv have "distinct (map key (tw_inventory (remote ?st2)))" by simp
  from revert_prepare_migrated [OF o k m h(2) dd this, of dm] obtain cs st3 where
    p2: "revert_prepare tag_env None None dm ?st2 = (Inr (map (\<lambda>t. revert_migrated_table tag_env t (the (map_of (dict_invert (seen_index tag_env (remote ?st2))) (key t)))) cs), st3)"
    and r: "no_raise (map (\<lambda>t. revert_migrated_table tag_env t (the (map_of (dict_invert (seen_index tag_env (remote ?st2))) (key t)))) cs) st3 \<and>
        tw_objects (remote (run_all (map (\<lambda>t. revert_migrated_table tag_env t (the (map_of (dict_invert (seen_index tag_env (remote ?st2))) (key t)))) cs) st3)) = map (\<lambda>p. (dst_name p, [(''upgraded_from'', key (ttm_src p))])) (filter (\<lambda>p. \<not> revert_eligible dm (ttm_src p)) ?ps) \<and>
        set (dict_keys (tw_src_tags (remote (run_all (map (\<lambda>t. revert_migrated_table tag_env t (the (map_of (dict_invert (seen_index tag_env (remote ?st2))) (key t)))) cs) st3)))) \<subseteq> (\<lambda>p. key (ttm_src p)) ` {p \<in> set (tw_rules (remote st)). \<not> revert_eligible dm (ttm_src p)}"
    by blast
  from p2 r mig strict_bind_return [of "map (\<lambda>t. revert_migrated_table tag_env t (the (map_of (dict_invert (seen_index tag_env (remote ?st2))) (key t)))) cs" st3] show ?thesis
    by (simp add: revert_migrated_tables_prepare)
qed

text \<open>
  C28. The round trip under the worker pool: on the same worlds, every concurrent run
  of \<open>migrate_tables\<close> followed by every concurrent run of
  \<open>revert_migrated_tables\<close>, whatever the numbers of workers and the orders in which
  the tasks finish, returns normally twice and leaves the same destinations as the
  sequential round trip, as a multiset (their order is the order the tasks finished
  in), and no tag of a source the policy reverts.
\<close>

theorem migrate_revert_roundtrip_conc:
  assumes e: "tw_objects (remote st) = []" "tw_src_tags (remote st) = []"
    and ic: "inventory_contract (tw_inventory (remote st))"
    and mc: "mapping_contract (tw_inventory (remote st)) (tw_rules (remote st))"
    and mg: "\<forall>p \<in> set (tw_rules (remote st)). migratable (remote st) p"
    and dd: "distinct (map (\<lambda>p. as_uc_table_key (ttm_rule p)) (tw_rules (remote st)))"
    and "migrate_tables_conc k tag_env None st (r1, st1)"
    and "revert_migrated_tables_conc k' tag_env None None dm st1 (r2, st2)"
  shows "r1 = Inr () \<and> r2 = Inr () \<and>
    mset (tw_objects (remote st2)) = mset (map (\<lambda>p. (dst_name p, [(''upgraded_from'', key (ttm_src p))])) (filter (\<lambda>p. \<not> revert_eligible dm (ttm_src p)) (tw_rules (remote st)))) \<and>
    set (dict_keys (tw_src_tags (remote st2))) \<subseteq> (\<lambda>p. key (ttm_src p)) ` {p \<in> set (tw_rules (remote st)). \<not> revert_eligible dm (ttm_src p)}"
proof -
  have h: "\<forall>p \<in> set (tw_rules (remote st)). migratable (remote st) p \<and> ttm_src p \<in> set (tw_inventory (remote st))"
    "distinct (map (\<lambda>p. key (ttm_src p)) (tw_rules (remote st)))" "distinct (map key (tw_inventory (remote st)))"
    using ic mc mg by (auto simp: inventory_contract_def mapping_contract_def list_all_iff)
  let ?f = "\<lambda>t. migrate_table tag_env (ttm_src t) (ttm_rule t)"
  let ?ps = "tw_rules (remote st)"
  obtain ls where p1: "migrate_prepare tag_env None st = (Inr (map ?f ?ps), st\<lparr>logs := logs st @ ls, seen_tables := []\<rparr>)"
    using migrate_prepare_empty [OF e(1)] by blast
  let ?s1 = "st\<lparr>logs := logs st @ ls, seen_tables := []\<rparr>"
  from run_batch_sequential [OF p1 assms(7) [unfolded migrate_tables_conc_def]] obtain "is" where
    i: "mset is = mset [0..<length ?ps]"
    and b1: "(r1, st1) = bind_eff (strict (map ((!) (map ?f ?ps)) is)) (\<lambda>_. return_eff ()) ?s1"
    by auto
  define qs where "qs = map ((!) ?ps) is"
  from map_nth_map [OF i] have q: "map ((!) (map ?f ?ps)) is = map ?f qs" and mq: "mset qs = mset ?ps"
    unfolding qs_def by blast+
  from mq have sq: "set qs = set ?ps" by (rule mset_eq_setD)
  from migrate_order_from_empty [of ?s1 ?ps qs] e h(1,2) dd mq sq
  have n: "no_raise (map ?f qs) ?s1"
    and o: "tw_objects (remote (run_all (map ?f qs) ?s1)) = map (\<lambda>p. (dst_name p, [(''upgraded_from'', key (ttm_src p))])) qs"
    and k: "set (dict_keys (tw_src_tags (remote (run_all (map ?f qs) ?s1)))) \<subseteq> (\<lambda>p. key (ttm_src p)) ` set qs"
    and m: "\<forall>p \<in> set qs. migratable (remote (run_all (map ?f qs) ?s1)) p \<and>
       ttm_src p \<in> set (tw_inventory (remote (run_all (map ?f qs) ?s1)))"
    and inv: "tw_inventory (remote (run_all (map ?f qs) ?s1)) = tw_inventory (remote st)"
    and d: "distinct (map (\<lambda>p. key (ttm_src p)) qs)" "distinct (map (\<lambda>p. as_uc_table_key (ttm_rule p)) qs)"
    by simp_all
  from b1 q strict_bind_return [of "map ?f qs" ?s1] n
  have r1: "r1 = Inr ()" and s1: "st1 = run_all (map ?f qs) ?s1" by (simp_all add: prod_eq_iff)
  from h(3) inv s1 have di: "distinct (map key (tw_inventory (remote st1)))" by simp
  from revert_prepare_migrated [OF o [folded s1] k [folded s1] m [folded s1] d di, of dm] obtain cs st3 where
    p2: "revert_prepare tag_env None None dm st1 = (Inr (map (\<lambda>t. revert_migrated_table tag_env t (the (map_of (dict_invert (seen_index tag_env (remote st1))) (key t)))) cs), st3)"
    and r: "\<forall>cs'. set cs' = set cs \<longrightarrow> no_raise (map (\<lambda>t. revert_migrated_table tag_env t (the (map_of (dict_invert (seen_index tag_env (remote st1))) (key t)))) cs') st3 \<and>
        tw_objects (remote (run_all (map (\<lambda>t. revert_migrated_table tag_env t (the (map_of (dict_invert (seen_index tag_env (remote st1))) (key t)))) cs') st3)) = map (\<lambda>p. (dst_name p, [(''upgraded_from'', key (ttm_src p))])) (filter (\<lambda>p. \<not> revert_eligible dm (ttm_src p)) qs) \<and>
        set (dict_keys (tw_src_tags (remote (run_all (map (\<lambda>t. revert_migrated_table tag_env t (the (map_of (dict_invert (seen_index tag_env (remote st1))) (key t)))) cs') st3)))) \<subseteq>
          (\<lambda>p. key (ttm_src p)) ` {p \<in> set qs. \<not> revert_eligible dm (ttm_src p)}"
    by blast
  from run_batch_sequential [OF p2 assms(8) [unfolded revert_migrated_tables_conc_def]] obtain js where
    j: "mset js = mset [0..<length cs]"
    and b2: "(r2, st2) = bind_eff (strict (map ((!) (map (\<lambda>t. revert_migrated_table tag_env t (the (map_of (dict_invert (seen_index tag_env (remote st1))) (key t)))) cs)) js)) (\<lambda>_. return_eff ()) st3"
    by auto
  define cs2 where "cs2 = map ((!) cs) js"
  from map_nth_map [OF j] have a: "map ((!) (map (\<lambda>t. revert_migrated_table tag_env t (the (map_of (dict_invert (seen_index tag_env (remote st1))) (key t)))) cs)) js = map (\<lambda>t. revert_migrated_table tag_env t (the (map_of (dict_invert (seen_index tag_env (remote st1))) (key t)))) cs2"
    and "mset cs2 = mset cs" unfolding cs2_def by blast+
  with r have r2: "no_raise (map (\<lambda>t. revert_migrated_table tag_env t (the (map_of (dict_invert (seen_index tag_env (remote st1))) (key t)))) cs2) st3 \<and>
      tw_objects (remote (run_all (map (\<lambda>t. revert_migrated_table tag_env t (the (map_of (dict_invert (seen_index tag_env (remote st1))) (key t)))) cs2) st3)) = map (\<lambda>p. (dst_name p, [(''upgraded_from'', key (ttm_src p))])) (filter (\<lambda>p. \<not> revert_eligible dm (ttm_src p)) qs) \<and>
      set (dict_keys (tw_src_tags (remote (run_all (map (\<lambda>t. revert_migrated_table tag_env t (the (map_of (dict_invert (seen_index tag_env (remote st1))) (key t)))) cs2) st3)))) \<subseteq>
        (\<lambda>p. key (ttm_src p)) ` {p \<in> set qs. \<not> revert_eligible dm (ttm_src p)}"
    by (blast dest: mset_eq_setD)
  from b2 a have "(r2, st2) = bind_eff (strict (map (\<lambda>t. revert_migrated_table tag_env t (the (map_of (dict_invert (seen_index tag_env (remote st1))) (key t)))) cs2)) (\<lambda>_. return_eff ()) st3" by simp
  with strict_bind_return [of "map (\<lambda>t. revert_migrated_table tag_env t (the (map_of (dict_invert (seen_index tag_env (remote st1))) (key t)))) cs2" st3] r2
  have "r2 = Inr () \<and> st2 = run_all (map (\<lambda>t. revert_migrated_table tag_env t (the (map_of (dict_invert (seen_index tag_env (remote st1))) (key t)))) cs2) st3"
    by (simp only: prod_eq_iff fst_conv snd_conv)
  moreover have "mset (map (\<lambda>p. (dst_name p, [(''upgraded_from'', key (ttm_src p))])) (filter (\<lambda>p. \<not> revert_eligible dm (ttm_src p)) qs)) =
      mset (map (\<lambda>p. (dst_name p, [(''upgraded_from'', key (ttm_src p))])) (filter (\<lambda>p. \<not> revert_eligible dm (ttm_src p)) ?ps))"
    using mq by (simp only: mset_map mset_filter)
  ultimately show ?thesis using r1 r2 sq by simp
qed

end
