(* ===== verification/Mock.thy ===== *)
theory Mock
  imports TagWorld
begin

text \<open>
  A recording backend in the manner of the unit tests' mock: the remote world is the
  list of statements sent so far, fetches answer from a table of canned rows, and a
  statement can be made to fail. Concrete inputs for the witnesses of the theorems
  with hypotheses are built on it, together with a tag world (\<open>tw0\<close>) holding the
  same scenario objects; none of this models code of the repository.
\<close>

record mock_cfg =
  mock_rows :: "stmt \<Rightarrow> row list"
  mock_fail :: "stmt \<Rightarrow> py_error option"
  mock_catalogs :: "string list"
  mock_schemas :: "string \<Rightarrow> schema_info list"
  mock_tables :: "string \<Rightarrow> string \<Rightarrow> table_info list"
  mock_ws_id :: int
  mock_inventory :: "table list"
  mock_rules :: "table_to_migrate list"
  mock_now :: string

definition mock_env :: "mock_cfg \<Rightarrow> stmt list env" where
  "mock_env cfg =
     \<lparr>be_execute = (\<lambda>s q. case mock_fail cfg s of Some e \<Rightarrow> Inl e | None \<Rightarrow> Inr (q @ [s])),
      be_fetch = (\<lambda>s q. case mock_fail cfg s of
                    Some e \<Rightarrow> Inl e | None \<Rightarrow> Inr (mock_rows cfg s, q @ [s])),
      be_save_table = (\<lambda>n rows q. Inr q),
      catalogs_list = (\<lambda>q. mock_catalogs cfg),
      schemas_list = (\<lambda>q. mock_schemas cfg),
      tables_list = (\<lambda>q. mock_tables cfg),
      get_workspace_id = (\<lambda>q. mock_ws_id cfg),
      tc_snapshot = (\<lambda>q. mock_inventory cfg),
      get_tables_to_migrate = (\<lambda>q. mock_rules cfg),
      clock = (\<lambda>q. mock_now cfg)\<rparr>"

definition empty_cfg :: mock_cfg where
  "empty_cfg =
     \<lparr>mock_rows = (\<lambda>s. []), mock_fail = (\<lambda>s. None), mock_catalogs = [],
      mock_schemas = (\<lambda>c. []), mock_tables = (\<lambda>c s. []), mock_ws_id = 123,
      mock_inventory = [], mock_rules = [], mock_now = ''1700000000.0''\<rparr>"

definition st0 :: "stmt list rt" where
  "st0 = \<lparr>remote = [], logs = [], stdout = [], seen_tables = []\<rparr>"

text \<open>The scenario objects of the specification: \<open>sales.orders\<close> and its rule to
  \<open>main.sales.orders\<close>.\<close>

definition orders :: table where
  "orders = \<lparr>catalog = ''hive_metastore'', database = ''sales'', name = ''orders'',
             object_type = ''EXTERNAL'', what = EXTERNAL_SYNC, location = Some ''s3://bucket/orders'',
             view_text = None, upgraded_to = None\<rparr>"

definition orders_rule :: rule where
  "orders_rule = \<lparr>rule_workspace_name = ''ws'', rule_catalog_name = ''main'', rule_src_schema = ''sales'',
                  rule_dst_schema = ''sales'', rule_src_table = ''orders'', rule_dst_table = ''orders''\<rparr>"

definition managed_items :: table where
  "managed_items = \<lparr>catalog = ''hive_metastore'', database = ''sales'', name = ''items'',
                    object_type = ''MANAGED'', what = DBFS_ROOT_DELTA, location = Some ''dbfs:/user/hive/warehouse/items'',
                    view_text = None, upgraded_to = Some ''main.sales.items''\<rparr>"

definition items_rule :: rule where
  "items_rule = \<lparr>rule_workspace_name = ''ws'', rule_catalog_name = ''main'', rule_src_schema = ''sales'',
                 rule_dst_schema = ''sales'', rule_src_table = ''items'', rule_dst_table = ''items''\<rparr>"

definition unsupported_tbl :: table where
  "unsupported_tbl = \<lparr>catalog = ''hive_metastore'', database = ''raw'', name = ''events'',
                      object_type = ''MANAGED'', what = NOT_SUPPORTED, location = None,
                      view_text = None, upgraded_to = None\<rparr>"

text \<open>\<open>SYNC\<close> of \<open>sales.orders\<close> answering \<open>SUCCESS\<close>, or \<open>FAILED\<close> with
  the description \<open>permission denied\<close> (spec section 8).\<close>

definition sync_ok_cfg :: mock_cfg where
  "sync_ok_cfg = empty_cfg\<lparr>mock_rows := (\<lambda>s. if s = SyncTable orders ''main.sales.orders''
      then [[(''status_code'', Some ''SUCCESS''), (''description'', Some ''synced'')]] else [])\<rparr>"

definition sync_failed_cfg :: mock_cfg where
  "sync_failed_cfg = empty_cfg\<lparr>mock_rows := (\<lambda>s. if s = SyncTable orders ''main.sales.orders''
      then [[(''status_code'', Some ''FAILED''), (''description'', Some ''permission denied'')]] else [])\<rparr>"

text \<open>A backend on which the deep copy of \<open>sales.items\<close> fails, and one on which
  tagging its source fails.\<close>

definition copy_fails_cfg :: mock_cfg where
  "copy_fails_cfg = empty_cfg\<lparr>mock_fail := (\<lambda>s. if s = CreateDeepClone managed_items ''main.sales.items''
      then Some (SqlError ''copy failed'') else None)\<rparr>"

definition tag_fails_cfg :: mock_cfg where
  "tag_fails_cfg = empty_cfg\<lparr>mock_fail := (\<lambda>s. if s = SetUpgradedTo managed_items ''main.sales.items''
      then Some (SqlError ''tag failed'') else None)\<rparr>"

text \<open>A managed view of \<open>sales.items\<close>.\<close>

definition items_view :: table where
  "items_view = managed_items\<lparr>name := ''items_v'', what := VIEW, view_text := Some ''SELECT * FROM sales.items''\<rparr>"

text \<open>A workspace with one catalog \<open>main\<close> and one schema \<open>sales\<close> listing a
  tagged \<open>orders\<close>, an untagged \<open>items\<close> and a tagged object without a full name;
  the source \<open>sales.orders\<close> carries \<open>upgraded_to\<close>.\<close>

definition listing_cfg :: mock_cfg where
  "listing_cfg = empty_cfg\<lparr>
     mock_catalogs := [''main''],
     mock_schemas := (\<lambda>c. if c = ''main'' then [\<lparr>si_catalog_name = ''main'', si_name = ''sales''\<rparr>] else []),
     mock_tables := (\<lambda>c s. if c = ''main'' \<and> s = ''sales'' then
        [\<lparr>ti_name = ''orders'', ti_full_name = Some ''main.sales.orders'',
          ti_properties = Some [(''upgraded_from'', ''hive_metastore.sales.orders'')]\<rparr>,
         \<lparr>ti_name = ''items'', ti_full_name = Some ''main.sales.items'',
          ti_properties = Some [(''owner'', ''admin'')]\<rparr>,
         \<lparr>ti_name = ''ghost'', ti_full_name = None,
          ti_properties = Some [(''upgraded_from'', ''hive_metastore.sales.ghost'')]\<rparr>] else []),
     mock_inventory := [orders, managed_items],
     mock_rows := (\<lambda>s. if s = ShowTblProperties ''sales.orders''
        then [[(''key'', Some ''upgraded_to''), (''value'', Some ''main.sales.orders'')]] else [])\<rparr>"

text \<open>The status record of \<open>sales.orders\<close> migrated to \<open>main.sales.orders\<close>, and
  backends whose cache table holds it, is absent, or cannot be read.\<close>

definition orders_status :: migration_status where
  "orders_status = \<lparr>src_schema = Some ''sales'', src_table = Some ''orders'', dst_catalog = Some ''main'',
     dst_schema = Some ''sales'', dst_table = Some ''orders'', update_ts = Some ''1700000000.0''\<rparr>"

definition items_status :: migration_status where
  "items_status = \<lparr>src_schema = Some ''sales'', src_table = Some ''items'', dst_catalog = None,
     dst_schema = None, dst_table = None, update_ts = Some ''1700000000.0''\<rparr>"

text \<open>The process state after reconciling the listing: one point check sent, the
  nameless object's warning and the point check's line logged.\<close>

definition st_reconciled :: "stmt list rt" where
  "st_reconciled = st0\<lparr>remote := [ShowTblProperties ''sales.orders''],
     logs := [(WARNING, ''The table ghost in sales has no full name''),
              (INFO, ''sales.orders is set as upgraded'')]\<rparr>"

text \<open>A second run over the listing: the mapping returns \<open>sales.orders\<close>, whose
  destination the listing shows tagged.\<close>

definition rerun_cfg :: mock_cfg where
  "rerun_cfg = listing_cfg\<lparr>mock_rules := [\<lparr>ttm_src = orders, ttm_rule = orders_rule\<rparr>]\<rparr>"

text \<open>The same rule with the destination catalog written \<open>Main\<close>.\<close>

definition upper_rule :: rule where
  "upper_rule = orders_rule\<lparr>rule_catalog_name := ''Main''\<rparr>"

text \<open>A workspace after migrating the external \<open>sales.orders\<close> and the managed
  \<open>sales.items\<close>: both destinations carry their \<open>upgraded_from\<close> tag.\<close>

definition revert_cfg :: mock_cfg where
  "revert_cfg = empty_cfg\<lparr>
     mock_catalogs := [''main''],
     mock_schemas := (\<lambda>c. if c = ''main'' then [\<lparr>si_catalog_name = ''main'', si_name = ''sales''\<rparr>] else []),
     mock_tables := (\<lambda>c s. if c = ''main'' \<and> s = ''sales'' then
        [\<lparr>ti_name = ''orders'', ti_full_name = Some ''main.sales.orders'',
          ti_properties = Some [(''upgraded_from'', ''hive_metastore.sales.orders'')]\<rparr>,
         \<lparr>ti_name = ''items'', ti_full_name = Some ''main.sales.items'',
          ti_properties = Some [(''upgraded_from'', ''hive_metastore.sales.items'')]\<rparr>] else []),
     mock_inventory := [orders, managed_items]\<rparr>"

definition st_migrated :: "stmt list rt" where
  "st_migrated = st0\<lparr>seen_tables := [(''main.sales.orders'', ''hive_metastore.sales.orders''),
                                      (''main.sales.items'', ''hive_metastore.sales.items'')]\<rparr>"

definition cache_hit_cfg :: mock_cfg where
  "cache_hit_cfg = empty_cfg\<lparr>mock_rows := (\<lambda>s. if s = SelectAll ''ucx'' ''migration_status''
      then [row_of_status orders_status] else [])\<rparr>"

definition cache_missing_cfg :: mock_cfg where
  "cache_missing_cfg = listing_cfg\<lparr>mock_fail := (\<lambda>s. if s = SelectAll ''ucx'' ''migration_status''
      then Some (NotFound ''migration_status'') else None)\<rparr>"

definition cache_denied_cfg :: mock_cfg where
  "cache_denied_cfg = empty_cfg\<lparr>mock_fail := (\<lambda>s. if s = SelectAll ''ucx'' ''migration_status''
      then Some (SqlError ''permission denied'') else None)\<rparr>"

text \<open>A tag world holding the scenario's inventory and mapping, with no destination
  yet and every \<open>SYNC\<close> answering \<open>SUCCESS\<close>.\<close>

definition tw0 :: tag_world where
  "tw0 = \<lparr>tw_objects = [], tw_src_tags = [], tw_sync_status = (\<lambda>k. ''SUCCESS''),
          tw_inventory = [orders, managed_items],
          tw_rules = [\<lparr>ttm_src = orders, ttm_rule = orders_rule\<rparr>, \<lparr>ttm_src = managed_items, ttm_rule = items_rule\<rparr>],
          tw_ws_id = 123, tw_clock = ''1700000000.0'', tw_saved = [], tw_history = []\<rparr>"

definition tst0 :: "tag_world rt" where
  "tst0 = \<lparr>remote = tw0, logs = [], stdout = [], seen_tables = []\<rparr>"

text \<open>The same source remapped between two runs: a rule sending \<open>sales.orders\<close> to
  \<open>main.sales.orders_copy\<close>, and a tag world whose mapping holds only the first rule.\<close>

definition orders_copy_rule :: rule where
  "orders_copy_rule = orders_rule\<lparr>rule_dst_table := ''orders_copy''\<rparr>"

definition tst_orders :: "tag_world rt" where
  "tst_orders = tst0\<lparr>remote := tw0\<lparr>tw_rules := [\<lparr>ttm_src = orders, ttm_rule = orders_rule\<rparr>]\<rparr>\<rparr>"

text \<open>Two sources mapped to one destination: \<open>sales.items\<close> sent to
  \<open>main.sales.orders\<close> beside \<open>sales.orders\<close>.\<close>

definition tst_collide :: "tag_world rt" where
  "tst_collide = tst0\<lparr>remote := tw0\<lparr>tw_rules :=
     [\<lparr>ttm_src = orders, ttm_rule = orders_rule\<rparr>,
      \<lparr>ttm_src = managed_items, ttm_rule = items_rule\<lparr>rule_dst_table := ''orders''\<rparr>\<rparr>]\<rparr>\<rparr>"

lemmas mock_defs = mock_env_def empty_cfg_def st0_def orders_def orders_rule_def
  managed_items_def items_rule_def unsupported_tbl_def
  sync_ok_cfg_def sync_failed_cfg_def copy_fails_cfg_def tag_fails_cfg_def items_view_def
  listing_cfg_def orders_status_def items_status_def st_reconciled_def rerun_cfg_def upper_rule_def revert_cfg_def st_migrated_def cache_hit_cfg_def cache_missing_cfg_def cache_denied_cfg_def tw0_def tst0_def
  orders_copy_rule_def tst_orders_def tst_collide_def

end
