(* ===== verification/Spec2Isabelle.thy ===== *)
theory Spec2Isabelle
  imports Roundtrip Mock
begin

text \<open>
  \<^bold>\<open>A verification model of the table migration orchestrator of ucx\<close>
  (\<open>src/src/databricks/labs/ucx/hive_metastore/table_migrate.py\<close>).

  \<^bold>\<open>The program.\<close> Three parts, leaves first. The snapshot cache
  (\<open>CrawlerBase._snapshot\<close>) loads a typed inventory from a cache table and
  crawls and persists it when the table is absent. The migration status refresher
  (\<open>MigrationStatusRefresher\<close>) builds the seen-objects index (destination name to
  source name, from the \<open>upgraded_from\<close> tags of every object of every schema of
  every catalog), answers point checks (\<open>is_upgraded\<close>: does the source carry an
  \<open>upgraded_to\<close> property) and reconciles the source inventory into one
  \<open>MigrationStatus\<close> record per object. The orchestrator (\<open>TablesMigrate\<close>)
  loads the index once per top-level call, dispatches one task per
  (source, rule) pair on the object's classification, hands the tasks to a runner
  that runs them all and raises after all have finished, and offers revert and a
  revert report.

  \<^bold>\<open>The theories.\<close>
  \<^item> \<open>Prelude\<close>: Python exceptions (\<open>py_error\<close>), the effect type
    \<open>('s, 'a) eff\<close> (state passing with exceptions, the state reached when an
    exception is raised is kept), Python dictionaries as insertion-ordered association
    lists (\<open>dict_set\<close>, \<open>dict_invert\<close>), \<open>str.lower\<close>, \<open>str.split\<close>, \<open>str.join\<close>.
  \<^item> \<open>Catalog\<close>: the collaborators' data (\<open>table\<close>, \<open>rule\<close>, \<open>What\<close>,
    statements, rows) modelled from the specification, since the modules that define
    them are not among the sources; the collaborators themselves as one record
    \<open>'w env\<close> of functions over an abstract remote world \<open>'w\<close>; the contracts of
    the inventory crawler and the rule mapping (\<open>inventory_contract\<close>,
    \<open>mapping_contract\<close>); the process state \<open>'w rt\<close> (remote world, log, printed
    lines, \<open>self._seen_tables\<close>).
  \<^item> \<open>Threads\<close>: the task runner \<open>Threads.strict\<close> as the specification describes it,
    run sequentially in list order (\<open>gather\<close>, \<open>strict\<close>).
  \<^item> \<open>Pool\<close>: the same runner as a bounded pool of \<open>k\<close> workers (spec section 5): an
    inductive step relation \<open>pool_step\<close> that starts the next queued task when fewer
    than \<open>k\<close> are in flight or finishes any task in flight, its reachable states
    \<open>pool_reach\<close>, and the outcome of a complete run \<open>run_pool\<close>. Its lemmas give the
    invariant (rule induction), termination (a measure), progress and liveness, that
    every complete run is a sequential run of a permutation, and that one worker is
    exactly \<open>Threads.strict\<close>.
  \<^item> \<open>Refresher\<close>: \<open>MigrationStatus\<close>, \<open>get_seen_tables\<close>, \<open>is_upgraded\<close>,
    \<open>_crawl\<close>, \<open>_try_fetch\<close>, the cache \<open>snapshot\<close>.
  \<^item> \<open>Migrate\<close>: every method of \<open>TablesMigrate\<close> but the constructor helper
    \<open>for_cli\<close>: \<open>migrate_table\<close> and its three strategies, \<open>migrate_tables\<close>, the
    revert selection and plan (\<open>get_tables_to_revert\<close>, \<open>revert_tasks\<close>,
    \<open>revert_migrated_tables\<close>), the counts of \<open>_get_revert_count\<close> and the rendering of
    \<open>print_revert_report\<close> (\<open>table_header\<close>, \<open>table_row\<close>, \<open>report_lines\<close>) with
    Python's format specifications (\<open>pad_right\<close>, \<open>pad_left\<close>, \<open>py_str_nat\<close> in
    \<open>Prelude\<close>).
  \<^item> \<open>Batch\<close>: \<open>migrate_tables\<close> and \<open>revert_migrated_tables\<close> as a sequential
    preparation (\<open>migrate_prepare\<close>, \<open>revert_prepare\<close>) followed by the pool
    (\<open>migrate_tables_conc\<close>, \<open>revert_migrated_tables_conc\<close>).
  \<^item> \<open>TagWorld\<close>: a reference backend, modelled from the specification, whose world is
    the destination objects with their properties, the source tags, the \<open>SYNC\<close>
    answers, the inventory, the mapping and the warehouse's statement history
    (\<open>tag_world\<close>, \<open>tw_execute\<close>, \<open>tw_fetch\<close>, \<open>tag_env\<close>); over it, calls that follow
    one another can be related.
  \<^item> \<open>Roundtrip\<close>: the migration and its revert composed on the tag world: the exact
    objects and tags one task leaves (\<open>tw_frame\<close> relates the worlds of one
    migration), the index a first run leaves and its inversion, the task lists the two
    preparations build, and the round trip, sequential and under the pool, where a
    complete pool run is \<open>Threads.strict\<close> on some order of the tasks
    (\<open>run_pool_strict_order\<close>, \<open>run_batch_sequential\<close>).
  \<^item> \<open>Mock\<close>: a recording backend, the specification's scenario objects and a tag
    world holding them, the concrete inputs of the witnesses.

  \<^bold>\<open>How the model runs.\<close> Every method is a function from the process state
  to a result (\<open>Inl\<close> the exception) and the next state; the remote world changes only
  through \<open>be_execute\<close> and \<open>be_save_table\<close>, so the statements a call sends are read
  off the recording backend of \<open>Mock\<close>. Every loop of the source is a \<open>for\<close> over a
  finite list and is a structural recursion or a fold: no fuel and no termination
  argument is needed, and every theorem about a result is a total statement.
  The sequential runner of \<open>Migrate\<close> is one schedule; \<open>Batch\<close> gives every schedule
  of a pool of \<open>k\<close> workers, in which each task runs as one atomic step on the shared
  state. Tasks of one batch touch distinct objects and share no mutable state but the
  backend (spec section 5), which is what makes this granularity adequate; the pool's
  termination is a measure (twice the queued tasks plus those in flight), not fuel.

  \<^bold>\<open>The properties\<close> (C1 to C30, numbered by importance).
  \<^item> C1 to C8: the per-object dispatch on every branch: the idempotency guard, the
    unsupported skip, the three statements of the deep copy and of a view in order,
    the failures of the copy and of the tagging (no rollback), the SYNC success and
    its non-raising failure.
  \<^item> C9 to C14: the index is the abstract map of the tagged objects (a refinement)
    and its invariant, the point check, the reconciliation covers every object exactly
    once, the destination fields are set exactly when index, point check and split
    agree, and the split round-trips.
  \<^item> C15 (in \<open>TagWorld\<close>): the cache memoizes the reconciliation: a miss crawls and
    persists, and the next snapshot reads the same records back without crawling.
  \<^item> C16 and C17: a run whose destinations are all in the index sends nothing; a
    destination named with an upper-case letter is never found.
  \<^item> C18 to C21: revert selects only indexed objects, applies a table filter without a
    schema across all schemas, plans one task per eligible candidate without
    \<open>KeyError\<close> (managed tables only with \<open>delete_managed\<close>), and untags before it drops.
  \<^item> C22 to C26: the revert report: nothing found, the report printed, the grouping and
    the counts against their reference definitions (a filter, a multiset count), and
    the column widths.
  \<^item> C27 and C28 (in \<open>Roundtrip\<close>): on the tag world, from a world with no destination
    and no tag, \<open>migrate_tables\<close> then \<open>revert_migrated_tables\<close> undoes exactly what
    the deletion policy allows (with \<open>delete_managed\<close>, everything; without it, all but
    the managed tables' copies), sequentially and under every schedule of the pool
    with any numbers of workers.
  \<^item> C29: on the tag world, a second \<open>migrate_tables\<close> after a first sends no statement.
  \<^item> C30: the cache decoder accepts exactly the rows of the arities the
    \<open>MigrationStatus\<close> constructor takes.

  \<^bold>\<open>Findings.\<close> \<open>_table_already_upgraded\<close> compares a destination name that keeps its
  case with lower-cased index keys (C17); a table filter without a schema filter is
  applied anyway (C19); without \<open>delete_managed\<close> a managed table gets no task at all,
  so its tag is not cleared (C20); after a successful SYNC the only statement is the
  destination's \<open>upgraded_from\<close> tag, so nothing tags an external source and the
  reconciliation's point check never confirms it (C7); a failed SYNC does not make the
  batch raise (C8); the report counts the inventory's tag, not the index's (C25); the
  separator is one character wider than the rows (C26); a source
  remapped between runs keeps two tagged destinations and revert drops only one
  (\<open>revert_remapped_source_scenario\<close>); two sources mapped to one destination both
  report success while the index credits the destination to one of them
  (\<open>destination_collision_scenario\<close>): the mapping's contract does not give the
  distinct destinations the specification infers from it. The two scenarios are
  evaluations on concrete tag worlds, kept as illustrations of the findings.

  \<^bold>\<open>What is not modelled.\<close> \<open>for_cli\<close> (configuration and object wiring),
  debug-level log lines, the SQL text of the statements (a statement is a value of
  \<open>stmt\<close> naming its shape and arguments), \<open>str.lower\<close> beyond ASCII, and the unit
  tests under \<open>src/tests\<close>. The catalog service and the SQL backend are not among the
  sources: every orchestrator theorem holds for every backend, and the tag world is a
  reference backend built from the specification's statement shapes, without
  permissions, data copy or the SQL text.
  The inventory crawler and the rule mapping are not among the sources either: the
  orchestrator consumes them as \<open>tc_snapshot\<close> and \<open>get_tables_to_migrate\<close>, and
  their contracts from the specification are \<open>inventory_contract\<close> and
  \<open>mapping_contract\<close> in \<open>Catalog\<close>, the hypotheses of the round trip; how they
  compute their results is not modelled. Every line of \<open>table_migrate.py\<close> but the
  imports and \<open>for_cli\<close> is translated by a definition of the map.
\<close>

section \<open>Witnesses of the orchestrator's dispatch\<close>

theorem migrate_table_already_upgraded_witness:
  "migrate_table (mock_env empty_cfg) orders orders_rule
      (st0\<lparr>seen_tables := [(''main.sales.orders'', ''hive_metastore.sales.orders'')]\<rparr>) =
    (Inr True, st0\<lparr>seen_tables := [(''main.sales.orders'', ''hive_metastore.sales.orders'')],
                   logs := [(INFO, ''Table hive_metastore.sales.orders already upgraded to main.sales.orders'')]\<rparr>)"
proof -
  have "as_uc_table_key orders_rule \<in> set (dict_keys (seen_tables
          (st0\<lparr>seen_tables := [(''main.sales.orders'', ''hive_metastore.sales.orders'')]\<rparr>)))"
    by (simp add: mock_defs as_uc_table_key_def dict_keys_def)
  from migrate_table_already_upgraded [OF this, of "mock_env empty_cfg" orders]
  show ?thesis by (simp add: mock_defs as_uc_table_key_def key_def) code_simp
qed

theorem migrate_table_not_supported_witness:
  "what unsupported_tbl = NOT_SUPPORTED \<and>
   (\<exists>msg. migrate_table (mock_env empty_cfg) unsupported_tbl orders_rule st0 =
      (Inr True, st0\<lparr>logs := [(INFO, msg)]\<rparr>))"
proof -
  have h: "what unsupported_tbl = NOT_SUPPORTED" by (simp add: unsupported_tbl_def)
  from migrate_table_not_supported [OF h, of "mock_env empty_cfg" orders_rule st0]
  show ?thesis by (simp add: h st0_def)
qed

theorem migrate_table_dbfs_root_witness:
  "migrate_table (mock_env empty_cfg) managed_items items_rule st0 =
    (Inr True, st0\<lparr>remote := [CreateDeepClone managed_items ''main.sales.items'',
                                SetUpgradedTo managed_items ''main.sales.items'',
                                SetUpgradedFrom managed_items ''main.sales.items'' 123]\<rparr>)"
  by (rule migrate_table_dbfs_root
        [where wa = "[CreateDeepClone managed_items ''main.sales.items'']"
           and wb = "[CreateDeepClone managed_items ''main.sales.items'', SetUpgradedTo managed_items ''main.sales.items'']"])
     (simp_all add: mock_defs sql_defs as_uc_table_key_def dict_keys_def)

theorem migrate_table_dbfs_copy_fails_witness:
  "migrate_table (mock_env copy_fails_cfg) managed_items items_rule st0 = (Inl (SqlError ''copy failed''), st0)"
  by (rule migrate_table_dbfs_copy_fails) (simp_all add: mock_defs sql_defs as_uc_table_key_def dict_keys_def)

theorem migrate_table_dbfs_tag_fails_witness:
  "migrate_table (mock_env tag_fails_cfg) managed_items items_rule st0 =
    (Inl (SqlError ''tag failed''), st0\<lparr>remote := [CreateDeepClone managed_items ''main.sales.items'']\<rparr>)"
  by (rule migrate_table_dbfs_tag_fails) (simp_all add: mock_defs sql_defs as_uc_table_key_def dict_keys_def)

theorem migrate_table_view_witness:
  "migrate_table (mock_env empty_cfg) items_view items_rule st0 =
    (Inr True, st0\<lparr>remote := [CreateView items_view ''main.sales.items'',
                                SetUpgradedTo items_view ''main.sales.items'',
                                SetUpgradedFrom items_view ''main.sales.items'' 123]\<rparr>)"
  by (rule migrate_table_view
        [where wa = "[CreateView items_view ''main.sales.items'']"
           and wb = "[CreateView items_view ''main.sales.items'', SetUpgradedTo items_view ''main.sales.items'']"])
     (simp_all add: mock_defs sql_defs as_uc_table_key_def dict_keys_def)

text \<open>The specification's scenario \<^emph>\<open>external sync success\<close>: \<open>sales.orders\<close>
  mapped to \<open>main.sales.orders\<close>, \<open>SYNC\<close> answers \<open>SUCCESS\<close>; one tagging
  statement follows and the task returns True.\<close>

theorem external_sync_success_scenario:
  "migrate_table (mock_env sync_ok_cfg) orders orders_rule st0 =
    (Inr True, st0\<lparr>remote := [SyncTable orders ''main.sales.orders'',
                                SetUpgradedFrom orders ''main.sales.orders'' 123]\<rparr>)"
  by (rule migrate_table_external_success
        [where wa = "[SyncTable orders ''main.sales.orders'']"
           and first_row = "[(''status_code'', Some ''SUCCESS''), (''description'', Some ''synced'')]"
           and rows = "[]"])
     (simp_all add: mock_defs sql_defs as_uc_table_key_def dict_keys_def row_get_def)

text \<open>The specification's scenario \<^emph>\<open>external sync failure\<close>: \<open>SYNC\<close> answers
  \<open>FAILED\<close> with \<open>permission denied\<close>; no tagging statement, the task returns
  False, and the warning carries the description.\<close>

theorem external_sync_failure_scenario:
  "migrate_table (mock_env sync_failed_cfg) orders orders_rule st0 =
    (Inr False, st0\<lparr>remote := [SyncTable orders ''main.sales.orders''],
      logs := [(WARNING, ''SYNC command failed to migrate hive_metastore.sales.orders to main.sales.orders. Status code: FAILED. Description: permission denied'')]\<rparr>)"
proof -
  have "migrate_table (mock_env sync_failed_cfg) orders orders_rule st0 =
    (Inr False, st0\<lparr>remote := [SyncTable orders ''main.sales.orders''], logs := logs st0 @
       [(WARNING, ''SYNC command failed to migrate '' @ key orders @ '' to '' @ as_uc_table_key orders_rule
                  @ ''. Status code: '' @ py_str_opt (Some ''FAILED'') @ ''. Description: '' @ py_str_opt (Some ''permission denied''))]\<rparr>)"
    by (rule migrate_table_external_failure
          [where wa = "[SyncTable orders ''main.sales.orders'']"
             and first_row = "[(''status_code'', Some ''FAILED''), (''description'', Some ''permission denied'')]"
             and rows = "[]"])
       (simp_all add: mock_defs sql_defs as_uc_table_key_def dict_keys_def row_get_def)
  then show ?thesis
    by (simp add: st0_def key_def orders_def as_uc_table_key_def orders_rule_def py_str_opt_def) code_simp
qed

section \<open>Witnesses of the refresher\<close>

theorem get_seen_tables_index_witness:
  "get_seen_tables (mock_env listing_cfg) st0 =
     (Inr [(''main.sales.orders'', ''hive_metastore.sales.orders'')],
      st0\<lparr>logs := [(WARNING, ''The table ghost in sales has no full name'')]\<rparr>) \<and>
   distinct (dict_keys [(''main.sales.orders'', ''hive_metastore.sales.orders'')]) \<and>
   {k. \<exists>t \<in> set (listed_objects (mock_env listing_cfg) (remote st0)). \<exists>v. seen_entry t = Some (k, v)} =
     {''main.sales.orders''}"
proof -
  have h: "get_seen_tables (mock_env listing_cfg) st0 =
     (Inr [(''main.sales.orders'', ''hive_metastore.sales.orders'')],
      st0\<lparr>logs := [(WARNING, ''The table ghost in sales has no full name'')]\<rparr>)"
    by code_simp
  from get_seen_tables_index [OF h] have
    "distinct (dict_keys [(''main.sales.orders'', ''hive_metastore.sales.orders'')])" and
    "{k. \<exists>t \<in> set (listed_objects (mock_env listing_cfg) (remote st0)). \<exists>v. seen_entry t = Some (k, v)} =
       set (dict_keys [(''main.sales.orders'', ''hive_metastore.sales.orders'')])"
    by auto
  with h show ?thesis by (simp add: dict_keys_def)
qed

theorem is_upgraded_iff_witness:
  "fst (is_upgraded (mock_env listing_cfg) ''sales'' ''orders'' st0) = Inr True"
proof -
  have "fst (is_upgraded (mock_env listing_cfg) ''sales'' ''orders'' st0) =
      Inr (\<exists>r \<in> set [[(''key'', Some ''upgraded_to''), (''value'', Some ''main.sales.orders'')]].
             map_of r ''key'' = Some (Some ''upgraded_to''))"
    by (rule is_upgraded_iff [where w = "[ShowTblProperties ''sales.orders'']"])
       (simp_all add: mock_defs)
  then show ?thesis by simp
qed

theorem crawl_coverage_witness:
  "crawl (mock_env listing_cfg) st0 = (Inr [orders_status, items_status], st_reconciled) \<and>
   map (\<lambda>m. (src_schema m, src_table m, update_ts m)) [orders_status, items_status] =
   map (\<lambda>t. (Some (database t), Some (name t), Some (clock (mock_env listing_cfg) (remote st0))))
     (tc_snapshot (mock_env listing_cfg) (remote st0))"
proof -
  have h: "crawl (mock_env listing_cfg) st0 = (Inr [orders_status, items_status], st_reconciled)"
    by code_simp
  from h crawl_coverage [OF h] show ?thesis by blast
qed

theorem status_of_table_dst_witness:
  "status_of_table (mock_env listing_cfg) [(''hive_metastore.sales.orders'', ''main.sales.orders'')]
      ''1700000000.0'' orders st0 =
     (Inr orders_status, st0\<lparr>remote := [ShowTblProperties ''sales.orders''],
                             logs := [(INFO, ''sales.orders is set as upgraded'')]\<rparr>) \<and>
   dst_catalog orders_status \<noteq> None \<and>
   fst (is_upgraded (mock_env listing_cfg) ''sales'' ''orders'' st0) = Inr True"
proof -
  have h: "status_of_table (mock_env listing_cfg) [(''hive_metastore.sales.orders'', ''main.sales.orders'')]
      ''1700000000.0'' orders st0 =
     (Inr orders_status, st0\<lparr>remote := [ShowTblProperties ''sales.orders''],
                             logs := [(INFO, ''sales.orders is set as upgraded'')]\<rparr>)"
    by code_simp
  have d: "dst_catalog orders_status \<noteq> None" by (simp add: orders_status_def)
  from status_of_table_dst [OF h] d have
    "fst (is_upgraded (mock_env listing_cfg) (database orders) (name orders) st0) = Inr True"
    by auto
  with h d show ?thesis by (simp add: orders_def)
qed

theorem set_dst_roundtrip_witness:
  "length (py_split CHR ''.'' ''main.sales.orders'') = 3 \<and>
   py_join CHR ''.'' [the (dst_catalog (set_dst ''main.sales.orders'' items_status)),
                     the (dst_schema (set_dst ''main.sales.orders'' items_status)),
                     the (dst_table (set_dst ''main.sales.orders'' items_status))] = ''main.sales.orders''"
proof -
  have h: "length (py_split CHR ''.'' ''main.sales.orders'') = 3" by simp
  from h set_dst_roundtrip [OF h, of items_status] show ?thesis by blast
qed

section \<open>Witnesses of the run-level properties\<close>

theorem migrate_tables_idempotent_witness:
  "fst (migrate_tables (mock_env rerun_cfg) None st0) = Inr () \<and>
   remote (snd (migrate_tables (mock_env rerun_cfg) None st0)) = remote st0"
proof -
  have "\<forall>t \<in> set (get_tables_to_migrate (mock_env rerun_cfg) (remote st0)).
          as_uc_table_key (ttm_rule t) \<in> set (dict_keys (seen_index (mock_env rerun_cfg) (remote st0)))"
    by code_simp
  then show ?thesis by (rule migrate_tables_idempotent)
qed

theorem already_upgraded_case_sensitive_witness:
  "fst (table_already_upgraded (as_uc_table_key upper_rule)
          (st0\<lparr>seen_tables := seen_index (mock_env listing_cfg) (remote st0)\<rparr>)) = Inr False"
proof -
  have "lower (as_uc_table_key upper_rule) \<noteq> as_uc_table_key upper_rule"
    by code_simp
  then show ?thesis by (rule already_upgraded_case_sensitive)
qed

section \<open>Witnesses and scenarios of revert\<close>

theorem get_tables_to_revert_selected_witness:
  "get_tables_to_revert (mock_env revert_cfg) (Some ''Sales'') None st_migrated = (Inr [orders, managed_items], st_migrated) \<and>
   orders \<in> set (tc_snapshot (mock_env revert_cfg) (remote st_migrated)) \<and>
   key orders \<in> set (dict_values (seen_tables st_migrated)) \<and> database orders = ''sales''"
proof -
  have h: "get_tables_to_revert (mock_env revert_cfg) (Some ''Sales'') None st_migrated =
      (Inr [orders, managed_items], st_migrated)"
    by code_simp
  have "orders \<in> set [orders, managed_items]" by simp
  from get_tables_to_revert_selected [OF h this] have
    "orders \<in> set (tc_snapshot (mock_env revert_cfg) (remote st_migrated)) \<and>
     key orders \<in> set (dict_values (seen_tables st_migrated))" by blast
  with h show ?thesis by (simp add: orders_def)
qed

theorem revert_table_without_schema_witness:
  "get_tables_to_revert (mock_env revert_cfg) None (Some ''Orders'') st_migrated =
     (Inr [orders], st_migrated\<lparr>logs := [(ERROR, ''Cannot accept 'Table' parameter without 'Schema' parameter'')]\<rparr>)"
proof -
  have "''Orders'' \<noteq> []" by simp
  from revert_table_without_schema [OF this, of "mock_env revert_cfg" st_migrated]
  have "get_tables_to_revert (mock_env revert_cfg) None (Some ''Orders'') st_migrated =
     (Inr (filter (\<lambda>t. name t = lower ''Orders'' \<and> key t \<in> set (dict_values (seen_tables st_migrated)))
             [orders, managed_items]),
      st_migrated\<lparr>logs := logs st_migrated @ [(ERROR, ''Cannot accept 'Table' parameter without 'Schema' parameter'')]\<rparr>)"
    by (simp add: mock_defs)
  moreover have "filter (\<lambda>t. name t = lower ''Orders'' \<and> key t \<in> set (dict_values (seen_tables st_migrated)))
             [orders, managed_items] = [orders]"
    by code_simp
  ultimately show ?thesis by (simp add: st_migrated_def st0_def)
qed

theorem revert_tasks_plan_witness:
  "fst (revert_tasks (mock_env revert_cfg) (dict_invert (seen_tables st_migrated)) False
          [orders, managed_items] st_migrated) =
   Inr [revert_migrated_table (mock_env revert_cfg) orders ''main.sales.orders'']"
proof -
  have "\<forall>t \<in> set [orders, managed_items]. key t \<in> set (dict_values (seen_tables st_migrated))"
    by code_simp
  from revert_tasks_plan [OF this, of "mock_env revert_cfg" False st_migrated]
  have "fst (revert_tasks (mock_env revert_cfg) (dict_invert (seen_tables st_migrated)) False
          [orders, managed_items] st_migrated) =
     Inr (map (\<lambda>t. revert_migrated_table (mock_env revert_cfg) t
                   (the (map_of (dict_invert (seen_tables st_migrated)) (key t))))
            (filter (revert_eligible False) [orders, managed_items]))" .
  moreover have "filter (revert_eligible False) [orders, managed_items] = [orders]"
    by (simp add: revert_eligible_def kind_def mock_defs)
  moreover have "the (map_of (dict_invert (seen_tables st_migrated)) (key orders)) = ''main.sales.orders''"
    by code_simp
  ultimately show ?thesis by simp
qed

theorem revert_migrated_table_steps_witness:
  "revert_migrated_table (mock_env empty_cfg) orders ''main.sales.orders'' st0 =
     (Inr (), st0\<lparr>remote := [UnsetUpgradedTo orders, DropIfExists ''TABLE'' ''main.sales.orders''],
                  logs := [(INFO, ''Reverting EXTERNAL table sales.orders upgraded_to None'')]\<rparr>)"
proof -
  have "revert_migrated_table (mock_env empty_cfg) orders ''main.sales.orders'' st0 =
     (Inr (), st0\<lparr>remote := [UnsetUpgradedTo orders, DropIfExists (kind orders) ''main.sales.orders''],
        logs := logs st0 @ [(INFO, ''Reverting '' @ object_type orders @ '' table '' @ database orders
          @ ''.'' @ name orders @ '' upgraded_to '' @ py_str_opt (upgraded_to orders))]\<rparr>)"
    by (rule revert_migrated_table_steps [where wa = "[UnsetUpgradedTo orders]"])
       (simp_all add: mock_defs sql_defs)
  then show ?thesis by (simp add: mock_defs kind_def py_str_opt_def)
qed

theorem print_revert_report_nothing_witness:
  "\<exists>ls. print_revert_report (mock_env empty_cfg) False st0 =
     (Inr False, st0\<lparr>logs := logs st0 @ ls @ [(INFO, ''No migrated tables were found.'')],
                   seen_tables := seen_index (mock_env empty_cfg) (remote st0)\<rparr>)"
  by (rule print_revert_report_nothing) (simp add: mock_defs)

theorem print_revert_report_prints_witness:
  "\<exists>ls. print_revert_report (mock_env revert_cfg) True st0 =
     (Inr True, st0\<lparr>logs := logs st0 @ ls,
                  stdout := stdout st0 @ report_lines True (revert_counts [orders, managed_items]),
                  seen_tables := seen_index (mock_env revert_cfg) (remote st0)\<rparr>)"
proof -
  have "[orders, managed_items] = filter (\<lambda>t. key t \<in> set (dict_values (seen_index (mock_env revert_cfg) (remote st0))))
      (tc_snapshot (mock_env revert_cfg) (remote st0))"
    by code_simp
  from print_revert_report_prints [OF this] show ?thesis by simp
qed

theorem table_row_width_witness:
  "length (table_row \<lparr>mc_database = ''sales'', mc_what_count = [(DBFS_ROOT_DELTA, 1)]\<rparr>) = length table_header \<and>
   length separator = length table_header + 1"
  by (rule table_row_width) auto


section \<open>Witnesses on the tag world\<close>


theorem migrate_twice_idempotent_witness:
  "fst (migrate_tables tag_env None tst0) = Inr () \<and>
   remote (snd (migrate_tables tag_env None (snd (migrate_tables tag_env None tst0)))) =
   remote (snd (migrate_tables tag_env None tst0))"
proof -
  have "tw_wf (remote tst0)" by (simp add: tst0_def tw0_def tw_wf_def dict_keys_def)
  moreover have "\<forall>p \<in> set (tw_rules (remote tst0)). migratable (remote tst0) p"
    by code_simp
  ultimately show ?thesis by (rule migrate_twice_idempotent)
qed

theorem migrate_revert_roundtrip_witness:
  "fst (revert_migrated_tables tag_env None None True (snd (migrate_tables tag_env None tst0))) = Inr () \<and> tw_objects (remote (snd (revert_migrated_tables tag_env None None True (snd (migrate_tables tag_env None tst0))))) = [] \<and>
   fst (revert_migrated_tables tag_env None None False (snd (migrate_tables tag_env None tst0))) = Inr () \<and>
   tw_objects (remote (snd (revert_migrated_tables tag_env None None False (snd (migrate_tables tag_env None tst0))))) = [((''main'', ''sales'', ''items''), [(''upgraded_from'', ''hive_metastore.sales.items'')])]"
proof -
  have h1: "tw_objects (remote tst0) = []" and h2: "tw_src_tags (remote tst0) = []"
    by (simp_all add: tst0_def tw0_def)
  have h3: "inventory_contract (tw_inventory (remote tst0))"
    by code_simp
  have h4: "mapping_contract (tw_inventory (remote tst0)) (tw_rules (remote tst0))"
    by code_simp
  have h5: "\<forall>p \<in> set (tw_rules (remote tst0)). migratable (remote tst0) p"
    by code_simp
  have h6: "distinct (map (\<lambda>p. as_uc_table_key (ttm_rule p)) (tw_rules (remote tst0)))"
    by code_simp
  have e1: "map (\<lambda>p. (dst_name p, [(''upgraded_from'', key (ttm_src p))])) (filter (\<lambda>p. \<not> revert_eligible True (ttm_src p)) (tw_rules (remote tst0))) = []"
    by code_simp
  have e2: "map (\<lambda>p. (dst_name p, [(''upgraded_from'', key (ttm_src p))])) (filter (\<lambda>p. \<not> revert_eligible False (ttm_src p)) (tw_rules (remote tst0))) =
      [((''main'', ''sales'', ''items''), [(''upgraded_from'', ''hive_metastore.sales.items'')])]"
    by code_simp
  from migrate_revert_roundtrip [OF h1 h2 h3 h4 h5 h6, of True]
    migrate_revert_roundtrip [OF h1 h2 h3 h4 h5 h6, of False] e1 e2
  show ?thesis by simp
qed

theorem migrate_revert_roundtrip_conc_witness:
  "fst (revert_migrated_tables tag_env None None True (snd (migrate_tables tag_env None tst0))) = Inr () \<and> tw_objects (remote (snd (revert_migrated_tables tag_env None None True (snd (migrate_tables tag_env None tst0))))) = []"
proof -
  let ?m = "migrate_tables tag_env None tst0"
  let ?r = "revert_migrated_tables tag_env None None True (snd (migrate_tables tag_env None tst0))"
  have h1: "tw_objects (remote tst0) = []" and h2: "tw_src_tags (remote tst0) = []"
    by (simp_all add: tst0_def tw0_def)
  have h3: "inventory_contract (tw_inventory (remote tst0))"
    by code_simp
  have h4: "mapping_contract (tw_inventory (remote tst0)) (tw_rules (remote tst0))"
    by code_simp
  have h5: "\<forall>p \<in> set (tw_rules (remote tst0)). migratable (remote tst0) p"
    by code_simp
  have h6: "distinct (map (\<lambda>p. as_uc_table_key (ttm_rule p)) (tw_rules (remote tst0)))"
    by code_simp
  have h7: "migrate_tables_conc (Suc 0) tag_env None tst0 (fst ?m, snd ?m)"
    by (simp add: migrate_tables_conc_def run_batch_one_worker migrate_tables_prepare)
  have h8: "revert_migrated_tables_conc (Suc 0) tag_env None None True (snd ?m) (fst ?r, snd ?r)"
    by (simp add: revert_migrated_tables_conc_def run_batch_one_worker revert_migrated_tables_prepare)
  have e1: "map (\<lambda>p. (dst_name p, [(''upgraded_from'', key (ttm_src p))])) (filter (\<lambda>p. \<not> revert_eligible True (ttm_src p)) (tw_rules (remote tst0))) = []"
    by code_simp
  from migrate_revert_roundtrip_conc [OF h1 h2 h3 h4 h5 h6 h7 h8] e1 show ?thesis by simp
qed

text \<open>
  Two sources, one destination: the rule mapping keeps its contract (one rule per
  source) yet sends the external \<open>sales.orders\<close> and the managed \<open>sales.items\<close> to
  \<open>main.sales.orders\<close>. Nothing in \<open>migrate_tables\<close> checks destinations: both
  tasks succeed, the second tag overwrites the first, so the index credits the
  destination to \<open>sales.items\<close> alone, and a revert of everything drops the
  destination that the \<open>orders\<close> sync created. The distinct destinations of the
  round trip (C27) are needed and are not implied by the mapping's contract.
\<close>

theorem destination_collision_scenario:
  "mapping_contract (tw_inventory (remote tst_collide)) (tw_rules (remote tst_collide)) \<and>
   fst (migrate_tables tag_env None tst_collide) = Inr () \<and>
   seen_index tag_env (remote (snd (migrate_tables tag_env None tst_collide))) =
     [(''main.sales.orders'', ''hive_metastore.sales.items'')] \<and>
   tw_objects (remote (snd (revert_migrated_tables tag_env None None True
     (snd (migrate_tables tag_env None tst_collide))))) = []"
  by code_simp

text \<open>
  Across runs, a remapped source: the mapping guarantees one rule per source within a
  run only. A first run migrates \<open>sales.orders\<close> to \<open>main.sales.orders\<close>; the mapping
  then sends it to \<open>main.sales.orders_copy\<close> and a second run migrates it again (the
  new destination is not in the index). Both destinations carry the source in their
  \<open>upgraded_from\<close> tag, and the inverted index of \<open>revert_migrated_tables\<close> keeps one
  destination per source: the revert returns normally and leaves
  \<open>main.sales.orders\<close> in place. The round trip (C27) needs the mapping's one rule
  per source to hold across runs as well.
\<close>

theorem revert_remapped_source_scenario:
  "(let s1 = snd (migrate_tables tag_env None tst_orders);
        s2 = snd (migrate_tables tag_env None
               (s1\<lparr>remote := (remote s1)\<lparr>tw_rules := [\<lparr>ttm_src = orders, ttm_rule = orders_copy_rule\<rparr>]\<rparr>\<rparr>));
        r = revert_migrated_tables tag_env None None True s2
    in map fst (tw_objects (remote s2)) = [(''main'', ''sales'', ''orders''), (''main'', ''sales'', ''orders_copy'')] \<and>
       fst r = Inr () \<and>
       tw_objects (remote (snd r)) = [((''main'', ''sales'', ''orders''), [(''upgraded_from'', ''hive_metastore.sales.orders'')])])"
  by code_simp

end
